theory Spec2Isabelle
  imports Complex_Main "HOL-Library.Word"
begin

section \<open>Values shared by utils.ts and index.ts\<close>

text \<open>
  A parsed JSON document. An object is the list of its properties, each key once;
  \<open>JNum\<close> holds a JSON number, which is a decimal fraction.
\<close>

datatype json =
    JNull
  | JBool bool
  | JNum rat
  | JStr string
  | JArr "json list"
  | JObj "(string \<times> json) list"

text \<open>
  A JavaScript exception is a value. \<open>Error\<close> is \<^verbatim>\<open>new Error(msg)\<close> raised by the
  repository's own code, \<open>TypeError\<close> is the runtime's error for a property read on
  \<^verbatim>\<open>undefined\<close> or \<^verbatim>\<open>null\<close>, \<open>AxiosError\<close> is an error of the HTTP client with the
  body of the response when there was one, and \<open>Failure\<close> is anything else an external
  collaborator (the SDK, fetch, a ledger service) raises.
\<close>

datatype error =
    Error string
  | TypeError string
  | AxiosError "json option"
  | Failure string

text \<open>
  Console output, in the order it is written: \<^verbatim>\<open>console.log(a, b, ...)\<close> and
  \<^verbatim>\<open>console.error(a, b, ...)\<close> with their arguments.
\<close>

datatype logged = Text string | Err error | Json json

datatype console = Log "logged list" | LogError "logged list"

text \<open>
  Reading property \<open>k\<close> of a JSON value: \<^verbatim>\<open>null\<close> has no properties and the read
  raises; an object yields the property or \<^verbatim>\<open>undefined\<close> (\<open>None\<close>); the other values
  have none of the properties this program reads (\<^verbatim>\<open>successful\<close>, \<^verbatim>\<open>detail\<close>,
  \<^verbatim>\<open>extras\<close>, \<^verbatim>\<open>result_codes\<close>, \<^verbatim>\<open>network\<close>, \<^verbatim>\<open>router_address\<close>).
\<close>

definition getProp :: "json \<Rightarrow> string \<Rightarrow> error + json option" where
  "getProp j k =
     (case j of
        JNull \<Rightarrow> Inl (TypeError ''Cannot read properties of null'')
      | JObj props \<Rightarrow> Inr (map_of props k)
      | _ \<Rightarrow> Inr None)"

text \<open>Truthiness, with \<open>None\<close> for \<^verbatim>\<open>undefined\<close>.\<close>

definition truthy :: "json option \<Rightarrow> bool" where
  "truthy v =
     (case v of
        None \<Rightarrow> False
      | Some JNull \<Rightarrow> False
      | Some (JBool b) \<Rightarrow> b
      | Some (JNum n) \<Rightarrow> n \<noteq> 0
      | Some (JStr s) \<Rightarrow> s \<noteq> []
      | Some (JArr _) \<Rightarrow> True
      | Some (JObj _) \<Rightarrow> True)"

section \<open>types.ts and the values of the SDK\<close>

record TestAccount =
  privateKey :: string
  publicKey :: string

text \<open>
  The SDK's values are kept as what the program passes to the SDK. A number that the
  program computes in JavaScript's floating-point arithmetic is kept as the expression
  that computes it, and the text \<^verbatim>\<open>toFixed\<close> makes of it as that expression with the
  number of digits; \<open>valueOf\<close> and \<open>textOf\<close> below evaluate them.
\<close>

datatype JsNumber =
    NumberOf string
  | Literal string
  | Quotient JsNumber JsNumber
  | Product JsNumber JsNumber
  | Difference JsNumber JsNumber
  | Sum JsNumber JsNumber

datatype Decimal = Given string | ToFixed JsNumber nat

datatype Asset = Native | Credit string string

record LiquidityPoolAsset =
  assetA :: Asset
  assetB :: Asset
  fee :: nat

datatype Keypair = Keypair string

record Account =
  accountId :: string
  sequence :: string

datatype ScVal =
    ScvAddress string
  | ScvI128 JsNumber
  | ScvU64 int
  | ScvVec "string list"

datatype Operation =
    Payment string Asset string
  | LiquidityPoolDeposit string string string Decimal Decimal
  | LiquidityPoolWithdraw string string string string
  | InvokeContract string string "ScVal list"

record TransactionBuilder =
  b_source :: Account
  b_fee :: string
  b_networkPassphrase :: string
  b_operations :: "Operation list"
  b_timeout :: "nat option"

text \<open>
  A built transaction: \<open>baseFee\<close> is the fee per operation the builder was given,
  \<open>timeoutSeconds\<close> the number of seconds after the build at which it expires.
\<close>

record Transaction =
  source :: Account
  baseFee :: string
  networkPassphrase :: string
  operations :: "Operation list"
  timeoutSeconds :: "nat option"
  signatures :: "Keypair list"

text \<open>
  The table \<^verbatim>\<open>sdk.Networks\<close> and the constant \<^verbatim>\<open>sdk.BASE_FEE\<close> belong to the SDK and
  are parameters, as is which arguments each SDK constructor refuses: \<open>Some e\<close> is the
  exception it raises. \<open>liquidityPoolId_hex\<close> is \<^verbatim>\<open>sdk.getLiquidityPoolId("constant_product", params)\<close>
  in hexadecimal.
\<close>

record Networks =
  TESTNET :: string
  STANDALONE :: string

record Sdk =
  BASE_FEE :: string
  networks :: Networks
  Keypair_rejects :: "string \<Rightarrow> error option"
  Address_rejects :: "string \<Rightarrow> error option"
  Contract_rejects :: "string \<Rightarrow> error option"
  nativeToScVal_rejects :: "ScVal \<Rightarrow> error option"
  Operation_rejects :: "Operation \<Rightarrow> error option"
  liquidityPoolId_hex :: "LiquidityPoolAsset \<Rightarrow> string"

text \<open>Sequencing of steps that may raise: the first exception ends the sequence.\<close>

definition andThen :: "error + 'a \<Rightarrow> ('a \<Rightarrow> error + 'b) \<Rightarrow> error + 'b" where
  "andThen m f = (case m of Inl e \<Rightarrow> Inl e | Inr x \<Rightarrow> f x)"

definition checked :: "error option \<Rightarrow> 'a \<Rightarrow> error + 'a" where
  "checked rejected v = (case rejected of Some e \<Rightarrow> Inl e | None \<Rightarrow> Inr v)"

definition Keypair_fromSecret :: "Sdk \<Rightarrow> string \<Rightarrow> error + Keypair" where
  "Keypair_fromSecret sdk secret = checked (Keypair_rejects sdk secret) (Keypair secret)"

definition Address_toScVal :: "Sdk \<Rightarrow> string \<Rightarrow> error + ScVal" where
  "Address_toScVal sdk address = checked (Address_rejects sdk address) (ScvAddress address)"

definition nativeToScVal :: "Sdk \<Rightarrow> ScVal \<Rightarrow> error + ScVal" where
  "nativeToScVal sdk v = checked (nativeToScVal_rejects sdk v) v"

definition Operation_new :: "Sdk \<Rightarrow> Operation \<Rightarrow> error + Operation" where
  "Operation_new sdk op = checked (Operation_rejects sdk op) op"

definition Contract_call :: "Sdk \<Rightarrow> string \<Rightarrow> string \<Rightarrow> ScVal list \<Rightarrow> error + Operation" where
  "Contract_call sdk address method params =
     checked (Contract_rejects sdk address) (InvokeContract address method params)"

text \<open>
  \<^verbatim>\<open>new TransactionBuilder(source, {fee, networkPassphrase})\<close>, \<^verbatim>\<open>addOperation\<close>,
  \<^verbatim>\<open>setTimeout\<close>, \<^verbatim>\<open>build\<close>, and \<^verbatim>\<open>sign\<close> of the built transaction.
\<close>

definition TransactionBuilder_new :: "Account \<Rightarrow> string \<Rightarrow> string \<Rightarrow> TransactionBuilder" where
  "TransactionBuilder_new src feePerOperation passphrase =
     \<lparr>b_source = src, b_fee = feePerOperation, b_networkPassphrase = passphrase, b_operations = [],
      b_timeout = None\<rparr>"

definition addOperation :: "TransactionBuilder \<Rightarrow> Operation \<Rightarrow> TransactionBuilder" where
  "addOperation tx op = tx\<lparr>b_operations := b_operations tx @ [op]\<rparr>"

definition setTimeout :: "TransactionBuilder \<Rightarrow> nat \<Rightarrow> TransactionBuilder" where
  "setTimeout tx seconds = tx\<lparr>b_timeout := Some seconds\<rparr>"

definition build :: "TransactionBuilder \<Rightarrow> Transaction" where
  "build tx =
     \<lparr>source = b_source tx, baseFee = b_fee tx, networkPassphrase = b_networkPassphrase tx,
      operations = b_operations tx, timeoutSeconds = b_timeout tx, signatures = []\<rparr>"

definition sign :: "Transaction \<Rightarrow> Keypair \<Rightarrow> Transaction" where
  "sign tx signer = tx\<lparr>signatures := signatures tx @ [signer]\<rparr>"

text \<open>
  The two ledger services. Each field is what the call of that name resolves to, \<open>Inl\<close>
  when its promise rejects. \<^verbatim>\<open>getTransaction(hash)\<close> changes its answer with time:
  \<open>getTransaction srv hash k\<close> is the answer to the \<open>k\<close>-th call for \<open>hash\<close>, counted
  from 0.
\<close>

datatype GetTransactionStatus = SUCCESS | NOT_FOUND | FAILED

record GetTransactionResponse =
  status :: GetTransactionStatus
  resultMetaXdr :: string

record HorizonServer =
  loadAccount :: "string \<Rightarrow> error + Account"
  submitTransaction :: "Transaction \<Rightarrow> error + string"

record SorobanServer =
  getAccount :: "string \<Rightarrow> error + Account"
  prepareTransaction :: "Transaction \<Rightarrow> error + Transaction"
  sendTransaction :: "Transaction \<Rightarrow> error + string"
  getTransaction :: "string \<Rightarrow> nat \<Rightarrow> error + GetTransactionResponse"

section \<open>utils.ts\<close>

subsection \<open>getNetworkPassphrase\<close>

definition getNetworkPassphrase :: "Networks \<Rightarrow> string \<Rightarrow> error + string" where
  "getNetworkPassphrase nets network =
     (if network = ''testnet'' then Inr (TESTNET nets)
      else if network = ''standalone'' then Inr (STANDALONE nets)
      else Inl (Error ''Unsupported network. Only standalone and testnet are supported.''))"

subsection \<open>waitForConfirmation\<close>

text \<open>
  The state of the loop: how many queries were made, and the interval in milliseconds
  of each \<^verbatim>\<open>setTimeout\<close> suspension, in order.
\<close>

record poll_state =
  queries :: nat
  suspensions :: "nat list"

definition poll_start :: poll_state where
  "poll_start = \<lparr>queries = 0, suspensions = []\<rparr>"

text \<open>
  The \<^verbatim>\<open>do ... while (true)\<close> loop. It has no other exit than the \<^verbatim>\<open>break\<close> and a
  rejected \<^verbatim>\<open>await\<close>, so the result is optional: \<open>None\<close> is a promise that never
  settles.
\<close>

partial_function (option) waitForConfirmation_loop ::
  "string \<Rightarrow> SorobanServer \<Rightarrow> poll_state \<Rightarrow> ((error + GetTransactionResponse) \<times> poll_state) option"
where
  "waitForConfirmation_loop hash server st =
     (case getTransaction server hash (queries st) of
        Inl e \<Rightarrow> Some (Inl e, st\<lparr>queries := Suc (queries st)\<rparr>)
      | Inr confirmation \<Rightarrow>
          if status confirmation \<noteq> NOT_FOUND
          then Some (Inr confirmation, st\<lparr>queries := Suc (queries st)\<rparr>)
          else waitForConfirmation_loop hash server
                 (st\<lparr>queries := Suc (queries st), suspensions := suspensions st @ [1000]\<rparr>))"

definition waitForConfirmation ::
  "string \<Rightarrow> SorobanServer \<Rightarrow> ((error + GetTransactionResponse) \<times> poll_state) option" where
  "waitForConfirmation hash server = waitForConfirmation_loop hash server poll_start"

subsection \<open>getCurrentTimePlusOneHour\<close>

text \<open>
  \<^verbatim>\<open>Date.now()\<close> is an integral number of milliseconds and is passed in as \<open>now\<close>.
  For every time a \<^verbatim>\<open>Date\<close> can hold (at most 8.64e15 ms from the epoch) the sum is
  an integer below \<open>2 ^ 53\<close> and so exact, and the rounding of the quotient by 1000 is
  too small to reach the next integer, so \<^verbatim>\<open>Math.floor\<close> of it is integer division.
\<close>

definition getCurrentTimePlusOneHour :: "int \<Rightarrow> int" where
  "getCurrentTimePlusOneHour now =
     (let oneHourLater = now + 36000000;
          oneHourLaterSeconds = oneHourLater div 1000
      in oneHourLaterSeconds)"

subsection \<open>hexToByte\<close>

text \<open>
  A JavaScript string is a sequence of code units; the model has the code units below
  256. White space for \<^verbatim>\<open>parseInt\<close> in that range is TAB, LF, VT, FF, CR, space and
  the no-break space.
\<close>

definition isWhiteSpace :: "char \<Rightarrow> bool" where
  "isWhiteSpace c = ((of_char c :: nat) \<in> {9, 10, 11, 12, 13, 32, 160})"

definition hexDigitValue :: "char \<Rightarrow> nat option" where
  "hexDigitValue c =
     (let n = (of_char c :: nat)
      in if 48 \<le> n \<and> n \<le> 57 then Some (n - 48)
         else if 97 \<le> n \<and> n \<le> 102 then Some (n - 87)
         else if 65 \<le> n \<and> n \<le> 70 then Some (n - 55)
         else None)"

definition isHexDigit :: "char \<Rightarrow> bool" where
  "isHexDigit c = (hexDigitValue c \<noteq> None)"

text \<open>
  \<^verbatim>\<open>parseInt(s, 16)\<close>: leading white space is skipped, then an optional sign, then an
  optional \<^verbatim>\<open>0x\<close> or \<^verbatim>\<open>0X\<close>; the longest run of hexadecimal digits that follows is the
  number, and \<open>None\<close> is \<^verbatim>\<open>NaN\<close> when that run is empty. The source calls it on at most
  two characters, where the result is exact.
\<close>

definition parseInt16 :: "string \<Rightarrow> int option" where
  "parseInt16 s =
     (let s1 = dropWhile isWhiteSpace s;
          sign = (if take 1 s1 = ''-'' then - 1 else (1::int));
          s2 = (if take 1 s1 = ''-'' \<or> take 1 s1 = ''+'' then drop 1 s1 else s1);
          s3 = (if take 2 s2 = ''0x'' \<or> take 2 s2 = ''0X'' then drop 2 s2 else s2);
          ds = takeWhile isHexDigit s3
      in if ds = [] then None
         else Some (sign * int (foldl (\<lambda>acc c. 16 * acc + the (hexDigitValue c)) 0 ds)))"

text \<open>\<^verbatim>\<open>hexString.substr(start, len)\<close> for non-negative arguments.\<close>

definition substr :: "string \<Rightarrow> nat \<Rightarrow> nat \<Rightarrow> string" where
  "substr s start len = take len (drop start s)"

text \<open>
  A store into a \<^verbatim>\<open>Uint8Array\<close> element converts the number modulo 256, and \<^verbatim>\<open>NaN\<close>
  to 0. Every index the loop writes is below the length of the array.
\<close>

definition toUint8 :: "int option \<Rightarrow> 8 word" where
  "toUint8 v = (case v of None \<Rightarrow> 0 | Some n \<Rightarrow> word_of_int n)"

function hexToByte_loop :: "string \<Rightarrow> nat \<Rightarrow> nat \<Rightarrow> 8 word list \<Rightarrow> 8 word list" where
  "hexToByte_loop hexString numBytes i byteArray =
     (if i < numBytes
      then hexToByte_loop hexString numBytes (i + 1)
             (byteArray[i := toUint8 (parseInt16 (substr hexString (i * 2) 2))])
      else byteArray)"
  by pat_completeness auto
termination
  by (relation "measure (\<lambda>(hexString, numBytes, i, byteArray). numBytes - i)") auto

declare hexToByte_loop.simps [simp del]

definition hexToByte :: "string \<Rightarrow> error + 8 word list" where
  "hexToByte hexString =
     (if length hexString mod 2 \<noteq> 0
      then Inl (Error ''Must have an even number of hex digits to convert to bytes'')
      else let numBytes = length hexString div 2;
               byteArray = replicate numBytes 0
           in Inr (hexToByte_loop hexString numBytes 0 byteArray))"

text \<open>
  The encoding the round trip is measured against: each byte as two lower-case
  hexadecimal digits, high nibble first.
\<close>

definition hexDigit :: "nat \<Rightarrow> char" where
  "hexDigit n = (if n < 10 then char_of (48 + n) else char_of (87 + n))"

definition byteToHex :: "8 word \<Rightarrow> string" where
  "byteToHex b = [hexDigit (unat b div 16), hexDigit (unat b mod 16)]"

definition bytesToHex :: "8 word list \<Rightarrow> string" where
  "bytesToHex bs = concat (map byteToHex bs)"

definition toLowerCase :: "char \<Rightarrow> char" where
  "toLowerCase c =
     (let n = (of_char c :: nat) in if 65 \<le> n \<and> n \<le> 90 then char_of (n + 32) else c)"

subsection \<open>getRouterContractAddress\<close>

text \<open>
  \<open>axios_get\<close> is what \<^verbatim>\<open>axios.get(url)\<close> settles to: the \<^verbatim>\<open>data\<close> of the
  response, or the exception of a failed request. The data is whatever the endpoint
  sent: the parsed body when that is JSON, the body as a string when it is not, and
  \<open>None\<close> for \<^verbatim>\<open>undefined\<close>; the type the callback declares for the records is erased
  when the program runs.

  \<^verbatim>\<open>data.find\<close> is the method of arrays: the call raises when the data is anything
  else. \<^verbatim>\<open>find\<close> hands the elements to the callback in their order and yields the first
  for which the callback answers \<^verbatim>\<open>true\<close>, \<^verbatim>\<open>undefined\<close> when there is none; an
  exception of the callback ends the search.
\<close>

fun Array_find :: "(json \<Rightarrow> error + bool) \<Rightarrow> json list \<Rightarrow> error + json option" where
  "Array_find predicate [] = Inr None"
| "Array_find predicate (element # rest) =
     (case predicate element of
        Inl e \<Rightarrow> Inl e
      | Inr found \<Rightarrow> if found then Inr (Some element) else Array_find predicate rest)"

definition find_method :: "json option \<Rightarrow> (json \<Rightarrow> error + bool) \<Rightarrow> error + json option" where
  "find_method data predicate =
     (case data of
        None \<Rightarrow> Inl (TypeError ''Cannot read properties of undefined'')
      | Some JNull \<Rightarrow> Inl (TypeError ''Cannot read properties of null'')
      | Some (JArr elements) \<Rightarrow> Array_find predicate elements
      | Some _ \<Rightarrow> Inl (TypeError ''data.find is not a function''))"

text \<open>
  The callback reads \<^verbatim>\<open>network\<close> of the element, which raises on \<^verbatim>\<open>null\<close>, and
  compares it to the requested name with \<^verbatim>\<open>===\<close>. Reading \<^verbatim>\<open>router_address\<close> of
  \<^verbatim>\<open>undefined\<close> raises; of the element that was found it yields the property as it
  is, \<^verbatim>\<open>undefined\<close> when the element has none. The \<^verbatim>\<open>catch\<close> logs whatever was raised
  and the function falls through to \<^verbatim>\<open>return "error"\<close>. The result is what the promise
  settles to, \<open>Inl\<close> for a rejection, with what was written to the console.
\<close>

definition getRouterContractAddress ::
  "(string \<Rightarrow> error + json option) \<Rightarrow> string \<Rightarrow> string \<Rightarrow> (error + json option) \<times> console list"
where
  "getRouterContractAddress axios_get uri requested =
     (case andThen (axios_get (uri @ ''/api/router'')) (\<lambda>data.
           andThen (find_method data
                      (\<lambda>router. andThen (getProp router ''network'') (\<lambda>n.
                         Inr (n = Some (JStr requested))))) (\<lambda>router.
           case router of
             None \<Rightarrow> Inl (TypeError ''Cannot read properties of undefined'')
           | Some found \<Rightarrow> getProp found ''router_address'')) of
        Inr address \<Rightarrow> (Inr address, [])
      | Inl error \<Rightarrow> (Inr (Some (JStr ''error'')), [Log [Text ''error:'', Err error]]))"

subsection \<open>getLiquidityPoolId\<close>

definition getLiquidityPoolId :: "Sdk \<Rightarrow> LiquidityPoolAsset \<Rightarrow> string" where
  "getLiquidityPoolId sdk liquidityPoolAsset = liquidityPoolId_hex sdk liquidityPoolAsset"

subsection \<open>showErrorResultCodes\<close>

text \<open>
  An error of the HTTP client that carries a response is an API error; its body is
  searched for \<^verbatim>\<open>extras.result_codes\<close>. Each property is read only of a truthy value,
  so no read raises.
\<close>

definition unexpectedFormat :: "error \<Rightarrow> console list" where
  "unexpectedFormat error =
     [Log [Text ''error:'', Err error], Log [Text ''Error does not have the expected format'']]"

definition showErrorResultCodes :: "error \<Rightarrow> console list" where
  "showErrorResultCodes error =
     (case error of
        AxiosError (Some apiError) \<Rightarrow>
          (case (if truthy (Some apiError) then getProp apiError ''extras'' else Inr None) of
             Inr (Some extras) \<Rightarrow>
               (case (if truthy (Some extras) then getProp extras ''result_codes'' else Inr None) of
                  Inr (Some result_codes) \<Rightarrow>
                    if truthy (Some result_codes)
                    then [Log [Text ''Result Codes:'', Json result_codes]]
                    else unexpectedFormat error
                | _ \<Rightarrow> unexpectedFormat error)
           | _ \<Rightarrow> unexpectedFormat error)
      | _ \<Rightarrow> [LogError [Text ''Non-API error occurred:'', Err error]])"

section \<open>The numbers of the runtime\<close>

text \<open>
  A JavaScript number is an IEEE 754 binary64 value: \<^verbatim>\<open>NaN\<close>, an infinity with its
  sign (\<open>True\<close> for negative), or a finite value kept as its sign and its magnitude, a
  rational with at most 53 significant bits; \<open>Finite True 0\<close> is the negative zero.
\<close>

datatype js_number = NaN | Infinity bool | Finite bool rat

subsection \<open>Rounding to binary64\<close>

text \<open>The number of bits of a positive integer.\<close>

function bitLength :: "int \<Rightarrow> nat" where
  "bitLength n = (if n \<le> 0 then 0 else Suc (bitLength (n div 2)))"
  by pat_completeness auto
termination
  by (relation "measure nat") auto

declare bitLength.simps [simp del]

text \<open>The exponent \<open>e\<close> of a positive rational \<open>m\<close>: \<open>2 powi e \<le> m < 2 powi (e + 1)\<close>.\<close>

definition floorlog2 :: "rat \<Rightarrow> int" where
  "floorlog2 m =
     (let (a, b) = quotient_of m;
          d = int (bitLength a) - int (bitLength b)
      in if 2 powi d \<le> m then d else d - 1)"

definition roundHalfEven :: "rat \<Rightarrow> int" where
  "roundHalfEven r =
     (let f = \<lfloor>r\<rfloor>; d = r - of_int f
      in if d < 1 / 2 then f else if 1 / 2 < d then f + 1 else if even f then f else f + 1)"

text \<open>
  The binary64 value nearest to a non-negative rational, ties to the even significand:
  the spacing of the values around \<open>m\<close> is \<open>2 powi (e - 52)\<close> for the exponent \<open>e\<close> of
  \<open>m\<close>, and no less than \<open>2 powi (- 1074)\<close>. \<open>None\<close> is the overflow to infinity.
\<close>

definition round64 :: "rat \<Rightarrow> rat option" where
  "round64 m =
     (if m = 0 then Some 0
      else let e = max (floorlog2 m) (- 1022);
               q = 2 powi (e - 52);
               r = of_int (roundHalfEven (m / q)) * q
           in if 2 ^ 1024 \<le> r then None else Some r)"

definition fromRat :: "bool \<Rightarrow> rat \<Rightarrow> js_number" where
  "fromRat negative m =
     (case round64 m of None \<Rightarrow> Infinity negative | Some r \<Rightarrow> Finite negative r)"

subsection \<open>Arithmetic\<close>

text \<open>
  The operators \<^verbatim>\<open>*\<close>, \<^verbatim>\<open>/\<close>, \<^verbatim>\<open>+\<close> and \<^verbatim>\<open>-\<close>: the exact result, rounded.
\<close>

fun js_mul :: "js_number \<Rightarrow> js_number \<Rightarrow> js_number" where
  "js_mul NaN y = NaN"
| "js_mul x NaN = NaN"
| "js_mul (Infinity s) (Infinity t) = Infinity (s \<noteq> t)"
| "js_mul (Infinity s) (Finite t b) = (if b = 0 then NaN else Infinity (s \<noteq> t))"
| "js_mul (Finite s a) (Infinity t) = (if a = 0 then NaN else Infinity (s \<noteq> t))"
| "js_mul (Finite s a) (Finite t b) = fromRat (s \<noteq> t) (a * b)"

fun js_div :: "js_number \<Rightarrow> js_number \<Rightarrow> js_number" where
  "js_div NaN y = NaN"
| "js_div x NaN = NaN"
| "js_div (Infinity s) (Infinity t) = NaN"
| "js_div (Infinity s) (Finite t b) = Infinity (s \<noteq> t)"
| "js_div (Finite s a) (Infinity t) = Finite (s \<noteq> t) 0"
| "js_div (Finite s a) (Finite t b) =
     (if b = 0 then (if a = 0 then NaN else Infinity (s \<noteq> t))
      else fromRat (s \<noteq> t) (a / b))"

definition signedValue :: "bool \<Rightarrow> rat \<Rightarrow> rat" where
  "signedValue negative m = (if negative then - m else m)"

fun js_add :: "js_number \<Rightarrow> js_number \<Rightarrow> js_number" where
  "js_add NaN y = NaN"
| "js_add x NaN = NaN"
| "js_add (Infinity s) (Infinity t) = (if s = t then Infinity s else NaN)"
| "js_add (Infinity s) (Finite t b) = Infinity s"
| "js_add (Finite s a) (Infinity t) = Infinity t"
| "js_add (Finite s a) (Finite t b) =
     (let v = signedValue s a + signedValue t b
      in if v = 0 then Finite (s \<and> t) 0 else fromRat (v < 0) \<bar>v\<bar>)"

fun js_neg :: "js_number \<Rightarrow> js_number" where
  "js_neg NaN = NaN"
| "js_neg (Infinity s) = Infinity (\<not> s)"
| "js_neg (Finite s a) = Finite (\<not> s) a"

definition js_sub :: "js_number \<Rightarrow> js_number \<Rightarrow> js_number" where
  "js_sub x y = js_add x (js_neg y)"

subsection \<open>\<^verbatim>\<open>Number(string)\<close>\<close>

text \<open>
  \<^verbatim>\<open>Number\<close> applied to a string: white space around the text is dropped; the empty
  text is 0; a text that starts with \<^verbatim>\<open>0x\<close>, \<^verbatim>\<open>0o\<close> or \<^verbatim>\<open>0b\<close> is an unsigned integer
  in that radix; any other text is an optional sign and then \<^verbatim>\<open>Infinity\<close> or a decimal
  literal: digits, an optional point and digits, an optional exponent. The value is
  the exact value of the literal, rounded; a text of no such form is \<^verbatim>\<open>NaN\<close>.
\<close>

definition isDigit :: "char \<Rightarrow> bool" where
  "isDigit c = (48 \<le> (of_char c :: nat) \<and> (of_char c :: nat) \<le> 57)"

definition digitsValue :: "int \<Rightarrow> string \<Rightarrow> int" where
  "digitsValue base ds = foldl (\<lambda>acc c. base * acc + int (the (hexDigitValue c))) 0 ds"

definition trim :: "string \<Rightarrow> string" where
  "trim s = rev (dropWhile isWhiteSpace (rev (dropWhile isWhiteSpace s)))"

definition radixLiteral :: "nat \<Rightarrow> string \<Rightarrow> js_number" where
  "radixLiteral base ds =
     (if ds \<noteq> [] \<and> list_all (\<lambda>c. case hexDigitValue c of Some v \<Rightarrow> v < base | None \<Rightarrow> False) ds
      then fromRat False (of_int (digitsValue (int base) ds))
      else NaN)"

definition decimalLiteral :: "bool \<Rightarrow> string \<Rightarrow> js_number" where
  "decimalLiteral negative rest =
     (if rest = ''Infinity'' then Infinity negative
      else let ip = takeWhile isDigit rest;
               r1 = dropWhile isDigit rest;
               fp = (if take 1 r1 = ''.'' then takeWhile isDigit (drop 1 r1) else []);
               r2 = (if take 1 r1 = ''.'' then dropWhile isDigit (drop 1 r1) else r1);
               r3 = drop 1 r2;
               r4 = (if take 1 r3 = ''-'' \<or> take 1 r3 = ''+'' then drop 1 r3 else r3);
               exponent = (if take 1 r3 = ''-'' then - digitsValue 10 r4 else digitsValue 10 r4);
               mantissa = of_int (digitsValue 10 (ip @ fp))
           in if ip = [] \<and> fp = [] then NaN
              else if r2 = [] then fromRat negative (mantissa * 10 powi (- int (length fp)))
              else if (take 1 r2 = ''e'' \<or> take 1 r2 = ''E'') \<and> r4 \<noteq> [] \<and> list_all isDigit r4
                   then fromRat negative (mantissa * 10 powi (exponent - int (length fp)))
                   else NaN)"

definition Number :: "string \<Rightarrow> js_number" where
  "Number s =
     (let t = trim s
      in if t = [] then Finite False 0
         else if take 2 t = ''0x'' \<or> take 2 t = ''0X'' then radixLiteral 16 (drop 2 t)
         else if take 2 t = ''0o'' \<or> take 2 t = ''0O'' then radixLiteral 8 (drop 2 t)
         else if take 2 t = ''0b'' \<or> take 2 t = ''0B'' then radixLiteral 2 (drop 2 t)
         else decimalLiteral (take 1 t = ''-'')
                (if take 1 t = ''-'' \<or> take 1 t = ''+'' then drop 1 t else t))"

subsection \<open>\<^verbatim>\<open>toFixed\<close>\<close>

definition digitChar :: "nat \<Rightarrow> char" where
  "digitChar n = char_of (48 + n)"

function decimalDigits :: "int \<Rightarrow> string" where
  "decimalDigits n =
     (if n < 10 then [digitChar (nat n)]
      else decimalDigits (n div 10) @ [digitChar (nat (n mod 10))])"
  by pat_completeness auto
termination
  by (relation "measure nat") auto

declare decimalDigits.simps [simp del]

text \<open>
  The text of \<open>n / 10 ^ f\<close> for an integer \<open>n \<ge> 0\<close>: the digits of \<open>n\<close>, with zeros in
  front until there are \<open>f + 1\<close> of them, and a point before the last \<open>f\<close>.
\<close>

definition fixedNotation :: "int \<Rightarrow> nat \<Rightarrow> string" where
  "fixedNotation n f =
     (let m = decimalDigits n;
          m = (if length m \<le> f then replicate (f + 1 - length m) CHR ''0'' @ m else m)
      in if f = 0 then m else take (length m - f) m @ ''.'' @ drop (length m - f) m)"

text \<open>
  A value of \<open>10 ^ 21\<close> or more is printed by \<^verbatim>\<open>toString\<close>, which there writes the
  exponential notation of the shortest decimal \<open>s * 10 ^ (n - k)\<close>, with \<open>k\<close> digits in
  \<open>s\<close>, that rounds to the value, and of the nearest such decimal when there are several.
\<close>

definition shortestCandidates :: "rat \<Rightarrow> nat \<Rightarrow> (int \<times> nat) list" where
  "shortestCandidates m k =
     (let D = length (decimalDigits \<lfloor>m\<rfloor>)
      in [(s, n). n \<leftarrow> [D, D + 1],
                  s \<leftarrow> [\<lfloor>m / 10 ^ (n - k)\<rfloor>, \<lfloor>m / 10 ^ (n - k)\<rfloor> + 1],
                  10 ^ (k - 1) \<le> s \<and> s < 10 ^ k \<and> round64 (of_int s * 10 ^ (n - k)) = Some m])"

definition nearer :: "rat \<Rightarrow> nat \<Rightarrow> int \<times> nat \<Rightarrow> int \<times> nat \<Rightarrow> int \<times> nat" where
  "nearer m k c c' =
     (let d = \<bar>of_int (fst c) * 10 ^ (snd c - k) - m\<bar>;
          d' = \<bar>of_int (fst c') * 10 ^ (snd c' - k) - m\<bar>
      in if d' < d \<or> (d' = d \<and> even (fst c') \<and> odd (fst c)) then c' else c)"

definition exponentNotation :: "int \<Rightarrow> nat \<Rightarrow> string" where
  "exponentNotation s n =
     (let d = decimalDigits s
      in (if length d = 1 then d else take 1 d @ ''.'' @ drop 1 d) @ ''e+'' @ decimalDigits (int n - 1))"

definition toStringLarge :: "rat \<Rightarrow> string" where
  "toStringLarge m =
     (case find (\<lambda>k. shortestCandidates m k \<noteq> []) [1..<18] of
        Some k \<Rightarrow>
          (case shortestCandidates m k of
             c # cs \<Rightarrow> (let b = foldl (nearer m k) c cs in exponentNotation (fst b) (snd b))
           | [] \<Rightarrow> [])
      | None \<Rightarrow> [])"

text \<open>
  \<^verbatim>\<open>x.toFixed(f)\<close> for \<open>0 \<le> f \<le> 100\<close>: below \<open>10 ^ 21\<close> the text of \<open>n / 10 ^ f\<close> for
  the integer \<open>n\<close> that makes \<open>n / 10 ^ f\<close> nearest to the magnitude of \<open>x\<close>, the larger
  \<open>n\<close> when two are as near, after a minus sign when \<open>x\<close> is below zero.
\<close>

definition toFixed :: "js_number \<Rightarrow> nat \<Rightarrow> string" where
  "toFixed x f =
     (case x of
        NaN \<Rightarrow> ''NaN''
      | Infinity negative \<Rightarrow> (if negative then ''-Infinity'' else ''Infinity'')
      | Finite negative m \<Rightarrow>
          (if negative \<and> m \<noteq> 0 then ''-'' else []) @
          (if 10 ^ 21 \<le> m then toStringLarge m
           else fixedNotation \<lfloor>m * 10 ^ f + 1 / 2\<rfloor> f))"

subsection \<open>The value of an expression\<close>

text \<open>
  What the expressions of \<open>JsNumber\<close> and \<open>Decimal\<close> evaluate to; a literal of the
  source text is read as \<^verbatim>\<open>Number\<close> reads a string.
\<close>

fun valueOf :: "JsNumber \<Rightarrow> js_number" where
  "valueOf (NumberOf s) = Number s"
| "valueOf (Literal s) = Number s"
| "valueOf (Quotient x y) = js_div (valueOf x) (valueOf y)"
| "valueOf (Product x y) = js_mul (valueOf x) (valueOf y)"
| "valueOf (Difference x y) = js_sub (valueOf x) (valueOf y)"
| "valueOf (Sum x y) = js_add (valueOf x) (valueOf y)"

fun textOf :: "Decimal \<Rightarrow> string" where
  "textOf (Given s) = s"
| "textOf (ToFixed x f) = toFixed (valueOf x) f"

section \<open>index.ts\<close>

record paymentArgs =
  amount :: string
  asset :: Asset
  from' :: TestAccount
  to :: string

record liquidityPoolWithdrawArgs =
  amount :: string
  minAmountA :: string
  minAmountB :: string
  poolAsset :: LiquidityPoolAsset
  source :: TestAccount

record mintTokensArgs =
  amount :: string
  contractId :: string
  destination :: string
  source :: TestAccount

record addLiquiditySoroswapArgs =
  amountADesired :: string
  amountAMin :: string
  amountBDesired :: string
  amountBMin :: string
  source :: TestAccount
  to :: TestAccount
  tokenA :: string
  tokenB :: string

record removeLiquiditySoroswapArgs =
  amountAMin :: string
  amountBMin :: string
  liquidity :: string
  source :: TestAccount
  to :: TestAccount
  tokenA :: string
  tokenB :: string

record swapArgs =
  source :: TestAccount
  amountIn :: string
  amountOutMin :: string
  path :: "string list"
  to :: TestAccount

record TxMaker =
  horizonServer :: HorizonServer
  sorobanServer :: SorobanServer
  friendbotURI :: string
  routerContractAddress :: string
  network :: string

text \<open>
  What a method's promise comes to: \<open>None\<close> when it never settles, \<open>Some (Inl e, out)\<close>
  when it rejects with \<open>e\<close>, \<open>Some (Inr v, out)\<close> when it fulfils with \<open>v\<close>; \<open>out\<close> is
  what was written to the console. A fulfilled facade method yields the confirmation,
  the object \<^verbatim>\<open>{ status: "error", error: error }\<close>, or \<^verbatim>\<open>undefined\<close> when the
  function body ends without \<^verbatim>\<open>return\<close>.
\<close>

datatype facade_result =
    Confirmation GetTransactionResponse
  | ErrorResult error
  | Undefined

type_synonym 'a promise = "((error + 'a) \<times> console list) option"

subsection \<open>TxMaker.buildTx\<close>

definition buildTx ::
  "TxMaker \<Rightarrow> Sdk \<Rightarrow> Account \<Rightarrow> Keypair \<Rightarrow> Operation list \<Rightarrow> error + Transaction" where
  "buildTx this sdk src signer ops =
     andThen (getNetworkPassphrase (networks sdk) (network this)) (\<lambda>passphrase.
       let tx = TransactionBuilder_new src (BASE_FEE sdk) passphrase;
           tx = foldl addOperation tx ops;
           txBuilt = build (setTimeout tx 30);
           txBuilt = sign txBuilt signer
       in Inr txBuilt)"

subsection \<open>TxMaker.fundAccount\<close>

text \<open>
  \<open>fetch\<close> is what \<^verbatim>\<open>fetch(url)\<close> resolves to, and inside it what \<^verbatim>\<open>response.json()\<close>
  of that response resolves to. The whole body is inside \<^verbatim>\<open>try\<close>; nothing is
  written to the console before the last statement of a branch.
\<close>

record Runtime =
  encodeURIComponent :: "string \<Rightarrow> error + string"
  fetch :: "string \<Rightarrow> error + (error + json)"

definition alreadyExists :: string where
  "alreadyExists = ''createAccountAlreadyExist (AAAAAAAAAGT/////AAAAAQAAAAAAAAAA/////AAAAAA=)''"

definition newline :: string where
  "newline = [CHR 0x0A]"

definition fundAccount :: "TxMaker \<Rightarrow> Runtime \<Rightarrow> TestAccount \<Rightarrow> (error + unit) \<times> console list" where
  "fundAccount this rt account =
     (case andThen (encodeURIComponent rt (publicKey account)) (\<lambda>key.
           andThen (fetch rt (friendbotURI this @ key)) (\<lambda>response.
           andThen response (\<lambda>responseJSON.
           andThen (getProp responseJSON ''successful'') (\<lambda>successful.
             if truthy successful
             then Inr [Log [Text (''SUCCESS! You have a new account :)'' @ newline)]]
             else andThen (getProp responseJSON ''detail'') (\<lambda>detail.
               if detail = Some (JStr alreadyExists)
               then Inr [Log [Text ''Account already exists:'']]
               else Inr [LogError [Text (''ERROR! :('' @ newline), Json responseJSON]]))))) of
        Inr out \<Rightarrow> (Inr (), out)
      | Inl error \<Rightarrow> (Inr (), LogError [Text ''ERROR!'', Err error] # showErrorResultCodes error))"

subsection \<open>Submitting and confirming\<close>

text \<open>
  The two statements every \<^verbatim>\<open>try\<close> block ends with: await the submission, then
  \<^verbatim>\<open>waitForConfirmation\<close> of the hash it returned.
\<close>

definition submitAndConfirm ::
  "error + string \<Rightarrow> SorobanServer \<Rightarrow> (error + GetTransactionResponse) option" where
  "submitAndConfirm submitted server =
     (case submitted of
        Inl e \<Rightarrow> Some (Inl e)
      | Inr hash \<Rightarrow> map_option fst (waitForConfirmation hash server))"

text \<open>
  The three \<^verbatim>\<open>catch\<close> blocks of the class: the one of \<^verbatim>\<open>payment\<close>,
  \<^verbatim>\<open>liquidityPoolDeposit\<close> and \<^verbatim>\<open>liquidityPoolWithdraw\<close>, the one of
  \<^verbatim>\<open>mintTokens\<close>, and the one of the three router methods, which has no
  \<^verbatim>\<open>return\<close>.
\<close>

definition catchHorizon :: "error \<Rightarrow> (error + facade_result) \<times> console list" where
  "catchHorizon error =
     (Inr (ErrorResult error), LogError [Text ''ERROR!'', Err error] # showErrorResultCodes error)"

definition catchMint :: "error \<Rightarrow> (error + facade_result) \<times> console list" where
  "catchMint error =
     (Inr (ErrorResult error), showErrorResultCodes error @ [Log [Text ''error:'', Err error]])"

definition catchRouter :: "error \<Rightarrow> (error + facade_result) \<times> console list" where
  "catchRouter error = (Inr Undefined, showErrorResultCodes error @ [LogError [Err error]])"

text \<open>
  A method: the statements before \<^verbatim>\<open>try\<close>, whose exception rejects the promise; then
  the \<^verbatim>\<open>try\<close> block, whose exception goes to the \<^verbatim>\<open>catch\<close> block.
\<close>

definition tryCatch ::
  "(error + GetTransactionResponse) option \<Rightarrow> (error \<Rightarrow> (error + facade_result) \<times> console list)
     \<Rightarrow> facade_result promise" where
  "tryCatch body handler =
     (case body of
        None \<Rightarrow> None
      | Some (Inr confirmation) \<Rightarrow> Some (Inr (Confirmation confirmation), [])
      | Some (Inl error) \<Rightarrow> Some (handler error))"

definition beforeTry :: "error + 'a \<Rightarrow> ('a \<Rightarrow> facade_result promise) \<Rightarrow> facade_result promise" where
  "beforeTry pre rest = (case pre of Inl e \<Rightarrow> Some (Inl e, []) | Inr x \<Rightarrow> rest x)"

subsection \<open>TxMaker.payment\<close>

definition payment :: "TxMaker \<Rightarrow> Sdk \<Rightarrow> paymentArgs \<Rightarrow> facade_result promise" where
  "payment this sdk args =
     beforeTry
       (andThen (Keypair_fromSecret sdk (privateKey (from' args))) (\<lambda>sourceKeypair.
        andThen (loadAccount (horizonServer this) (publicKey (from' args))) (\<lambda>src.
        andThen (Operation_new sdk
                   (Payment (paymentArgs.amount args) (asset args) (paymentArgs.to args))) (\<lambda>op.
        buildTx this sdk src sourceKeypair [op]))))
       (\<lambda>tx. tryCatch
          (submitAndConfirm (submitTransaction (horizonServer this) tx) (sorobanServer this))
          catchHorizon)"

subsection \<open>TxMaker.liquidityPoolDeposit\<close>

text \<open>
  The three numbers the method computes before its \<^verbatim>\<open>try\<close> block; no step of the
  computation can raise.
\<close>

definition exactPrice :: "string \<Rightarrow> string \<Rightarrow> JsNumber" where
  "exactPrice maxReserveA maxReserveB = Quotient (NumberOf maxReserveA) (NumberOf maxReserveB)"

definition minPrice :: "string \<Rightarrow> string \<Rightarrow> JsNumber" where
  "minPrice maxReserveA maxReserveB =
     Difference (exactPrice maxReserveA maxReserveB)
       (Product (exactPrice maxReserveA maxReserveB) (Literal ''0.1''))"

definition maxPrice :: "string \<Rightarrow> string \<Rightarrow> JsNumber" where
  "maxPrice maxReserveA maxReserveB =
     Sum (exactPrice maxReserveA maxReserveB)
       (Product (exactPrice maxReserveA maxReserveB) (Literal ''0.1''))"

text \<open>The operation the method hands to the SDK.\<close>

definition depositOperation :: "string \<Rightarrow> string \<Rightarrow> string \<Rightarrow> Operation" where
  "depositOperation poolId maxReserveA maxReserveB =
     LiquidityPoolDeposit poolId maxReserveA maxReserveB
       (ToFixed (minPrice maxReserveA maxReserveB) 7) (ToFixed (maxPrice maxReserveA maxReserveB) 7)"

definition liquidityPoolDeposit ::
  "TxMaker \<Rightarrow> Sdk \<Rightarrow> Account \<Rightarrow> Keypair \<Rightarrow> string \<Rightarrow> string \<Rightarrow> string \<Rightarrow> facade_result promise" where
  "liquidityPoolDeposit this sdk src signer poolId maxReserveA maxReserveB =
     tryCatch
       (case andThen (Operation_new sdk (depositOperation poolId maxReserveA maxReserveB)) (\<lambda>op.
             buildTx this sdk src signer [op]) of
          Inl e \<Rightarrow> Some (Inl e)
        | Inr tx \<Rightarrow>
            submitAndConfirm (submitTransaction (horizonServer this) tx) (sorobanServer this))
       catchHorizon"

subsection \<open>TxMaker.liquidityPoolWithdraw\<close>

definition liquidityPoolWithdraw ::
  "TxMaker \<Rightarrow> Sdk \<Rightarrow> liquidityPoolWithdrawArgs \<Rightarrow> facade_result promise" where
  "liquidityPoolWithdraw this sdk args =
     beforeTry
       (andThen (Operation_new sdk
                   (LiquidityPoolWithdraw (getLiquidityPoolId sdk (poolAsset args))
                      (liquidityPoolWithdrawArgs.amount args) (minAmountA args) (minAmountB args)))
          (\<lambda>ops.
        andThen (Keypair_fromSecret sdk (privateKey (liquidityPoolWithdrawArgs.source args)))
          (\<lambda>sourceKeypair.
        andThen (loadAccount (horizonServer this)
                   (publicKey (liquidityPoolWithdrawArgs.source args))) (\<lambda>src.
        buildTx this sdk src sourceKeypair [ops]))))
       (\<lambda>tx. tryCatch
          (submitAndConfirm (submitTransaction (horizonServer this) tx) (sorobanServer this))
          catchHorizon)"

subsection \<open>TxMaker.mintTokens\<close>

text \<open>The elements of an array literal are evaluated from left to right.\<close>

fun collect :: "(error + 'a) list \<Rightarrow> error + 'a list" where
  "collect [] = Inr []"
| "collect (r # rs) = andThen r (\<lambda>v. andThen (collect rs) (\<lambda>vs. Inr (v # vs)))"

text \<open>
  What the four contract methods do between building the transaction and \<^verbatim>\<open>try\<close>:
  \<^verbatim>\<open>prepareTransaction\<close>, then a second signature.
\<close>

definition prepareAndSign :: "TxMaker \<Rightarrow> Keypair \<Rightarrow> Transaction \<Rightarrow> error + Transaction" where
  "prepareAndSign this sourceKeypair tx =
     andThen (prepareTransaction (sorobanServer this) tx) (\<lambda>preparedTransaction.
       Inr (sign preparedTransaction sourceKeypair))"

definition mintTokens :: "TxMaker \<Rightarrow> Sdk \<Rightarrow> mintTokensArgs \<Rightarrow> facade_result promise" where
  "mintTokens this sdk args =
     beforeTry
       (andThen (getAccount (sorobanServer this) (publicKey (mintTokensArgs.source args))) (\<lambda>src.
        andThen (Keypair_fromSecret sdk (privateKey (mintTokensArgs.source args))) (\<lambda>sourceKeypair.
        andThen (collect
                   [Address_toScVal sdk (destination args),
                    nativeToScVal sdk (ScvI128 (NumberOf (mintTokensArgs.amount args)))])
          (\<lambda>mintTokenArgs.
        andThen (Operation_new sdk (InvokeContract (contractId args) ''mint'' mintTokenArgs)) (\<lambda>op.
        andThen (buildTx this sdk src sourceKeypair [op]) (\<lambda>tx.
        prepareAndSign this sourceKeypair tx))))))
       (\<lambda>preparedTransaction. tryCatch
          (submitAndConfirm (sendTransaction (sorobanServer this) preparedTransaction)
             (sorobanServer this))
          catchMint)"

subsection \<open>The router methods\<close>

text \<open>
  \<^verbatim>\<open>new sdk.Contract(address)\<close> and \<^verbatim>\<open>routerContract.call(method, ...params)\<close>.
  \<open>now\<close> is \<^verbatim>\<open>Date.now()\<close> at the call of \<^verbatim>\<open>getCurrentTimePlusOneHour\<close>.
\<close>

definition Contract_new :: "Sdk \<Rightarrow> string \<Rightarrow> error + string" where
  "Contract_new sdk address = checked (Contract_rejects sdk address) address"

definition call :: "string \<Rightarrow> string \<Rightarrow> ScVal list \<Rightarrow> Operation" where
  "call routerContract method params = InvokeContract routerContract method params"

definition addLiquidity_op ::
  "TxMaker \<Rightarrow> Sdk \<Rightarrow> int \<Rightarrow> addLiquiditySoroswapArgs \<Rightarrow> error + Operation" where
  "addLiquidity_op this sdk now args =
     andThen (Contract_new sdk (routerContractAddress this)) (\<lambda>routerContract.
     andThen (collect
                [Address_toScVal sdk (addLiquiditySoroswapArgs.tokenA args),
                 Address_toScVal sdk (addLiquiditySoroswapArgs.tokenB args),
                 nativeToScVal sdk (ScvI128 (NumberOf (amountADesired args))),
                 nativeToScVal sdk (ScvI128 (NumberOf (amountBDesired args))),
                 nativeToScVal sdk (ScvI128 (NumberOf (addLiquiditySoroswapArgs.amountAMin args))),
                 nativeToScVal sdk (ScvI128 (NumberOf (addLiquiditySoroswapArgs.amountBMin args))),
                 Address_toScVal sdk (publicKey (addLiquiditySoroswapArgs.to args)),
                 nativeToScVal sdk (ScvU64 (getCurrentTimePlusOneHour now))]) (\<lambda>scValParams.
     Inr (call routerContract ''add_liquidity'' scValParams)))"

definition addLiquiditySoroswap ::
  "TxMaker \<Rightarrow> Sdk \<Rightarrow> int \<Rightarrow> addLiquiditySoroswapArgs \<Rightarrow> facade_result promise" where
  "addLiquiditySoroswap this sdk now args =
     beforeTry
       (andThen (getAccount (sorobanServer this)
                   (publicKey (addLiquiditySoroswapArgs.source args))) (\<lambda>account.
        andThen (Keypair_fromSecret sdk (privateKey (addLiquiditySoroswapArgs.source args)))
          (\<lambda>sourceKeypair.
        andThen (addLiquidity_op this sdk now args) (\<lambda>op.
        andThen (buildTx this sdk account sourceKeypair [op]) (\<lambda>transaction.
        prepareAndSign this sourceKeypair transaction)))))
       (\<lambda>preparedTransaction. tryCatch
          (submitAndConfirm (sendTransaction (sorobanServer this) preparedTransaction)
             (sorobanServer this))
          catchRouter)"

definition removeLiquidity_op ::
  "TxMaker \<Rightarrow> Sdk \<Rightarrow> int \<Rightarrow> removeLiquiditySoroswapArgs \<Rightarrow> error + Operation" where
  "removeLiquidity_op this sdk now args =
     andThen (Contract_new sdk (routerContractAddress this)) (\<lambda>routerContract.
     andThen (collect
                [Address_toScVal sdk (removeLiquiditySoroswapArgs.tokenA args),
                 Address_toScVal sdk (removeLiquiditySoroswapArgs.tokenB args),
                 nativeToScVal sdk (ScvI128 (NumberOf (liquidity args))),
                 nativeToScVal sdk (ScvI128 (NumberOf (removeLiquiditySoroswapArgs.amountAMin args))),
                 nativeToScVal sdk (ScvI128 (NumberOf (removeLiquiditySoroswapArgs.amountBMin args))),
                 Address_toScVal sdk (publicKey (removeLiquiditySoroswapArgs.to args)),
                 nativeToScVal sdk (ScvU64 (getCurrentTimePlusOneHour now))]) (\<lambda>scValParams.
     Inr (call routerContract ''remove_liquidity'' scValParams)))"

definition removeLiquiditySoroswap ::
  "TxMaker \<Rightarrow> Sdk \<Rightarrow> int \<Rightarrow> removeLiquiditySoroswapArgs \<Rightarrow> facade_result promise" where
  "removeLiquiditySoroswap this sdk now args =
     beforeTry
       (andThen (getAccount (sorobanServer this)
                   (publicKey (removeLiquiditySoroswapArgs.source args))) (\<lambda>src.
        andThen (Keypair_fromSecret sdk (privateKey (removeLiquiditySoroswapArgs.source args)))
          (\<lambda>sourceKeypair.
        andThen (removeLiquidity_op this sdk now args) (\<lambda>op.
        andThen (buildTx this sdk src sourceKeypair [op]) (\<lambda>transaction.
        prepareAndSign this sourceKeypair transaction)))))
       (\<lambda>preparedTransaction. tryCatch
          (submitAndConfirm (sendTransaction (sorobanServer this) preparedTransaction)
             (sorobanServer this))
          catchRouter)"

definition Address_new :: "Sdk \<Rightarrow> string \<Rightarrow> error + string" where
  "Address_new sdk address = checked (Address_rejects sdk address) address"

definition swapExactTokensForTokens_op ::
  "TxMaker \<Rightarrow> Sdk \<Rightarrow> int \<Rightarrow> swapArgs \<Rightarrow> error + Operation" where
  "swapExactTokensForTokens_op this sdk now args =
     andThen (Contract_new sdk (routerContractAddress this)) (\<lambda>routerContract.
     andThen (collect (map (\<lambda>token. Address_new sdk token) (swapArgs.path args))) (\<lambda>path.
     andThen (collect
                [nativeToScVal sdk (ScvI128 (NumberOf (amountIn args))),
                 nativeToScVal sdk (ScvI128 (NumberOf (amountOutMin args))),
                 nativeToScVal sdk (ScvVec path),
                 Address_toScVal sdk (publicKey (swapArgs.to args)),
                 nativeToScVal sdk (ScvU64 (getCurrentTimePlusOneHour now))]) (\<lambda>scValParams.
     Inr (call routerContract ''swap_exact_tokens_for_tokens'' scValParams))))"

definition swapExactTokensForTokensSoroswap ::
  "TxMaker \<Rightarrow> Sdk \<Rightarrow> int \<Rightarrow> swapArgs \<Rightarrow> facade_result promise" where
  "swapExactTokensForTokensSoroswap this sdk now args =
     beforeTry
       (andThen (getAccount (sorobanServer this) (publicKey (swapArgs.source args))) (\<lambda>account.
        andThen (Keypair_fromSecret sdk (privateKey (swapArgs.source args))) (\<lambda>sourceKeypair.
        andThen (swapExactTokensForTokens_op this sdk now args) (\<lambda>op.
        andThen (buildTx this sdk account sourceKeypair [op]) (\<lambda>transaction.
        prepareAndSign this sourceKeypair transaction)))))
       (\<lambda>preparedTransaction. tryCatch
          (submitAndConfirm (sendTransaction (sorobanServer this) preparedTransaction)
             (sorobanServer this))
          catchRouter)"

section \<open>Vocabulary of the properties\<close>

text \<open>An interim answer of the tracking service: the transaction is not yet observed.\<close>

definition interim :: "error + GetTransactionResponse \<Rightarrow> bool" where
  "interim r = (case r of Inl e \<Rightarrow> False | Inr c \<Rightarrow> status c = NOT_FOUND)"

text \<open>The byte that \<open>hexToByte\<close> stores at index \<open>j\<close>, and the bytes of a string taken two
  characters at a time.\<close>

definition byteAt :: "string \<Rightarrow> nat \<Rightarrow> 8 word" where
  "byteAt s j = toUint8 (parseInt16 (substr s (j * 2) 2))"

fun decodePairs :: "string \<Rightarrow> 8 word list" where
  "decodePairs (a # b # r) = byteAt [a, b] 0 # decodePairs r"
| "decodePairs r = []"

text \<open>
  A router operation: a call of \<open>method\<close> on \<open>contract\<close> with \<open>n\<close> arguments, the last of
  which is the deadline.
\<close>

definition deadlineLast :: "Operation \<Rightarrow> string \<Rightarrow> string \<Rightarrow> nat \<Rightarrow> int \<Rightarrow> bool" where
  "deadlineLast op contract method n deadline =
     (case op of
        InvokeContract c m params \<Rightarrow>
          c = contract \<and> m = method \<and> length params = n \<and> last params = ScvU64 deadline
      | _ \<Rightarrow> False)"

text \<open>An error was reported: something was written with \<^verbatim>\<open>console.error\<close>.\<close>

fun isLogError :: "console \<Rightarrow> bool" where
  "isLogError (LogError args) = True"
| "isLogError (Log args) = False"

definition reportsError :: "console list \<Rightarrow> bool" where
  "reportsError out = list_ex isLogError out"

text \<open>An element of the answer of the discovery endpoint that is a record of a network.\<close>

definition isRouterFor :: "string \<Rightarrow> json \<Rightarrow> bool" where
  "isRouterFor requested router = (getProp router ''network'' = Inr (Some (JStr requested)))"

section \<open>Concrete collaborators\<close>

text \<open>The passphrases the SDK publishes, and an SDK that refuses nothing.\<close>

definition sdkNetworks :: Networks where
  "sdkNetworks = \<lparr>TESTNET = ''Test SDF Network ; September 2015'',
                  STANDALONE = ''Standalone Network ; February 2017''\<rparr>"

definition lenientSdk :: Sdk where
  "lenientSdk =
     \<lparr>BASE_FEE = ''100'', networks = sdkNetworks,
      Keypair_rejects = (\<lambda>secret. None), Address_rejects = (\<lambda>address. None),
      Contract_rejects = (\<lambda>address. None), nativeToScVal_rejects = (\<lambda>v. None),
      Operation_rejects = (\<lambda>op. None), liquidityPoolId_hex = (\<lambda>asset. ''67260c4c'')\<rparr>"

text \<open>
  A ledger that knows every account and accepts every submission under the hash
  \<open>9f2c\<close>. Its tracking service answers ``not yet observed'' twice and then
  ``success''; the variants answer ``not yet observed'' for ever, or refuse what is
  sent.
\<close>

definition notFound :: GetTransactionResponse where
  "notFound = \<lparr>status = NOT_FOUND, resultMetaXdr = []\<rparr>"

definition succeeded :: GetTransactionResponse where
  "succeeded = \<lparr>status = SUCCESS, resultMetaXdr = ''AAAAAw==''\<rparr>"

definition twiceNotFoundThenSuccess :: SorobanServer where
  "twiceNotFoundThenSuccess =
     \<lparr>getAccount = (\<lambda>key. Inr \<lparr>accountId = key, sequence = ''42''\<rparr>),
      prepareTransaction = (\<lambda>tx. Inr tx),
      sendTransaction = (\<lambda>tx. Inr ''9f2c''),
      getTransaction = (\<lambda>hash k. if k < 2 then Inr notFound else Inr succeeded)\<rparr>"

definition alwaysNotFound :: SorobanServer where
  "alwaysNotFound = twiceNotFoundThenSuccess\<lparr>getTransaction := (\<lambda>hash k. Inr notFound)\<rparr>"

definition refusingSoroban :: SorobanServer where
  "refusingSoroban =
     twiceNotFoundThenSuccess\<lparr>sendTransaction := (\<lambda>tx. Inl (Failure ''Request failed''))\<rparr>"

definition friendlyHorizon :: HorizonServer where
  "friendlyHorizon =
     \<lparr>loadAccount = (\<lambda>key. Inr \<lparr>accountId = key, sequence = ''42''\<rparr>),
      submitTransaction = (\<lambda>tx. Inr ''9f2c'')\<rparr>"

definition unreachableHorizon :: HorizonServer where
  "unreachableHorizon =
     \<lparr>loadAccount = (\<lambda>key. Inl (Failure ''Network Error'')),
      submitTransaction = (\<lambda>tx. Inl (Failure ''Network Error''))\<rparr>"

definition alice :: TestAccount where
  "alice = \<lparr>privateKey = ''SALICE'', publicKey = ''GALICE''\<rparr>"

definition testnetMaker :: TxMaker where
  "testnetMaker =
     \<lparr>horizonServer = friendlyHorizon, sorobanServer = twiceNotFoundThenSuccess,
      friendbotURI = ''https://friendbot.stellar.org/?addr='',
      routerContractAddress = ''CROUTER'', network = ''testnet''\<rparr>"

text \<open>Arguments, a discovery endpoint and faucets for the methods of the client.\<close>

definition liquidityArgs :: addLiquiditySoroswapArgs where
  "liquidityArgs =
     \<lparr>amountADesired = ''1000'', addLiquiditySoroswapArgs.amountAMin = ''0'',
      amountBDesired = ''2000'', addLiquiditySoroswapArgs.amountBMin = ''0'',
      addLiquiditySoroswapArgs.source = alice, addLiquiditySoroswapArgs.to = alice,
      addLiquiditySoroswapArgs.tokenA = ''CTOKENA'', addLiquiditySoroswapArgs.tokenB = ''CTOKENB''\<rparr>"

definition removalArgs :: removeLiquiditySoroswapArgs where
  "removalArgs =
     \<lparr>removeLiquiditySoroswapArgs.amountAMin = ''0'', removeLiquiditySoroswapArgs.amountBMin = ''0'',
      liquidity = ''500'', removeLiquiditySoroswapArgs.source = alice,
      removeLiquiditySoroswapArgs.to = alice, removeLiquiditySoroswapArgs.tokenA = ''CTOKENA'',
      removeLiquiditySoroswapArgs.tokenB = ''CTOKENB''\<rparr>"

definition swapPathArgs :: swapArgs where
  "swapPathArgs =
     \<lparr>swapArgs.source = alice, amountIn = ''100'', amountOutMin = ''0'',
      path = [''CTOKENA'', ''CTOKENB''], swapArgs.to = alice\<rparr>"

definition bob :: Keypair where
  "bob = Keypair ''SBOB''"

definition bobAccount :: Account where
  "bobAccount = \<lparr>accountId = ''GBOB'', sequence = ''7''\<rparr>"

definition twoPayments :: "Operation list" where
  "twoPayments = [Payment ''10'' Native ''GALICE'', Payment ''5'' (Credit ''USDC'' ''GISSUER'') ''GALICE'']"

definition routerTable :: json where
  "routerTable =
     JArr [JObj [(''network'', JStr ''standalone''), (''router_id'', JStr ''1''),
                 (''router_address'', JStr ''CSTANDALONE'')],
           JObj [(''network'', JStr ''testnet''), (''router_id'', JStr ''2''),
                 (''router_address'', JStr ''CTESTNET'')],
           JObj [(''network'', JStr ''testnet''), (''router_id'', JStr ''3''),
                 (''router_address'', JStr ''CLATER'')]]"

definition discovery :: "string \<Rightarrow> error + json option" where
  "discovery url =
     (if url = ''https://api.soroswap.finance/api/router'' then Inr (Some routerTable)
      else if url = ''https://stale.example/api/router''
      then Inr (Some (JArr [JNull,
                            JObj [(''network'', JStr ''testnet''), (''router_id'', JStr ''2''),
                                  (''router_address'', JStr ''CTESTNET'')]]))
      else if url = ''https://proxy.example/api/router'' then Inr (Some (JStr ''Bad Gateway''))
      else Inl (AxiosError None))"

definition funded :: json where
  "funded = JObj [(''successful'', JBool True), (''hash'', JStr ''9f2c'')]"

definition existing :: json where
  "existing = JObj [(''status'', JNum 400), (''detail'', JStr alreadyExists)]"

definition rateLimited :: json where
  "rateLimited = JObj [(''status'', JNum 429), (''detail'', JStr ''Too many requests'')]"

definition friendbot :: "json \<Rightarrow> Runtime" where
  "friendbot answer = \<lparr>encodeURIComponent = (\<lambda>s. Inr s), fetch = (\<lambda>url. Inr (Inr answer))\<rparr>"

definition offline :: Runtime where
  "offline = \<lparr>encodeURIComponent = (\<lambda>s. Inr s), fetch = (\<lambda>url. Inl (Failure ''fetch failed''))\<rparr>"

definition mintArgs :: mintTokensArgs where
  "mintArgs =
     \<lparr>mintTokensArgs.amount = ''250'', contractId = ''CTOKENA'', destination = ''GALICE'',
      mintTokensArgs.source = alice\<rparr>"

definition tenLumens :: paymentArgs where
  "tenLumens = \<lparr>paymentArgs.amount = ''10'', asset = Native, from' = alice, paymentArgs.to = ''GBOB''\<rparr>"

definition refusedMaker :: TxMaker where
  "refusedMaker = testnetMaker\<lparr>sorobanServer := refusingSoroban\<rparr>"

definition unreachableMaker :: TxMaker where
  "unreachableMaker = testnetMaker\<lparr>horizonServer := unreachableHorizon\<rparr>"

section \<open>Properties of utils.ts\<close>

subsection \<open>Sequencing\<close>

lemma andThen_simps [simp]:
  "andThen (Inl e) f = Inl e"
  "andThen (Inr x) f = f x"
  by (simp_all add: andThen_def)

lemma andThen_Inr_iff:
  "andThen m f = Inr y \<longleftrightarrow> (\<exists>x. m = Inr x \<and> f x = Inr y)"
  by (cases m) simp_all

lemma checked_Inr_iff: "checked r v = Inr y \<longleftrightarrow> r = None \<and> y = v"
  by (cases r) (auto simp: checked_def)

subsection \<open>getNetworkPassphrase\<close>

text \<open>
  Claim C5. The resolver maps \<open>standalone\<close> and \<open>testnet\<close> each to its own passphrase
  of the SDK's table, the same one at every call; the two results differ whenever the
  two entries of the table do; every other name raises the unsupported-network error
  and no passphrase is returned for it.
\<close>

theorem getNetworkPassphrase_resolves:
  "getNetworkPassphrase nets ''standalone'' = Inr (STANDALONE nets)
   \<and> getNetworkPassphrase nets ''testnet'' = Inr (TESTNET nets)
   \<and> (TESTNET nets \<noteq> STANDALONE nets \<longrightarrow>
        getNetworkPassphrase nets ''standalone'' \<noteq> getNetworkPassphrase nets ''testnet'')
   \<and> (name \<noteq> ''standalone'' \<and> name \<noteq> ''testnet'' \<longrightarrow>
        getNetworkPassphrase nets name =
          Inl (Error ''Unsupported network. Only standalone and testnet are supported.''))"
  by (simp add: getNetworkPassphrase_def)

theorem getNetworkPassphrase_resolves_witness:
  "getNetworkPassphrase sdkNetworks ''standalone'' \<noteq> getNetworkPassphrase sdkNetworks ''testnet''
   \<and> getNetworkPassphrase sdkNetworks ''mainnet'' =
       Inl (Error ''Unsupported network. Only standalone and testnet are supported.'')"
  using getNetworkPassphrase_resolves [of sdkNetworks "''mainnet''"]
  by (simp add: sdkNetworks_def)

subsection \<open>waitForConfirmation\<close>

lemma interim_simps [simp]:
  "interim (Inl e) = False"
  "interim (Inr c) = (status c = NOT_FOUND)"
  by (simp_all add: interim_def)

lemma loop_stop:
  "\<not> interim (getTransaction srv h (queries st)) \<Longrightarrow>
   waitForConfirmation_loop h srv st =
     Some (getTransaction srv h (queries st), st\<lparr>queries := Suc (queries st)\<rparr>)"
  by (subst waitForConfirmation_loop.simps) (simp add: interim_def split: sum.splits)

lemma loop_step:
  "interim (getTransaction srv h (queries st)) \<Longrightarrow>
   waitForConfirmation_loop h srv st =
   waitForConfirmation_loop h srv
     (st\<lparr>queries := Suc (queries st), suspensions := suspensions st @ [1000]\<rparr>)"
  by (subst waitForConfirmation_loop.simps) (simp add: interim_def split: sum.splits)

lemma loop_skip:
  "(\<forall>k<n. interim (getTransaction srv h (queries st + k))) \<Longrightarrow>
   waitForConfirmation_loop h srv st =
   waitForConfirmation_loop h srv
     (st\<lparr>queries := queries st + n, suspensions := suspensions st @ replicate n 1000\<rparr>)"
proof (induction n arbitrary: st)
  case 0
  then show ?case by simp
next
  case (Suc n)
  have first: "interim (getTransaction srv h (queries st))"
    using Suc.prems by (metis add.right_neutral zero_less_Suc)
  let ?st = "st\<lparr>queries := Suc (queries st), suspensions := suspensions st @ [1000]\<rparr>"
  have rest: "\<forall>k<n. interim (getTransaction srv h (queries ?st + k))"
    using Suc.prems by auto
  show ?case
    using loop_step [of srv h st, OF first] Suc.IH [of ?st, OF rest]
    by (simp add: replicate_append_same)
qed

lemma loop_Some_stops:
  assumes "waitForConfirmation_loop h srv st = Some y"
  shows "\<exists>k. \<not> interim (getTransaction srv h (queries st + k))
            \<and> fst y = getTransaction srv h (queries st + k)"
proof (rule waitForConfirmation_loop.raw_induct
    [where P = "\<lambda>h srv st y. \<exists>k. \<not> interim (getTransaction srv h (queries st + k))
                  \<and> fst y = getTransaction srv h (queries st + k)",
      OF _ assms])
  fix loop :: "string \<Rightarrow> SorobanServer \<Rightarrow> poll_state
      \<Rightarrow> ((error + GetTransactionResponse) \<times> poll_state) option"
  fix h srv st y
  assume IH: "\<And>h srv st y. loop h srv st = Some y \<Longrightarrow>
      \<exists>k. \<not> interim (getTransaction srv h (queries st + k))
         \<and> fst y = getTransaction srv h (queries st + k)"
  assume body: "(case getTransaction srv h (queries st) of
        Inl e \<Rightarrow> Some (Inl e, st\<lparr>queries := Suc (queries st)\<rparr>)
      | Inr confirmation \<Rightarrow>
          if status confirmation \<noteq> NOT_FOUND
          then Some (Inr confirmation, st\<lparr>queries := Suc (queries st)\<rparr>)
          else loop h srv (st\<lparr>queries := Suc (queries st),
                              suspensions := suspensions st @ [1000]\<rparr>)) = Some y"
  show "\<exists>k. \<not> interim (getTransaction srv h (queries st + k))
          \<and> fst y = getTransaction srv h (queries st + k)"
  proof (cases "interim (getTransaction srv h (queries st))")
    case False
    with body have "fst y = getTransaction srv h (queries st)"
      by (auto simp: interim_def split: sum.splits if_splits)
    with False have "\<not> interim (getTransaction srv h (queries st + 0))
        \<and> fst y = getTransaction srv h (queries st + 0)"
      by simp
    then show ?thesis by blast
  next
    case True
    with body have "loop h srv (st\<lparr>queries := Suc (queries st),
        suspensions := suspensions st @ [1000]\<rparr>) = Some y"
      by (auto simp: interim_def split: sum.splits if_splits)
    from IH [OF this] obtain k where "\<not> interim (getTransaction srv h (Suc (queries st) + k))"
      and "fst y = getTransaction srv h (Suc (queries st) + k)"
      by auto
    then have "\<not> interim (getTransaction srv h (queries st + Suc k))
        \<and> fst y = getTransaction srv h (queries st + Suc k)"
      by simp
    then show ?thesis by blast
  qed
qed

lemma wait_first:
  assumes "\<forall>k<n. interim (getTransaction srv h k)" and "\<not> interim (getTransaction srv h n)"
  shows "waitForConfirmation h srv =
           Some (getTransaction srv h n, \<lparr>queries = Suc n, suspensions = replicate n 1000\<rparr>)"
proof -
  have "waitForConfirmation_loop h srv poll_start =
        waitForConfirmation_loop h srv (poll_start\<lparr>queries := queries poll_start + n,
          suspensions := suspensions poll_start @ replicate n 1000\<rparr>)"
    using assms(1) by (intro loop_skip) (simp add: poll_start_def)
  also have "\<dots> = Some (getTransaction srv h n,
      \<lparr>queries = Suc n, suspensions = replicate n 1000\<rparr>)"
    using assms(2) by (subst loop_stop) (simp_all add: poll_start_def)
  finally show ?thesis by (simp add: waitForConfirmation_def)
qed

lemma wait_Some_stops:
  assumes "waitForConfirmation h srv = Some y"
  shows "\<exists>k. \<not> interim (getTransaction srv h k) \<and> fst y = getTransaction srv h k"
proof -
  from assms have "waitForConfirmation_loop h srv poll_start = Some y"
    by (simp add: waitForConfirmation_def)
  from loop_Some_stops [OF this] show ?thesis
    by (simp add: poll_start_def)
qed

text \<open>
  Claim C1. When the tracking service answers ``not yet observed'' to the first \<open>n\<close>
  queries for the hash and something else that is a status to query \<open>n\<close>, the poller
  returns that answer, after \<open>n + 1\<close> queries and exactly \<open>n\<close> suspensions of 1000 ms
  each. The instance of the specification: two ``not yet observed'' and then
  ``success'' give the success answer after exactly two suspensions. Whatever the
  service does, a response the poller returns never has the status ``not yet
  observed''.
\<close>

theorem waitForConfirmation_returns_first_terminal:
  "((\<forall>k<n. \<exists>c'. getTransaction srv h k = Inr c' \<and> status c' = NOT_FOUND)
      \<and> getTransaction srv h n = Inr c \<and> status c \<noteq> NOT_FOUND
    \<longrightarrow> waitForConfirmation h srv =
          Some (Inr c, \<lparr>queries = Suc n, suspensions = replicate n 1000\<rparr>))
   \<and> (status c0 = NOT_FOUND \<and> status c1 = NOT_FOUND \<and> status c2 = SUCCESS
        \<and> getTransaction srv h 0 = Inr c0 \<and> getTransaction srv h 1 = Inr c1
        \<and> getTransaction srv h 2 = Inr c2
    \<longrightarrow> waitForConfirmation h srv = Some (Inr c2, \<lparr>queries = 3, suspensions = [1000, 1000]\<rparr>))
   \<and> (\<forall>r st. waitForConfirmation h srv = Some (Inr r, st) \<longrightarrow> status r \<noteq> NOT_FOUND)"
proof (intro conjI impI allI)
  assume a: "(\<forall>k<n. \<exists>c'. getTransaction srv h k = Inr c' \<and> status c' = NOT_FOUND)
      \<and> getTransaction srv h n = Inr c \<and> status c \<noteq> NOT_FOUND"
  then have "\<forall>k<n. interim (getTransaction srv h k)" and "\<not> interim (getTransaction srv h n)"
    by auto
  from wait_first [of n srv h, OF this] a
  show "waitForConfirmation h srv =
          Some (Inr c, \<lparr>queries = Suc n, suspensions = replicate n 1000\<rparr>)"
    by simp
next
  assume a: "status c0 = NOT_FOUND \<and> status c1 = NOT_FOUND \<and> status c2 = SUCCESS
        \<and> getTransaction srv h 0 = Inr c0 \<and> getTransaction srv h 1 = Inr c1
        \<and> getTransaction srv h 2 = Inr c2"
  then have "\<forall>k<2. interim (getTransaction srv h k)" and "\<not> interim (getTransaction srv h 2)"
    by (auto simp: less_2_cases_iff)
  from wait_first [of 2 srv h, OF this] a
  show "waitForConfirmation h srv = Some (Inr c2, \<lparr>queries = 3, suspensions = [1000, 1000]\<rparr>)"
    by (simp add: numeral_2_eq_2 numeral_3_eq_3)
next
  fix r st
  assume "waitForConfirmation h srv = Some (Inr r, st)"
  from wait_Some_stops [OF this]
  obtain k where "\<not> interim (getTransaction srv h k)" and "Inr r = getTransaction srv h k"
    by auto
  then show "status r \<noteq> NOT_FOUND"
    by (metis interim_simps(2))
qed

theorem waitForConfirmation_returns_first_terminal_witness:
  "waitForConfirmation ''9f2c'' twiceNotFoundThenSuccess =
     Some (Inr succeeded, \<lparr>queries = 3, suspensions = [1000, 1000]\<rparr>)
   \<and> status succeeded \<noteq> NOT_FOUND"
  using waitForConfirmation_returns_first_terminal
    [of 2 twiceNotFoundThenSuccess "''9f2c''" succeeded notFound notFound succeeded]
  by (simp add: twiceNotFoundThenSuccess_def notFound_def succeeded_def numeral_2_eq_2)

text \<open>
  Claim C2. The poller settles exactly when some answer of the tracking service for
  the hash is not ``not yet observed''; for a service that always answers with a
  status, exactly when some status differs from ``not yet observed''. For a service
  that answers ``not yet observed'' to every query it never settles. No number of
  queries is a cap: when the first other answer is the one to query \<open>n\<close>, whatever
  \<open>n\<close> is, the poller settles after \<open>n + 1\<close> queries and \<open>n\<close> suspensions.
\<close>

theorem waitForConfirmation_unbounded:
  "(waitForConfirmation h srv \<noteq> None \<longleftrightarrow> (\<exists>n. \<not> interim (getTransaction srv h n)))
   \<and> ((\<forall>n. \<exists>c. getTransaction srv h n = Inr c) \<longrightarrow>
        (waitForConfirmation h srv \<noteq> None
           \<longleftrightarrow> (\<exists>n c. getTransaction srv h n = Inr c \<and> status c \<noteq> NOT_FOUND)))
   \<and> ((\<forall>n. \<exists>c. getTransaction srv h n = Inr c \<and> status c = NOT_FOUND) \<longrightarrow>
        waitForConfirmation h srv = None)
   \<and> ((\<forall>k<n. interim (getTransaction srv h k)) \<and> \<not> interim (getTransaction srv h n) \<longrightarrow>
        (\<exists>r st. waitForConfirmation h srv = Some (r, st)
                \<and> queries st = Suc n \<and> length (suspensions st) = n))"
proof -
  let ?w = "waitForConfirmation h srv"
  have only_if: "\<exists>n. \<not> interim (getTransaction srv h n)" if "?w \<noteq> None"
  proof -
    from that obtain y where "?w = Some y" by auto
    from wait_Some_stops [OF this] show ?thesis by blast
  qed
  have "if": "?w \<noteq> None" if ex: "\<exists>n. \<not> interim (getTransaction srv h n)"
  proof -
    define m where "m = (LEAST n. \<not> interim (getTransaction srv h n))"
    have "\<not> interim (getTransaction srv h m)"
      unfolding m_def using ex by (rule LeastI_ex)
    moreover have "\<forall>k<m. interim (getTransaction srv h k)"
      unfolding m_def using not_less_Least by blast
    ultimately show ?thesis
      using wait_first [of m srv h] by simp
  qed
  have iff: "?w \<noteq> None \<longleftrightarrow> (\<exists>n. \<not> interim (getTransaction srv h n))"
    using only_if "if" by blast
  have answering: "(\<exists>n. \<not> interim (getTransaction srv h n))
      \<longleftrightarrow> (\<exists>n c. getTransaction srv h n = Inr c \<and> status c \<noteq> NOT_FOUND)"
    if "\<forall>n. \<exists>c. getTransaction srv h n = Inr c"
  proof
    assume "\<exists>n. \<not> interim (getTransaction srv h n)"
    then obtain n where n: "\<not> interim (getTransaction srv h n)" ..
    from that obtain c where "getTransaction srv h n = Inr c" by blast
    with n show "\<exists>n c. getTransaction srv h n = Inr c \<and> status c \<noteq> NOT_FOUND"
      by auto
  next
    assume "\<exists>n c. getTransaction srv h n = Inr c \<and> status c \<noteq> NOT_FOUND"
    then obtain n c where "getTransaction srv h n = Inr c" and "status c \<noteq> NOT_FOUND"
      by blast
    then have "\<not> interim (getTransaction srv h n)"
      by simp
    then show "\<exists>n. \<not> interim (getTransaction srv h n)" ..
  qed
  have never: "?w = None" if "\<forall>n. \<exists>c. getTransaction srv h n = Inr c \<and> status c = NOT_FOUND"
  proof -
    have "interim (getTransaction srv h n)" for n
    proof -
      from that obtain c where "getTransaction srv h n = Inr c" and "status c = NOT_FOUND"
        by blast
      then show ?thesis by simp
    qed
    with iff show ?thesis by blast
  qed
  have late: "\<exists>r st. ?w = Some (r, st) \<and> queries st = Suc n \<and> length (suspensions st) = n"
    if "(\<forall>k<n. interim (getTransaction srv h k)) \<and> \<not> interim (getTransaction srv h n)"
    using wait_first [of n srv h] that by simp
  show ?thesis
    using iff answering never late by blast
qed

theorem waitForConfirmation_unbounded_witness:
  "waitForConfirmation ''9f2c'' alwaysNotFound = None
   \<and> waitForConfirmation ''9f2c'' twiceNotFoundThenSuccess \<noteq> None
   \<and> (\<exists>r st. waitForConfirmation ''9f2c'' twiceNotFoundThenSuccess = Some (r, st)
          \<and> queries st = 3 \<and> length (suspensions st) = 2)"
proof -
  have a: "\<forall>n. \<exists>c. getTransaction alwaysNotFound ''9f2c'' n = Inr c \<and> status c = NOT_FOUND"
    by (simp add: alwaysNotFound_def twiceNotFoundThenSuccess_def notFound_def)
  have b: "\<forall>n. \<exists>c. getTransaction twiceNotFoundThenSuccess ''9f2c'' n = Inr c"
    by (simp add: twiceNotFoundThenSuccess_def)
  have "getTransaction twiceNotFoundThenSuccess ''9f2c'' 2 = Inr succeeded
        \<and> status succeeded \<noteq> NOT_FOUND"
    by (simp add: twiceNotFoundThenSuccess_def succeeded_def)
  then have d: "\<exists>n c. getTransaction twiceNotFoundThenSuccess ''9f2c'' n = Inr c
      \<and> status c \<noteq> NOT_FOUND"
    by blast
  have l: "(\<forall>k<2. interim (getTransaction twiceNotFoundThenSuccess ''9f2c'' k))
      \<and> \<not> interim (getTransaction twiceNotFoundThenSuccess ''9f2c'' 2)"
    by (simp add: twiceNotFoundThenSuccess_def notFound_def succeeded_def)
  have "waitForConfirmation ''9f2c'' alwaysNotFound = None"
    using waitForConfirmation_unbounded [of "''9f2c''" alwaysNotFound 2] a by blast
  moreover have "waitForConfirmation ''9f2c'' twiceNotFoundThenSuccess \<noteq> None"
    using waitForConfirmation_unbounded [of "''9f2c''" twiceNotFoundThenSuccess 2] b d by blast
  moreover have "\<exists>r st. waitForConfirmation ''9f2c'' twiceNotFoundThenSuccess = Some (r, st)
          \<and> queries st = 3 \<and> length (suspensions st) = 2"
    using waitForConfirmation_unbounded [of "''9f2c''" twiceNotFoundThenSuccess 2] l
    by (simp add: numeral_3_eq_3)
  ultimately show ?thesis by blast
qed

subsection \<open>hexToByte\<close>

lemma hexToByte_loop_eq:
  "length arr = n \<Longrightarrow> i \<le> n \<Longrightarrow>
   hexToByte_loop s n i arr = take i arr @ map (byteAt s) [i..<n]"
proof (induction s n i arr rule: hexToByte_loop.induct)
  case (1 s n i arr)
  show ?case
  proof (cases "i < n")
    case False
    with 1(2,3) show ?thesis by (subst hexToByte_loop.simps) simp
  next
    case True
    let ?arr = "arr[i := toUint8 (parseInt16 (substr s (i * 2) 2))]"
    have "hexToByte_loop s n (i + 1) ?arr = take (i + 1) ?arr @ map (byteAt s) [i + 1..<n]"
      using 1(1) [OF True] 1(2) True by simp
    moreover have "take (i + 1) ?arr = take i arr @ [byteAt s i]"
      using True 1(2) by (simp add: take_Suc_conv_app_nth byteAt_def)
    moreover have "[i..<n] = i # [i + 1..<n]"
      using True by (simp add: upt_conv_Cons)
    ultimately show ?thesis
      using True by (subst hexToByte_loop.simps) simp
  qed
qed

lemma hexToByte_even:
  "even (length s) \<Longrightarrow> hexToByte s = Inr (map (byteAt s) [0..<length s div 2])"
  by (simp add: hexToByte_def Let_def hexToByte_loop_eq even_iff_mod_2_eq_zero)

lemma hexToByte_odd:
  "odd (length s) \<Longrightarrow>
   hexToByte s = Inl (Error ''Must have an even number of hex digits to convert to bytes'')"
  by (simp add: hexToByte_def odd_iff_mod_2_eq_one)

lemma hexDigit_range:
  "isHexDigit c \<longleftrightarrow> (48 \<le> (of_char c :: nat) \<and> (of_char c :: nat) \<le> 57)
     \<or> (97 \<le> (of_char c :: nat) \<and> (of_char c :: nat) \<le> 102)
     \<or> (65 \<le> (of_char c :: nat) \<and> (of_char c :: nat) \<le> 70)"
  by (auto simp: isHexDigit_def hexDigitValue_def Let_def)

lemma hexDigit_not_special:
  assumes "isHexDigit c"
  shows "\<not> isWhiteSpace c" "c \<noteq> CHR ''-''" "c \<noteq> CHR ''+''" "c \<noteq> CHR ''x''" "c \<noteq> CHR ''X''"
  using assms by (auto simp: hexDigit_range isWhiteSpace_def)

lemma hexDigitValue_lt16:
  "isHexDigit c \<Longrightarrow> the (hexDigitValue c) < 16"
  by (auto simp: isHexDigit_def hexDigitValue_def Let_def split: if_splits)

lemma parseInt16_pair:
  assumes "isHexDigit a" "isHexDigit b"
  shows "parseInt16 [a, b] = Some (int (16 * the (hexDigitValue a) + the (hexDigitValue b)))"
  using assms hexDigit_not_special [OF assms(1)] hexDigit_not_special [OF assms(2)]
  by (simp add: parseInt16_def Let_def)

lemma hexDigit_value:
  "isHexDigit c \<Longrightarrow> hexDigit (the (hexDigitValue c)) = toLowerCase c"
  by (auto simp: isHexDigit_def hexDigitValue_def hexDigit_def toLowerCase_def Let_def
      split: if_splits)


lemma byteAt_Cons2: "byteAt (a # b # r) (Suc j) = byteAt r j"
  by (simp add: byteAt_def substr_def)

lemma byteAt_0: "byteAt (a # b # r) 0 = byteAt [a, b] 0"
  by (simp add: byteAt_def substr_def)

lemma upt_0_Suc_map: "[0..<Suc n] = 0 # map Suc [0..<n]"
proof -
  have "[0..<Suc n] = 0 # [Suc 0..<Suc n]"
    by (rule upt_conv_Cons) simp
  then show ?thesis
    by (simp only: map_Suc_upt)
qed

lemma map_byteAt_decodePairs:
  "even (length s) \<Longrightarrow> map (byteAt s) [0..<length s div 2] = decodePairs s"
proof (induction s rule: decodePairs.induct)
  case (1 a b r)
  have len: "length (a # b # r) div 2 = Suc (length r div 2)"
    by simp
  have ev: "even (length r)"
    using 1(2) by simp
  have "map (byteAt (a # b # r)) [0..<Suc (length r div 2)]
        = byteAt (a # b # r) 0 # map (\<lambda>j. byteAt (a # b # r) (Suc j)) [0..<length r div 2]"
    by (simp only: upt_0_Suc_map list.map map_map comp_def)
  also have "\<dots> = byteAt [a, b] 0 # map (byteAt r) [0..<length r div 2]"
    by (simp only: byteAt_Cons2 byteAt_0 [of a b r])
  also have "\<dots> = decodePairs (a # b # r)"
    by (simp only: 1(1) [OF ev] decodePairs.simps)
  finally show ?case
    by (simp only: len)
qed simp_all

lemma unat_toUint8: "n < 256 \<Longrightarrow> unat (toUint8 (Some (int n))) = n"
  by (simp add: toUint8_def unat_of_nat)

lemma byteAt_pair:
  assumes "isHexDigit a" "isHexDigit b"
  shows "unat (byteAt [a, b] 0) = 16 * the (hexDigitValue a) + the (hexDigitValue b)"
proof -
  have "16 * the (hexDigitValue a) + the (hexDigitValue b) < 256"
    using hexDigitValue_lt16 [OF assms(1)] hexDigitValue_lt16 [OF assms(2)] by simp
  from unat_toUint8 [OF this] have "unat (toUint8 (parseInt16 [a, b]))
      = 16 * the (hexDigitValue a) + the (hexDigitValue b)"
    by (simp only: parseInt16_pair [OF assms])
  then show ?thesis
    by (simp add: byteAt_def substr_def)
qed

lemma byteToHex_pair:
  assumes "isHexDigit a" "isHexDigit b"
  shows "byteToHex (byteAt [a, b] 0) = [toLowerCase a, toLowerCase b]"
proof -
  define x y where "x = the (hexDigitValue a)" and "y = the (hexDigitValue b)"
  have y: "y < 16"
    unfolding y_def by (rule hexDigitValue_lt16 [OF assms(2)])
  have u: "unat (byteAt [a, b] 0) = 16 * x + y"
    unfolding x_def y_def by (rule byteAt_pair [OF assms])
  have "(16 * x + y) div 16 = x" and "(16 * x + y) mod 16 = y"
    using y by simp_all
  then have "byteToHex (byteAt [a, b] 0) = [hexDigit x, hexDigit y]"
    by (simp only: byteToHex_def u)
  then show ?thesis
    by (simp only: x_def y_def hexDigit_value [OF assms(1)] hexDigit_value [OF assms(2)])
qed

lemma bytesToHex_decodePairs:
  "even (length s) \<Longrightarrow> \<forall>c\<in>set s. isHexDigit c \<Longrightarrow> bytesToHex (decodePairs s) = map toLowerCase s"
proof (induction s rule: decodePairs.induct)
  case (1 a b r)
  then show ?case
    by (simp add: bytesToHex_def byteToHex_pair)
qed (simp_all add: bytesToHex_def)


lemma substr_pair:
  "2 * i + 1 < length s \<Longrightarrow> substr s (i * 2) 2 = [s ! (2 * i), s ! (2 * i + 1)]"
proof -
  assume a: "2 * i + 1 < length s"
  then have "drop (2 * i) s = s ! (2 * i) # drop (Suc (2 * i)) s"
    by (simp add: Cons_nth_drop_Suc)
  moreover from a have "drop (Suc (2 * i)) s = s ! (Suc (2 * i)) # drop (Suc (Suc (2 * i))) s"
    by (simp add: Cons_nth_drop_Suc)
  ultimately show ?thesis
    by (simp add: substr_def mult.commute)
qed

lemma byteAt_nth:
  assumes "2 * i + 1 < length s" "\<forall>c\<in>set s. isHexDigit c"
  shows "unat (byteAt s i)
         = 16 * the (hexDigitValue (s ! (2 * i))) + the (hexDigitValue (s ! (2 * i + 1)))"
proof -
  have a: "isHexDigit (s ! (2 * i))" and b: "isHexDigit (s ! (2 * i + 1))"
    using assms by simp_all
  have "byteAt s i = byteAt [s ! (2 * i), s ! (2 * i + 1)] 0"
    using substr_pair [OF assms(1)] by (simp add: byteAt_def substr_def)
  then show ?thesis
    using byteAt_pair [OF a b] by simp
qed

lemma hexDigit_isHexDigit: "n < 16 \<Longrightarrow> isHexDigit (hexDigit n)"
  by (auto simp: isHexDigit_def hexDigitValue_def hexDigit_def Let_def)

lemma hexDigitValue_hexDigit: "n < 16 \<Longrightarrow> the (hexDigitValue (hexDigit n)) = n"
  by (auto simp: hexDigitValue_def hexDigit_def Let_def)

lemma byteAt_byteToHex:
  "byteAt [hexDigit (unat b div 16), hexDigit (unat b mod 16)] 0 = b"
proof -
  have u: "unat b < 256"
    using unsigned_less [of b] by simp
  then have hi: "unat b div 16 < 16" and lo: "unat b mod 16 < 16"
    by simp_all
  have "unat (byteAt [hexDigit (unat b div 16), hexDigit (unat b mod 16)] 0)
      = 16 * (unat b div 16) + unat b mod 16"
    using byteAt_pair [OF hexDigit_isHexDigit [OF hi] hexDigit_isHexDigit [OF lo]]
    by (simp only: hexDigitValue_hexDigit [OF hi] hexDigitValue_hexDigit [OF lo])
  also have "\<dots> = unat b"
    by simp
  finally show ?thesis
    by (simp only: word_unat_eq_iff)
qed

lemma decodePairs_bytesToHex: "decodePairs (bytesToHex bs) = bs"
  by (induction bs) (simp_all add: bytesToHex_def byteToHex_def byteAt_byteToHex)

lemma length_bytesToHex: "length (bytesToHex bs) = 2 * length bs"
  by (induction bs) (simp_all add: bytesToHex_def byteToHex_def)

lemma hexToByte_bytesToHex: "hexToByte (bytesToHex bs) = Inr bs"
proof -
  have "even (length (bytesToHex bs))"
    by (simp add: length_bytesToHex)
  then show ?thesis
    by (simp add: hexToByte_even map_byteAt_decodePairs decodePairs_bytesToHex)
qed

text \<open>
  Claim C9. For a string of hexadecimal digits of even length, \<open>hexToByte\<close> returns
  one byte for each two characters, with the value the two digits denote, high digit
  first. Writing each byte back as two hexadecimal digits gives the input with its
  letters in lower case, which is the input itself only when it has no upper-case
  letter: the bytes do not keep the case of the digits. In the other direction, the
  two-digit encoding of any bytes decodes to those bytes. For a string of odd length
  \<open>hexToByte\<close> raises the error and returns no bytes.
\<close>

theorem hexToByte_roundtrip:
  "(even (length hexString) \<and> (\<forall>c\<in>set hexString. isHexDigit c) \<longrightarrow>
      (\<exists>bytes. hexToByte hexString = Inr bytes
         \<and> length bytes = length hexString div 2
         \<and> (\<forall>i<length bytes. unat (bytes ! i)
               = 16 * the (hexDigitValue (hexString ! (2 * i)))
                 + the (hexDigitValue (hexString ! (2 * i + 1))))
         \<and> bytesToHex bytes = map toLowerCase hexString
         \<and> ((\<forall>c\<in>set hexString. toLowerCase c = c) \<longrightarrow> bytesToHex bytes = hexString)))
   \<and> hexToByte (bytesToHex bs) = Inr bs
   \<and> (odd (length hexString) \<longrightarrow>
        hexToByte hexString =
          Inl (Error ''Must have an even number of hex digits to convert to bytes''))"
proof (intro conjI impI)
  show "hexToByte (bytesToHex bs) = Inr bs"
    by (rule hexToByte_bytesToHex)
next
  assume a: "even (length hexString) \<and> (\<forall>c\<in>set hexString. isHexDigit c)"
  let ?bytes = "map (byteAt hexString) [0..<length hexString div 2]"
  have r: "hexToByte hexString = Inr ?bytes"
    using a by (simp add: hexToByte_even)
  have l: "length ?bytes = length hexString div 2"
    by simp
  have v: "\<forall>i<length ?bytes. unat (?bytes ! i)
               = 16 * the (hexDigitValue (hexString ! (2 * i)))
                 + the (hexDigitValue (hexString ! (2 * i + 1)))"
  proof (intro allI impI)
    fix i
    assume "i < length ?bytes"
    then have i: "i < length hexString div 2" by simp
    with a have "2 * i + 1 < length hexString"
      by (auto elim!: evenE)
    from byteAt_nth [OF this] a i
    show "unat (?bytes ! i)
               = 16 * the (hexDigitValue (hexString ! (2 * i)))
                 + the (hexDigitValue (hexString ! (2 * i + 1)))"
      by simp
  qed
  have e: "bytesToHex ?bytes = map toLowerCase hexString"
    using a by (simp add: map_byteAt_decodePairs bytesToHex_decodePairs)
  have x: "(\<forall>c\<in>set hexString. toLowerCase c = c) \<longrightarrow> bytesToHex ?bytes = hexString"
    using e by (simp add: map_idI)
  from r l v e x
  show "\<exists>bytes. hexToByte hexString = Inr bytes
         \<and> length bytes = length hexString div 2
         \<and> (\<forall>i<length bytes. unat (bytes ! i)
               = 16 * the (hexDigitValue (hexString ! (2 * i)))
                 + the (hexDigitValue (hexString ! (2 * i + 1))))
         \<and> bytesToHex bytes = map toLowerCase hexString
         \<and> ((\<forall>c\<in>set hexString. toLowerCase c = c) \<longrightarrow> bytesToHex bytes = hexString)"
    by blast
next
  assume "odd (length hexString)"
  then show "hexToByte hexString =
          Inl (Error ''Must have an even number of hex digits to convert to bytes'')"
    by (rule hexToByte_odd)
qed

text \<open>Characters that are not hexadecimal digits: what \<^verbatim>\<open>parseInt\<close> and the store into the
  array make of them.\<close>

lemma hexToByte_examples:
  "hexToByte ''1aFf'' = Inr [0x1A, 0xFF]"
  "hexToByte ''0x'' = Inr [0]"
  "hexToByte ''-1'' = Inr [0xFF]"
  "hexToByte ''1g'' = Inr [1]"
  by (simp_all add: hexToByte_def hexToByte_loop.simps substr_def parseInt16_def toUint8_def
      isWhiteSpace_def isHexDigit_def hexDigitValue_def Let_def)

theorem hexToByte_roundtrip_witness:
  "(\<exists>bytes. hexToByte ''1aFf'' = Inr bytes \<and> length bytes = 2
       \<and> unat (bytes ! 0) = 26 \<and> unat (bytes ! 1) = 255 \<and> bytesToHex bytes = ''1aff'')
   \<and> (\<exists>bytes. hexToByte ''00c4'' = Inr bytes \<and> bytesToHex bytes = ''00c4'')
   \<and> hexToByte ''abc'' = Inl (Error ''Must have an even number of hex digits to convert to bytes'')"
proof -
  have h: "even (length ''1aFf'') \<and> (\<forall>c\<in>set ''1aFf''. isHexDigit c)"
    "even (length ''00c4'') \<and> (\<forall>c\<in>set ''00c4''. isHexDigit c)"
    by (simp_all add: isHexDigit_def hexDigitValue_def)
  have l: "map toLowerCase ''1aFf'' = ''1aff''" "\<forall>c\<in>set ''00c4''. toLowerCase c = c"
    by code_simp+
  from hexToByte_roundtrip [of "''1aFf''"] h(1)
  obtain bytes where b: "hexToByte ''1aFf'' = Inr bytes" "length bytes = length ''1aFf'' div 2"
    and v: "\<forall>i<length bytes. unat (bytes ! i)
               = 16 * the (hexDigitValue (''1aFf'' ! (2 * i)))
                 + the (hexDigitValue (''1aFf'' ! (2 * i + 1)))"
    and e: "bytesToHex bytes = map toLowerCase ''1aFf''"
    by blast
  from b(2) have len: "length bytes = 2" by simp
  from v len have "unat (bytes ! 0)
      = 16 * the (hexDigitValue (''1aFf'' ! (2 * 0))) + the (hexDigitValue (''1aFf'' ! (2 * 0 + 1)))"
    by (metis zero_less_numeral)
  then have v0: "unat (bytes ! 0) = 26"
    by (simp add: hexDigitValue_def)
  from v len have "unat (bytes ! 1)
      = 16 * the (hexDigitValue (''1aFf'' ! (2 * 1))) + the (hexDigitValue (''1aFf'' ! (2 * 1 + 1)))"
    by (metis one_less_numeral_iff semiring_norm(76))
  then have v1: "unat (bytes ! 1) = 255"
    by (simp add: hexDigitValue_def numeral_2_eq_2 numeral_3_eq_3)
  from b(1) len v0 v1 e l(1)
  have "\<exists>bytes. hexToByte ''1aFf'' = Inr bytes \<and> length bytes = 2
       \<and> unat (bytes ! 0) = 26 \<and> unat (bytes ! 1) = 255 \<and> bytesToHex bytes = ''1aff''"
    by simp
  moreover from hexToByte_roundtrip [of "''00c4''"] h(2) l(2)
  have "\<exists>bytes. hexToByte ''00c4'' = Inr bytes \<and> bytesToHex bytes = ''00c4''"
    by blast
  moreover from hexToByte_roundtrip [of "''abc''"]
  have "hexToByte ''abc'' = Inl (Error ''Must have an even number of hex digits to convert to bytes'')"
    by simp
  ultimately show ?thesis by blast
qed

text \<open>
  Without the condition on the case of the letters the encoding does not give the
  input back: \<^verbatim>\<open>FF\<close> and \<^verbatim>\<open>ff\<close> denote the same byte, which is written \<^verbatim>\<open>ff\<close>.
\<close>

theorem hexToByte_upper_case_lost:
  "hexToByte ''FF'' = Inr [0xFF] \<and> hexToByte ''ff'' = Inr [0xFF] \<and> bytesToHex [0xFF] = ''ff''"
proof -
  have "hexToByte ''FF'' = Inr [0xFF]" and "hexToByte ''ff'' = Inr [0xFF]"
    by (simp_all add: hexToByte_def hexToByte_loop.simps substr_def parseInt16_def toUint8_def
        isWhiteSpace_def isHexDigit_def hexDigitValue_def Let_def)
  moreover have "bytesToHex [0xFF] = ''ff''"
    by code_simp
  ultimately show ?thesis
    by simp
qed

subsection \<open>getRouterContractAddress\<close>

lemma routerCallback:
  "andThen (getProp router ''network'') (\<lambda>n. Inr (n = Some (JStr requested))) =
     (if router = JNull then Inl (TypeError ''Cannot read properties of null'')
      else Inr (isRouterFor requested router))"
  by (cases router) (simp_all add: getProp_def isRouterFor_def)

lemma isRouterFor_JNull [simp]: "\<not> isRouterFor requested JNull"
  by (simp add: isRouterFor_def getProp_def)

lemma Array_find_first:
  "i < length elements \<Longrightarrow> isRouterFor requested (elements ! i) \<Longrightarrow>
   \<forall>j<i. elements ! j \<noteq> JNull \<and> \<not> isRouterFor requested (elements ! j) \<Longrightarrow>
   Array_find (\<lambda>router. andThen (getProp router ''network'') (\<lambda>n. Inr (n = Some (JStr requested))))
     elements = Inr (Some (elements ! i))"
proof (induction elements arbitrary: i)
  case Nil
  then show ?case by simp
next
  case (Cons x xs)
  show ?case
  proof (cases i)
    case 0
    with Cons.prems(2) have m: "isRouterFor requested x"
      by simp
    then have "x \<noteq> JNull"
      by auto
    with m 0 show ?thesis
      by (simp add: routerCallback)
  next
    case (Suc k)
    with Cons.prems(3) have x: "x \<noteq> JNull" "\<not> isRouterFor requested x"
      by auto
    from Cons.prems(3) Suc have "\<forall>j<k. xs ! j \<noteq> JNull \<and> \<not> isRouterFor requested (xs ! j)"
      by auto
    with Cons.IH [of k] Cons.prems(1,2) Suc
    have "Array_find (\<lambda>router. andThen (getProp router ''network'') (\<lambda>n. Inr (n = Some (JStr requested))))
            xs = Inr (Some (xs ! k))"
      by simp
    with x Suc show ?thesis
      by (simp add: routerCallback)
  qed
qed

lemma Array_find_null:
  "i < length elements \<Longrightarrow> elements ! i = JNull \<Longrightarrow>
   \<forall>j<i. \<not> isRouterFor requested (elements ! j) \<Longrightarrow>
   Array_find (\<lambda>router. andThen (getProp router ''network'') (\<lambda>n. Inr (n = Some (JStr requested))))
     elements = Inl (TypeError ''Cannot read properties of null'')"
proof (induction elements arbitrary: i)
  case Nil
  then show ?case by simp
next
  case (Cons x xs)
  show ?case
  proof (cases i)
    case 0
    with Cons.prems(2) show ?thesis
      by (simp add: routerCallback)
  next
    case (Suc k)
    with Cons.prems(3) have x: "\<not> isRouterFor requested x"
      by auto
    from Cons.prems(3) Suc have "\<forall>j<k. \<not> isRouterFor requested (xs ! j)"
      by auto
    with Cons.IH [of k] Cons.prems(1,2) Suc
    have "Array_find (\<lambda>router. andThen (getProp router ''network'') (\<lambda>n. Inr (n = Some (JStr requested))))
            xs = Inl (TypeError ''Cannot read properties of null'')"
      by simp
    with x show ?thesis
      by (simp add: routerCallback)
  qed
qed

lemma Array_find_none:
  "\<forall>router\<in>set elements. router \<noteq> JNull \<and> \<not> isRouterFor requested router \<Longrightarrow>
   Array_find (\<lambda>router. andThen (getProp router ''network'') (\<lambda>n. Inr (n = Some (JStr requested))))
     elements = Inr None"
  by (induction elements) (simp_all add: routerCallback)

text \<open>
  Claim C10. \<open>getRouterContractAddress\<close> never rejects. The answer of the discovery
  endpoint is untyped, and what the function does with an array is decided by the first
  element that either is \<^verbatim>\<open>null\<close> or is a record of the requested network. When that
  element is a record of the network, the function fulfils with the
  \<^verbatim>\<open>router_address\<close> property of that record, whatever it holds, and \<^verbatim>\<open>undefined\<close>
  when the record has none, and logs nothing. When that element is \<^verbatim>\<open>null\<close>, the
  callback raises there and the function fulfils with the string \<^verbatim>\<open>error\<close>, also when
  a record of the network follows. When there is no such element, when the data is not
  an array, and when the request fails, the function logs the exception and fulfils with
  the string \<^verbatim>\<open>error\<close>.
\<close>

theorem getRouterContractAddress_never_rejects:
  "(\<exists>result. fst (getRouterContractAddress axios_get uri requested) = Inr result)
   \<and> (axios_get (uri @ ''/api/router'') = Inr (Some (JArr elements))
        \<and> i < length elements \<and> elements ! i = JObj props
        \<and> map_of props ''network'' = Some (JStr requested)
        \<and> (\<forall>j<i. elements ! j \<noteq> JNull \<and> \<not> isRouterFor requested (elements ! j)) \<longrightarrow>
        getRouterContractAddress axios_get uri requested
          = (Inr (map_of props ''router_address''), []))
   \<and> (axios_get (uri @ ''/api/router'') = Inr (Some (JArr elements))
        \<and> i < length elements \<and> elements ! i = JNull
        \<and> (\<forall>j<i. \<not> isRouterFor requested (elements ! j)) \<longrightarrow>
        getRouterContractAddress axios_get uri requested
          = (Inr (Some (JStr ''error'')),
             [Log [Text ''error:'', Err (TypeError ''Cannot read properties of null'')]]))
   \<and> (axios_get (uri @ ''/api/router'') = Inr (Some (JArr elements))
        \<and> (\<forall>router\<in>set elements. router \<noteq> JNull \<and> \<not> isRouterFor requested router) \<longrightarrow>
        getRouterContractAddress axios_get uri requested
          = (Inr (Some (JStr ''error'')),
             [Log [Text ''error:'', Err (TypeError ''Cannot read properties of undefined'')]]))
   \<and> (axios_get (uri @ ''/api/router'') = Inr data \<and> (\<forall>items. data \<noteq> Some (JArr items)) \<longrightarrow>
        fst (getRouterContractAddress axios_get uri requested) = Inr (Some (JStr ''error''))
        \<and> (\<exists>message. snd (getRouterContractAddress axios_get uri requested)
              = [Log [Text ''error:'', Err (TypeError message)]]))
   \<and> (axios_get (uri @ ''/api/router'') = Inl e \<longrightarrow>
        getRouterContractAddress axios_get uri requested
          = (Inr (Some (JStr ''error'')), [Log [Text ''error:'', Err e]]))"
proof (intro conjI impI)
  show "\<exists>result. fst (getRouterContractAddress axios_get uri requested) = Inr result"
    by (simp add: getRouterContractAddress_def split: sum.splits)
next
  assume a: "axios_get (uri @ ''/api/router'') = Inr (Some (JArr elements))
        \<and> i < length elements \<and> elements ! i = JObj props
        \<and> map_of props ''network'' = Some (JStr requested)
        \<and> (\<forall>j<i. elements ! j \<noteq> JNull \<and> \<not> isRouterFor requested (elements ! j))"
  then have "isRouterFor requested (elements ! i)"
    by (simp add: isRouterFor_def getProp_def)
  with a have "Array_find (\<lambda>router. andThen (getProp router ''network'')
                 (\<lambda>n. Inr (n = Some (JStr requested)))) elements = Inr (Some (elements ! i))"
    by (intro Array_find_first) simp_all
  with a show "getRouterContractAddress axios_get uri requested
          = (Inr (map_of props ''router_address''), [])"
    by (simp add: getRouterContractAddress_def find_method_def getProp_def)
next
  assume a: "axios_get (uri @ ''/api/router'') = Inr (Some (JArr elements))
        \<and> i < length elements \<and> elements ! i = JNull
        \<and> (\<forall>j<i. \<not> isRouterFor requested (elements ! j))"
  then have "Array_find (\<lambda>router. andThen (getProp router ''network'')
                 (\<lambda>n. Inr (n = Some (JStr requested)))) elements
               = Inl (TypeError ''Cannot read properties of null'')"
    by (intro Array_find_null [of i]) simp_all
  with a show "getRouterContractAddress axios_get uri requested
          = (Inr (Some (JStr ''error'')),
             [Log [Text ''error:'', Err (TypeError ''Cannot read properties of null'')]])"
    by (simp add: getRouterContractAddress_def find_method_def)
next
  assume a: "axios_get (uri @ ''/api/router'') = Inr (Some (JArr elements))
        \<and> (\<forall>router\<in>set elements. router \<noteq> JNull \<and> \<not> isRouterFor requested router)"
  then have "Array_find (\<lambda>router. andThen (getProp router ''network'')
                 (\<lambda>n. Inr (n = Some (JStr requested)))) elements = Inr None"
    by (intro Array_find_none) simp
  with a show "getRouterContractAddress axios_get uri requested
          = (Inr (Some (JStr ''error'')),
             [Log [Text ''error:'', Err (TypeError ''Cannot read properties of undefined'')]])"
    by (simp add: getRouterContractAddress_def find_method_def)
next
  assume a: "axios_get (uri @ ''/api/router'') = Inr data \<and> (\<forall>items. data \<noteq> Some (JArr items))"
  then have "\<exists>message. find_method data (\<lambda>router. andThen (getProp router ''network'')
                 (\<lambda>n. Inr (n = Some (JStr requested)))) = Inl (TypeError message)"
    by (auto simp: find_method_def split: option.splits json.splits)
  then obtain message where "find_method data (\<lambda>router. andThen (getProp router ''network'')
                 (\<lambda>n. Inr (n = Some (JStr requested)))) = Inl (TypeError message)"
    by blast
  with a have "getRouterContractAddress axios_get uri requested
      = (Inr (Some (JStr ''error'')), [Log [Text ''error:'', Err (TypeError message)]])"
    by (simp add: getRouterContractAddress_def)
  then show "fst (getRouterContractAddress axios_get uri requested) = Inr (Some (JStr ''error''))"
    and "\<exists>message. snd (getRouterContractAddress axios_get uri requested)
              = [Log [Text ''error:'', Err (TypeError message)]]"
    by simp_all
next
  assume "axios_get (uri @ ''/api/router'') = Inl e"
  then show "getRouterContractAddress axios_get uri requested
          = (Inr (Some (JStr ''error'')), [Log [Text ''error:'', Err e]])"
    by (simp add: getRouterContractAddress_def)
qed

lemma discovery_answers:
  "discovery (''https://api.soroswap.finance'' @ ''/api/router'') = Inr (Some routerTable)"
  "discovery (''https://stale.example'' @ ''/api/router'')
     = Inr (Some (JArr [JNull,
                        JObj [(''network'', JStr ''testnet''), (''router_id'', JStr ''2''),
                              (''router_address'', JStr ''CTESTNET'')]]))"
  "discovery (''https://proxy.example'' @ ''/api/router'') = Inr (Some (JStr ''Bad Gateway''))"
  "discovery (''https://example.org'' @ ''/api/router'') = Inl (AxiosError None)"
  by (simp_all add: discovery_def)

theorem getRouterContractAddress_never_rejects_witness:
  "getRouterContractAddress discovery ''https://api.soroswap.finance'' ''testnet''
     = (Inr (Some (JStr ''CTESTNET'')), [])
   \<and> getRouterContractAddress discovery ''https://api.soroswap.finance'' ''mainnet''
     = (Inr (Some (JStr ''error'')),
        [Log [Text ''error:'', Err (TypeError ''Cannot read properties of undefined'')]])
   \<and> getRouterContractAddress discovery ''https://stale.example'' ''standalone''
     = (Inr (Some (JStr ''error'')),
        [Log [Text ''error:'', Err (TypeError ''Cannot read properties of null'')]])
   \<and> fst (getRouterContractAddress discovery ''https://proxy.example'' ''testnet'')
     = Inr (Some (JStr ''error''))
   \<and> getRouterContractAddress discovery ''https://example.org'' ''testnet''
     = (Inr (Some (JStr ''error'')), [Log [Text ''error:'', Err (AxiosError None)]])"
proof -
  let ?table = "[JObj [(''network'', JStr ''standalone''), (''router_id'', JStr ''1''),
                       (''router_address'', JStr ''CSTANDALONE'')],
                 JObj [(''network'', JStr ''testnet''), (''router_id'', JStr ''2''),
                       (''router_address'', JStr ''CTESTNET'')],
                 JObj [(''network'', JStr ''testnet''), (''router_id'', JStr ''3''),
                       (''router_address'', JStr ''CLATER'')]]"
  let ?stale = "[JNull,
                 JObj [(''network'', JStr ''testnet''), (''router_id'', JStr ''2''),
                       (''router_address'', JStr ''CTESTNET'')]]"
  let ?entry = "[(''network'', JStr ''testnet''), (''router_id'', JStr ''2''),
                  (''router_address'', JStr ''CTESTNET'')]"
  have t: "routerTable = JArr ?table"
    by (simp add: routerTable_def)
  have m: "(1::nat) < length ?table \<and> ?table ! 1 = JObj ?entry
      \<and> map_of ?entry ''network'' = Some (JStr ''testnet'')
      \<and> (\<forall>j<1. ?table ! j \<noteq> JNull \<and> \<not> isRouterFor ''testnet'' (?table ! j))"
    by (simp add: isRouterFor_def getProp_def)
  have a: "map_of ?entry ''router_address'' = Some (JStr ''CTESTNET'')"
    by simp
  have n: "\<forall>router\<in>set ?table. router \<noteq> JNull \<and> \<not> isRouterFor ''mainnet'' router"
    by (simp add: isRouterFor_def getProp_def)
  have s: "(0::nat) < length ?stale \<and> ?stale ! 0 = JNull
      \<and> (\<forall>j<0. \<not> isRouterFor ''standalone'' (?stale ! j))"
    by simp
  have p: "\<forall>items. Some (JStr ''Bad Gateway'') \<noteq> Some (JArr items)"
    by simp
  from getRouterContractAddress_never_rejects
    [where axios_get = discovery and uri = "''https://api.soroswap.finance''"
      and requested = "''testnet''" and elements = ?table and i = 1 and props = ?entry
      and data = "Some routerTable" and e = "AxiosError None"]
    discovery_answers(1) t m a
  have "getRouterContractAddress discovery ''https://api.soroswap.finance'' ''testnet''
     = (Inr (Some (JStr ''CTESTNET'')), [])"
    by simp
  moreover from getRouterContractAddress_never_rejects
    [where axios_get = discovery and uri = "''https://api.soroswap.finance''"
      and requested = "''mainnet''" and elements = ?table and i = 0 and props = ?entry
      and data = "Some routerTable" and e = "AxiosError None"]
    discovery_answers(1) t n
  have "getRouterContractAddress discovery ''https://api.soroswap.finance'' ''mainnet''
     = (Inr (Some (JStr ''error'')),
        [Log [Text ''error:'', Err (TypeError ''Cannot read properties of undefined'')]])"
    by simp
  moreover from getRouterContractAddress_never_rejects
    [where axios_get = discovery and uri = "''https://stale.example''"
      and requested = "''standalone''" and elements = ?stale and i = 0 and props = ?entry
      and data = "Some (JArr ?stale)" and e = "AxiosError None"]
    discovery_answers(2) s
  have "getRouterContractAddress discovery ''https://stale.example'' ''standalone''
     = (Inr (Some (JStr ''error'')),
        [Log [Text ''error:'', Err (TypeError ''Cannot read properties of null'')]])"
    by simp
  moreover from getRouterContractAddress_never_rejects
    [where axios_get = discovery and uri = "''https://proxy.example''"
      and requested = "''testnet''" and elements = ?stale and i = 0 and props = ?entry
      and data = "Some (JStr ''Bad Gateway'')" and e = "AxiosError None"]
    discovery_answers(3) p
  have "fst (getRouterContractAddress discovery ''https://proxy.example'' ''testnet'')
     = Inr (Some (JStr ''error''))"
    by simp
  moreover from getRouterContractAddress_never_rejects
    [where axios_get = discovery and uri = "''https://example.org''"
      and requested = "''testnet''" and elements = ?stale and i = 0 and props = ?entry
      and data = "Some (JStr ''Bad Gateway'')" and e = "AxiosError None"]
    discovery_answers(4)
  have "getRouterContractAddress discovery ''https://example.org'' ''testnet''
     = (Inr (Some (JStr ''error'')), [Log [Text ''error:'', Err (AxiosError None)]])"
    by simp
  ultimately show ?thesis by blast
qed

text \<open>
  A record of the requested network in the answer is not enough for its address to be
  returned: behind a \<^verbatim>\<open>null\<close> element it is never reached.
\<close>

theorem getRouterContractAddress_null_before_record:
  "discovery (''https://stale.example'' @ ''/api/router'')
     = Inr (Some (JArr [JNull,
                        JObj [(''network'', JStr ''testnet''), (''router_id'', JStr ''2''),
                              (''router_address'', JStr ''CTESTNET'')]]))
   \<and> getRouterContractAddress discovery ''https://stale.example'' ''testnet''
     = (Inr (Some (JStr ''error'')),
        [Log [Text ''error:'', Err (TypeError ''Cannot read properties of null'')]])"
  by (simp add: discovery_def getRouterContractAddress_def find_method_def getProp_def)

subsection \<open>getCurrentTimePlusOneHour and the router operations\<close>

lemma collect_Inr_length: "collect rs = Inr vs \<Longrightarrow> length vs = length rs"
  by (induction rs arbitrary: vs) (auto simp: andThen_Inr_iff)

lemma collect_Inr_nth: "collect rs = Inr vs \<Longrightarrow> i < length rs \<Longrightarrow> rs ! i = Inr (vs ! i)"
proof (induction rs arbitrary: vs i)
  case Nil
  then show ?case by simp
next
  case (Cons r rs)
  from Cons.prems(1) obtain v vs' where r: "r = Inr v" and rs: "collect rs = Inr vs'"
    and vs: "vs = v # vs'"
    by (auto simp: andThen_Inr_iff)
  show ?case
  proof (cases i)
    case 0
    with r vs show ?thesis by simp
  next
    case (Suc j)
    with Cons.prems(2) have "j < length rs" by simp
    from Cons.IH [OF rs this] Suc vs show ?thesis by simp
  qed
qed

lemma collect_last:
  assumes "collect (rs @ [nativeToScVal sdk v]) = Inr vs"
  shows "last vs = v" and "length vs = Suc (length rs)"
proof -
  have len: "length vs = Suc (length rs)"
    using collect_Inr_length [OF assms] by simp
  then show "length vs = Suc (length rs)" .
  have "(rs @ [nativeToScVal sdk v]) ! length rs = Inr (vs ! length rs)"
    using collect_Inr_nth [OF assms, of "length rs"] by simp
  then have "nativeToScVal sdk v = Inr (vs ! length rs)"
    by simp
  then have "vs ! length rs = v"
    by (auto simp: nativeToScVal_def checked_Inr_iff)
  moreover have "vs \<noteq> []"
    using len by auto
  ultimately show "last vs = v"
    using len by (simp add: last_conv_nth)
qed

lemma Contract_new_Inr: "Contract_new sdk address = Inr c \<Longrightarrow> c = address"
  by (simp add: Contract_new_def checked_Inr_iff)

lemma addLiquidity_deadline:
  assumes "addLiquidity_op this sdk now args = Inr op"
  shows "deadlineLast op (routerContractAddress this) ''add_liquidity'' 8
           (getCurrentTimePlusOneHour now)"
proof -
  from assms obtain c params where c: "Contract_new sdk (routerContractAddress this) = Inr c"
    and p: "collect
                ([Address_toScVal sdk (addLiquiditySoroswapArgs.tokenA args),
                 Address_toScVal sdk (addLiquiditySoroswapArgs.tokenB args),
                 nativeToScVal sdk (ScvI128 (NumberOf (amountADesired args))),
                 nativeToScVal sdk (ScvI128 (NumberOf (amountBDesired args))),
                 nativeToScVal sdk (ScvI128 (NumberOf (addLiquiditySoroswapArgs.amountAMin args))),
                 nativeToScVal sdk (ScvI128 (NumberOf (addLiquiditySoroswapArgs.amountBMin args))),
                 Address_toScVal sdk (publicKey (addLiquiditySoroswapArgs.to args))] @
                 [nativeToScVal sdk (ScvU64 (getCurrentTimePlusOneHour now))]) = Inr params"
    and op: "op = call c ''add_liquidity'' params"
    unfolding addLiquidity_op_def by (auto simp: andThen_Inr_iff)
  from op collect_last [OF p] Contract_new_Inr [OF c] show ?thesis
    by (simp add: deadlineLast_def call_def)
qed

lemma removeLiquidity_deadline:
  assumes "removeLiquidity_op this sdk now args = Inr op"
  shows "deadlineLast op (routerContractAddress this) ''remove_liquidity'' 7
           (getCurrentTimePlusOneHour now)"
proof -
  from assms obtain c params where c: "Contract_new sdk (routerContractAddress this) = Inr c"
    and p: "collect
                ([Address_toScVal sdk (removeLiquiditySoroswapArgs.tokenA args),
                 Address_toScVal sdk (removeLiquiditySoroswapArgs.tokenB args),
                 nativeToScVal sdk (ScvI128 (NumberOf (liquidity args))),
                 nativeToScVal sdk (ScvI128 (NumberOf (removeLiquiditySoroswapArgs.amountAMin args))),
                 nativeToScVal sdk (ScvI128 (NumberOf (removeLiquiditySoroswapArgs.amountBMin args))),
                 Address_toScVal sdk (publicKey (removeLiquiditySoroswapArgs.to args))] @
                 [nativeToScVal sdk (ScvU64 (getCurrentTimePlusOneHour now))]) = Inr params"
    and op: "op = call c ''remove_liquidity'' params"
    unfolding removeLiquidity_op_def by (auto simp: andThen_Inr_iff)
  from op collect_last [OF p] Contract_new_Inr [OF c] show ?thesis
    by (simp add: deadlineLast_def call_def)
qed

lemma swap_deadline:
  assumes "swapExactTokensForTokens_op this sdk now args = Inr op"
  shows "deadlineLast op (routerContractAddress this) ''swap_exact_tokens_for_tokens'' 5
           (getCurrentTimePlusOneHour now)"
proof -
  from assms have "\<exists>c addrs params.
      Contract_new sdk (routerContractAddress this) = Inr c
      \<and> collect
                [nativeToScVal sdk (ScvI128 (NumberOf (amountIn args))),
                 nativeToScVal sdk (ScvI128 (NumberOf (amountOutMin args))),
                 nativeToScVal sdk (ScvVec addrs),
                 Address_toScVal sdk (publicKey (swapArgs.to args)),
                 nativeToScVal sdk (ScvU64 (getCurrentTimePlusOneHour now))] = Inr params
      \<and> Inr (call c ''swap_exact_tokens_for_tokens'' params) = Inr op"
    unfolding swapExactTokensForTokens_op_def andThen_Inr_iff by blast
  then obtain c addrs params
    where c: "Contract_new sdk (routerContractAddress this) = Inr c"
    and p: "collect
                ([nativeToScVal sdk (ScvI128 (NumberOf (amountIn args))),
                 nativeToScVal sdk (ScvI128 (NumberOf (amountOutMin args))),
                 nativeToScVal sdk (ScvVec addrs),
                 Address_toScVal sdk (publicKey (swapArgs.to args))] @
                 [nativeToScVal sdk (ScvU64 (getCurrentTimePlusOneHour now))]) = Inr params"
    and op: "op = call c ''swap_exact_tokens_for_tokens'' params"
    by auto
  from op collect_last [OF p] Contract_new_Inr [OF c] show ?thesis
    by (simp add: deadlineLast_def call_def)
qed

text \<open>
  Claim C4. For a current time of \<open>now\<close> milliseconds the deadline is
  \<open>(now + 36000000) div 1000\<close> seconds, a function of \<open>now\<close> alone; that is the
  current second plus 36000 seconds (ten hours), and never the current second plus
  3600 seconds (one hour). Whenever one of the three router operations
  (\<open>add_liquidity\<close>, \<open>remove_liquidity\<close>, \<open>swap_exact_tokens_for_tokens\<close>) is built,
  it is a call of that method on the configured router contract whose last argument is
  this deadline as an unsigned 64-bit value.
\<close>

theorem getCurrentTimePlusOneHour_deadline:
  "getCurrentTimePlusOneHour now = (now + 36000000) div 1000
   \<and> getCurrentTimePlusOneHour now = now div 1000 + 10 * 3600
   \<and> getCurrentTimePlusOneHour now \<noteq> now div 1000 + 3600
   \<and> (addLiquidity_op this sdk now a1 = Inr op1 \<longrightarrow>
        deadlineLast op1 (routerContractAddress this) ''add_liquidity'' 8
          (getCurrentTimePlusOneHour now))
   \<and> (removeLiquidity_op this sdk now a2 = Inr op2 \<longrightarrow>
        deadlineLast op2 (routerContractAddress this) ''remove_liquidity'' 7
          (getCurrentTimePlusOneHour now))
   \<and> (swapExactTokensForTokens_op this sdk now a3 = Inr op3 \<longrightarrow>
        deadlineLast op3 (routerContractAddress this) ''swap_exact_tokens_for_tokens'' 5
          (getCurrentTimePlusOneHour now))"
proof (intro conjI impI)
  show f: "getCurrentTimePlusOneHour now = (now + 36000000) div 1000"
    by (simp add: getCurrentTimePlusOneHour_def)
  have "(now + 36000000) div 1000 = now div 1000 + 10 * 3600"
    by simp
  with f show g: "getCurrentTimePlusOneHour now = now div 1000 + 10 * 3600"
    by simp
  from g show "getCurrentTimePlusOneHour now \<noteq> now div 1000 + 3600"
    by simp
next
  assume "addLiquidity_op this sdk now a1 = Inr op1"
  then show "deadlineLast op1 (routerContractAddress this) ''add_liquidity'' 8
          (getCurrentTimePlusOneHour now)"
    by (rule addLiquidity_deadline)
next
  assume "removeLiquidity_op this sdk now a2 = Inr op2"
  then show "deadlineLast op2 (routerContractAddress this) ''remove_liquidity'' 7
          (getCurrentTimePlusOneHour now)"
    by (rule removeLiquidity_deadline)
next
  assume "swapExactTokensForTokens_op this sdk now a3 = Inr op3"
  then show "deadlineLast op3 (routerContractAddress this) ''swap_exact_tokens_for_tokens'' 5
          (getCurrentTimePlusOneHour now)"
    by (rule swap_deadline)
qed

theorem getCurrentTimePlusOneHour_deadline_witness:
  "getCurrentTimePlusOneHour 1700000000000 = 1700036000
   \<and> (\<exists>op1. addLiquidity_op testnetMaker lenientSdk 1700000000000 liquidityArgs = Inr op1
         \<and> deadlineLast op1 ''CROUTER'' ''add_liquidity'' 8 1700036000)
   \<and> (\<exists>op2. removeLiquidity_op testnetMaker lenientSdk 1700000000000 removalArgs = Inr op2
         \<and> deadlineLast op2 ''CROUTER'' ''remove_liquidity'' 7 1700036000)
   \<and> (\<exists>op3. swapExactTokensForTokens_op testnetMaker lenientSdk 1700000000000 swapPathArgs = Inr op3
         \<and> deadlineLast op3 ''CROUTER'' ''swap_exact_tokens_for_tokens'' 5 1700036000)"
proof -
  have sdk [simp]: "Contract_new lenientSdk a = Inr a" "Address_toScVal lenientSdk a = Inr (ScvAddress a)"
    "nativeToScVal lenientSdk v = Inr v" "Address_new lenientSdk a = Inr a" for a v
    by (simp_all add: Contract_new_def Address_toScVal_def nativeToScVal_def Address_new_def
        checked_def lenientSdk_def)
  have r: "routerContractAddress testnetMaker = ''CROUTER''"
    by (simp add: testnetMaker_def)
  have t: "getCurrentTimePlusOneHour 1700000000000 = 1700036000"
    by (simp add: getCurrentTimePlusOneHour_def)
  obtain op1 where e1: "addLiquidity_op testnetMaker lenientSdk 1700000000000 liquidityArgs = Inr op1"
    by (simp add: addLiquidity_op_def)
  obtain op2 where e2: "removeLiquidity_op testnetMaker lenientSdk 1700000000000 removalArgs = Inr op2"
    by (simp add: removeLiquidity_op_def)
  obtain op3 where e3:
    "swapExactTokensForTokens_op testnetMaker lenientSdk 1700000000000 swapPathArgs = Inr op3"
    by (simp add: swapExactTokensForTokens_op_def swapPathArgs_def)
  from getCurrentTimePlusOneHour_deadline
    [of 1700000000000 testnetMaker lenientSdk liquidityArgs op1 removalArgs op2 swapPathArgs op3]
    e1 e2 e3 r t
  show ?thesis by simp
qed

section \<open>Properties of the numbers of the runtime\<close>

subsection \<open>Rounding to binary64\<close>

lemma bitLength_bounds: "0 < n \<Longrightarrow> 2 ^ (bitLength n - 1) \<le> n \<and> n < 2 ^ bitLength n"
proof (induction n rule: bitLength.induct)
  case (1 n)
  show ?case
  proof (cases "n div 2 = 0")
    case True
    with 1(2) have "n = 1" by presburger
    then show ?thesis
      by (simp add: bitLength.simps [of 1] bitLength.simps [of 0])
  next
    case False
    with 1(2) have pos: "0 < n div 2" by presburger
    have b: "bitLength n = Suc (bitLength (n div 2))"
      using 1(2) by (subst bitLength.simps) simp
    from 1(1) pos 1(2) have ih: "2 ^ (bitLength (n div 2) - 1) \<le> n div 2 \<and> n div 2 < 2 ^ bitLength (n div 2)"
      by simp
    have k: "0 < bitLength (n div 2)"
      using pos by (subst bitLength.simps) simp
    then have p: "(2::int) ^ bitLength (n div 2) = 2 * 2 ^ (bitLength (n div 2) - 1)"
      by (cases "bitLength (n div 2)") simp_all
    have "2 * (n div 2) \<le> n" and "n < 2 * (n div 2) + 2"
      by presburger+
    with ih p show ?thesis
      unfolding b by simp
  qed
qed

lemma floorlog2_bounds:
  assumes "0 < m"
  shows "2 powi (floorlog2 m) \<le> m" and "m < 2 powi (floorlog2 m + 1)"
proof -
  obtain a b where q: "quotient_of m = (a, b)"
    by (cases "quotient_of m")
  then have b: "0 < b" and m: "m = of_int a / of_int b"
    by (auto dest: quotient_of_denom_pos quotient_of_div)
  with assms have a: "0 < a"
    by (simp add: zero_less_divide_iff)
  define x y where "x = bitLength a" and "y = bitLength b"
  from bitLength_bounds [OF a] bitLength_bounds [OF b]
  have ba: "2 ^ (x - 1) \<le> a" "a < 2 ^ x" and bb: "2 ^ (y - 1) \<le> b" "b < 2 ^ y"
    by (simp_all add: x_def y_def)
  have x: "0 < x" and y: "0 < y"
    using a b by (simp_all add: x_def y_def bitLength.simps [of a] bitLength.simps [of b])
  define d where "d = int x - int y"
  have ra: "(2::rat) ^ (x - 1) \<le> of_int a" "(of_int a :: rat) < 2 ^ x"
    and rb: "(2::rat) ^ (y - 1) \<le> of_int b" "(of_int b :: rat) < 2 ^ y"
    using ba bb by (metis of_int_le_iff of_int_less_iff of_int_numeral of_int_power)+
  have bpos: "(0::rat) < of_int b" and apos: "(0::rat) < of_int a"
    using a b by simp_all
  have px: "(2::rat) ^ x = 2 powi (int x)" and py: "(2::rat) ^ y = 2 powi (int y)"
    and px1: "(2::rat) ^ (x - 1) = 2 powi (int x - 1)" and py1: "(2::rat) ^ (y - 1) = 2 powi (int y - 1)"
    using x y by (simp_all add: power_int_def nat_diff_distrib)
  have up: "m < 2 powi (d + 1)"
  proof -
    have "of_int a / of_int b < (2::rat) ^ x / 2 ^ (y - 1)"
      using ra rb bpos apos by (intro frac_less) simp_all
    also have "\<dots> = 2 powi (int x - (int y - 1))"
      unfolding px py1 by (subst power_int_diff) simp_all
    finally show ?thesis
      by (simp add: m d_def algebra_simps)
  qed
  have lo: "2 powi (d - 1) < m"
  proof -
    have "2 powi (int x - 1 - int y) = (2::rat) ^ (x - 1) / 2 ^ y"
      unfolding px1 py by (subst power_int_diff) simp_all
    also have "\<dots> < of_int a / of_int b"
      using ra rb bpos apos by (intro frac_less2) simp_all
    finally show ?thesis
      by (simp add: m d_def algebra_simps)
  qed
  have f: "floorlog2 m = (if 2 powi d \<le> m then d else d - 1)"
    by (simp add: floorlog2_def q x_def y_def d_def)
  show "2 powi (floorlog2 m) \<le> m"
    using lo by (simp add: f)
  show "m < 2 powi (floorlog2 m + 1)"
    using up by (simp add: f)
qed

lemma floorlog2_unique:
  assumes "2 powi e \<le> m" and "m < 2 powi (e + 1)"
  shows "floorlog2 m = e"
proof -
  have "(0::rat) < 2 powi e"
    by simp
  with assms(1) have pos: "0 < m"
    by linarith
  note b = floorlog2_bounds [OF pos]
  have "\<not> floorlog2 m < e"
  proof
    assume "floorlog2 m < e"
    then have "floorlog2 m + 1 \<le> e" by simp
    then have "(2::rat) powi (floorlog2 m + 1) \<le> 2 powi e"
      by (intro power_int_increasing) simp_all
    with b(2) assms(1) show False by simp
  qed
  moreover have "\<not> e < floorlog2 m"
  proof
    assume "e < floorlog2 m"
    then have "e + 1 \<le> floorlog2 m" by simp
    then have "(2::rat) powi (e + 1) \<le> 2 powi (floorlog2 m)"
      by (intro power_int_increasing) simp_all
    with b(1) assms(2) show False by simp
  qed
  ultimately show ?thesis by simp
qed

lemma roundHalfEven_near: "\<bar>of_int (roundHalfEven r) - r\<bar> \<le> 1 / 2"
proof -
  have "of_int \<lfloor>r\<rfloor> \<le> r" and "r < of_int \<lfloor>r\<rfloor> + 1"
    by linarith+
  then show ?thesis
    by (auto simp: roundHalfEven_def Let_def abs_le_iff)
qed

lemma roundHalfEven_eq:
  assumes "of_int n - 1 / 2 < r" and "r < of_int n + 1 / 2"
  shows "roundHalfEven r = n"
proof -
  have "\<bar>of_int (roundHalfEven r) - r\<bar> \<le> 1 / 2"
    by (rule roundHalfEven_near)
  with assms have "\<bar>(of_int (roundHalfEven r) :: rat) - of_int n\<bar> < 1"
    by linarith
  then have "\<bar>roundHalfEven r - n\<bar> < 1"
    by (metis of_int_abs of_int_diff of_int_less_iff of_int_1)
  then show ?thesis by simp
qed

lemma roundHalfEven_of_int [simp]: "roundHalfEven (of_int n) = n"
  by (rule roundHalfEven_eq) simp_all

lemma roundHalfEven_le:
  assumes "r \<le> of_int n"
  shows "roundHalfEven r \<le> n"
proof -
  have "\<lfloor>r\<rfloor> \<le> n" using assms by (simp add: floor_le_iff)
  moreover have "r - of_int \<lfloor>r\<rfloor> = 0" if "\<lfloor>r\<rfloor> = n"
    using that assms by linarith
  ultimately show ?thesis
    by (cases "\<lfloor>r\<rfloor> = n") (auto simp: roundHalfEven_def Let_def)
qed

lemma round64_normal:
  assumes "2 powi e \<le> m" and "m < 2 powi (e + 1)" and "- 1022 \<le> e" and "e \<le> 1022"
  shows "round64 m = Some (of_int (roundHalfEven (m / 2 powi (e - 52))) * 2 powi (e - 52))"
proof -
  have "(0::rat) < 2 powi e"
    by simp
  with assms(1) have pos: "0 < m"
    by linarith
  have fl: "floorlog2 m = e"
    using assms(1,2) by (rule floorlog2_unique)
  define q :: rat where "q = 2 powi (e - 52)"
  have qpos: "0 < q"
    by (simp add: q_def)
  have "2 powi (e + 1) / q = (2::rat) powi ((e + 1) - (e - 52))"
    unfolding q_def by (subst power_int_diff) simp_all
  also have "\<dots> = of_int (2 ^ 53)"
    by simp
  finally have top: "2 powi (e + 1) / q = of_int (2 ^ 53)" .
  have "m / q \<le> 2 powi (e + 1) / q"
    using assms(2) qpos by (simp add: divide_right_mono)
  then have "roundHalfEven (m / q) \<le> 2 ^ 53"
    unfolding top by (rule roundHalfEven_le)
  then have "(of_int (roundHalfEven (m / q)) :: rat) \<le> of_int (2 ^ 53)"
    by (simp only: of_int_le_iff)
  then have "of_int (roundHalfEven (m / q)) * q \<le> of_int (2 ^ 53) * q"
    using qpos by (simp only: mult_le_cancel_right_pos)
  also have "of_int (2 ^ 53) * q = 2 powi (e + 1)"
    using top qpos by (simp add: field_simps)
  also have "(2::rat) powi (e + 1) \<le> 2 powi 1023"
    using assms(4) by (intro power_int_increasing) simp_all
  also have "(2::rat) powi 1023 < 2 ^ 1024"
    by simp
  finally have "\<not> 2 ^ 1024 \<le> of_int (roundHalfEven (m / q)) * q"
    by simp
  then show ?thesis
    using pos assms(3) by (simp add: round64_def fl Let_def q_def max_def)
qed

lemma round64_is:
  assumes "2 powi e \<le> m" and "m < 2 powi (e + 1)" and "- 1022 \<le> e" and "e \<le> 1022"
    and "of_int n - 1 / 2 < m / 2 powi (e - 52)" and "m / 2 powi (e - 52) < of_int n + 1 / 2"
  shows "round64 m = Some (of_int n * 2 powi (e - 52))"
  using round64_normal [OF assms(1-4)] roundHalfEven_eq [OF assms(5,6)] by simp

lemma round64_int:
  assumes "0 < n" and "n < 2 ^ 53"
  shows "round64 (of_int n) = Some (of_int n)"
proof -
  define m :: rat where "m = of_int n"
  have pos: "0 < m"
    using assms(1) by (simp add: m_def)
  define e where "e = floorlog2 m"
  note b = floorlog2_bounds [OF pos, folded e_def]
  have "\<not> e < 0"
  proof
    assume "e < 0"
    then have "e + 1 \<le> 0" by simp
    then have "(2::rat) powi (e + 1) \<le> 2 powi 0"
      by (intro power_int_increasing) simp_all
    with b(2) have "m < 1" by simp
    with assms(1) show False by (simp add: m_def)
  qed
  moreover have "\<not> 53 \<le> e"
  proof
    assume "53 \<le> e"
    then have "(2::rat) powi 53 \<le> 2 powi e"
      by (intro power_int_increasing) simp_all
    with b(1) have "(2::rat) ^ 53 \<le> m" by simp
    moreover have "m < of_int (2 ^ 53)"
      unfolding m_def using assms(2) by (simp only: of_int_less_iff)
    ultimately show False by simp
  qed
  ultimately have e: "0 \<le> e" "e \<le> 52"
    by simp_all
  define k where "k = nat (52 - e)"
  have q: "(2::rat) powi (e - 52) = 1 / 2 ^ k"
    using e by (simp add: power_int_def k_def field_simps)
  have "m / 2 powi (e - 52) = of_int (n * 2 ^ k)"
    by (simp add: q m_def)
  then have "roundHalfEven (m / 2 powi (e - 52)) = n * 2 ^ k"
    by (simp only: roundHalfEven_of_int)
  with round64_normal [OF b, of ] e show ?thesis
    by (simp add: q m_def)
qed

lemma round64_error:
  assumes "0 \<le> m" and "m \<le> 2 ^ 1023"
  shows "\<exists>r. round64 m = Some r \<and> 0 \<le> r \<and> \<bar>r - m\<bar> \<le> m / 2 ^ 53 + 1 / 2 ^ 1075"
proof (cases "m = 0")
  case True
  then show ?thesis by (simp add: round64_def)
next
  case False
  with assms(1) have pos: "0 < m" by simp
  define e where "e = max (floorlog2 m) (- 1022)"
  define q :: rat where "q = 2 powi (e - 52)"
  define r where "r = of_int (roundHalfEven (m / q)) * q"
  have qpos: "0 < q"
    by (simp add: q_def)
  have "r - m = (of_int (roundHalfEven (m / q)) - m / q) * q"
    using qpos by (simp add: r_def left_diff_distrib)
  then have "\<bar>r - m\<bar> = \<bar>of_int (roundHalfEven (m / q)) - m / q\<bar> * q"
    using qpos by (simp only: abs_mult abs_of_pos)
  also have "\<dots> \<le> 1 / 2 * q"
    using roundHalfEven_near [of "m / q"] qpos by (simp only: mult_le_cancel_right_pos)
  also have "1 / 2 * q = 2 powi (e - 53)"
    unfolding q_def by (simp add: power_int_diff)
  finally have near: "\<bar>r - m\<bar> \<le> 2 powi (e - 53)" .
  have small: "2 powi (e - 53) \<le> m / 2 ^ 53 + 1 / 2 ^ 1075"
  proof (cases "- 1022 \<le> floorlog2 m")
    case True
    then have "e = floorlog2 m" by (simp add: e_def)
    with floorlog2_bounds(1) [OF pos] have "2 powi e \<le> m" by simp
    then have "2 powi e / 2 ^ 53 \<le> m / 2 ^ 53"
      by (simp add: divide_right_mono)
    moreover have "(2::rat) powi (e - 53) = 2 powi e / 2 ^ 53"
      by (simp add: power_int_diff)
    ultimately show ?thesis by simp
  next
    case False
    then have "e = - 1022" by (simp add: e_def)
    then have "(2::rat) powi (e - 53) = 1 / 2 ^ 1075"
      by (simp add: power_int_def field_simps)
    with pos show ?thesis by simp
  qed
  have nonneg: "0 \<le> r"
  proof -
    have "0 \<le> m / q" using pos qpos by simp
    then have "0 \<le> \<lfloor>m / q\<rfloor>" by simp
    then have "0 \<le> roundHalfEven (m / q)"
      by (simp add: roundHalfEven_def Let_def)
    then show ?thesis using qpos by (simp add: r_def)
  qed
  have "r \<le> m + (m / 2 ^ 53 + 1 / 2 ^ 1075)"
    using near small by linarith
  also have "\<dots> \<le> 2 ^ 1023 + (2 ^ 1023 / 2 ^ 53 + 1 / 2 ^ 1075)"
    using assms(2) by (intro add_mono divide_right_mono) simp_all
  also have "\<dots> < 2 ^ 1024"
    by simp
  finally have "\<not> 2 ^ 1024 \<le> r" by simp
  then have "round64 m = Some r"
    using False by (simp add: round64_def Let_def e_def q_def r_def)
  with near small nonneg show ?thesis
    by (intro exI [of _ r]) linarith
qed

subsection \<open>Fixed notation\<close>

lemma hexDigitValue_digitChar: "d < 10 \<Longrightarrow> hexDigitValue (digitChar d) = Some d"
  by (simp add: hexDigitValue_def digitChar_def Let_def)

lemma isDigit_digitChar: "d < 10 \<Longrightarrow> isDigit (digitChar d)"
  by (simp add: isDigit_def digitChar_def)

lemma digitsValue_snoc:
  "digitsValue base (ds @ [c]) = base * digitsValue base ds + int (the (hexDigitValue c))"
  by (simp add: digitsValue_def)

lemma decimalDigits_props:
  "0 \<le> n \<Longrightarrow>
   decimalDigits n \<noteq> [] \<and> list_all isDigit (decimalDigits n) \<and> digitsValue 10 (decimalDigits n) = n"
proof (induction n rule: decimalDigits.induct)
  case (1 n)
  show ?case
  proof (cases "n < 10")
    case True
    with 1(2) have "nat n < 10" by simp
    with True 1(2) show ?thesis
      by (subst (1 2 3) decimalDigits.simps)
        (simp add: isDigit_digitChar digitsValue_def hexDigitValue_digitChar)
  next
    case False
    with 1 have ih: "decimalDigits (n div 10) \<noteq> []" "list_all isDigit (decimalDigits (n div 10))"
      "digitsValue 10 (decimalDigits (n div 10)) = n div 10"
      by simp_all
    have d: "nat (n mod 10) < 10"
      by simp
    have "int (nat (n mod 10)) = n mod 10"
      by simp
    with False ih d show ?thesis
      by (subst (1 2 3) decimalDigits.simps)
        (simp add: isDigit_digitChar digitsValue_snoc hexDigitValue_digitChar)
  qed
qed

lemma digitsValue_zeros: "digitsValue 10 (replicate k CHR ''0'' @ ds) = digitsValue 10 ds"
proof -
  have "foldl (\<lambda>acc c. 10 * acc + int (the (hexDigitValue c))) 0 (replicate k CHR ''0'') = 0"
    by (induction k) (simp_all add: hexDigitValue_def)
  then show ?thesis
    by (simp add: digitsValue_def)
qed

lemma fixedNotation_shape:
  assumes "0 \<le> n" and "0 < f"
  shows "\<exists>ip fp. fixedNotation n f = ip @ ''.'' @ fp \<and> ip \<noteq> [] \<and> length fp = f \<and>
           list_all isDigit (ip @ fp) \<and> digitsValue 10 (ip @ fp) = n"
proof -
  define m where "m = decimalDigits n"
  define m' where "m' = (if length m \<le> f then replicate (f + 1 - length m) CHR ''0'' @ m else m)"
  from decimalDigits_props [OF assms(1)]
  have m: "list_all isDigit m" "digitsValue 10 m = n"
    by (simp_all add: m_def)
  have len: "f < length m'"
    by (simp add: m'_def)
  then have ne: "m' \<noteq> []"
    by auto
  have digits: "list_all isDigit m'"
    using m(1) by (simp add: m'_def isDigit_def list_all_iff)
  have val: "digitsValue 10 m' = n"
    using m(2) by (simp add: m'_def digitsValue_zeros)
  have "fixedNotation n f = take (length m' - f) m' @ ''.'' @ drop (length m' - f) m'"
    using assms(2) by (simp add: fixedNotation_def m_def m'_def Let_def)
  with len ne digits val show ?thesis
    by (rule_tac x = "take (length m' - f) m'" in exI, rule_tac x = "drop (length m' - f) m'" in exI)
      simp
qed

subsection \<open>The error of a bound of the price\<close>

text \<open>
  Three roundings lie between the quotient of two reserves and a bound of the price:
  of the quotient, of its tenth, and of the difference or the sum; \<^verbatim>\<open>toFixed\<close> then
  moves the value by at most half a unit of the seventh decimal place.
\<close>

lemma toFixed_near:
  assumes "0 < v" and "v \<le> 2 * 10 ^ 20"
  shows "\<exists>w ip fp. fromRat False v = Finite False w \<and> toFixed (Finite False w) 7 = ip @ ''.'' @ fp \<and>
           ip \<noteq> [] \<and> length fp = 7 \<and> list_all isDigit (ip @ fp) \<and>
           \<bar>w - v\<bar> \<le> v / 2 ^ 53 + 1 / 2 ^ 1075 \<and>
           \<bar>of_int (digitsValue 10 (ip @ fp)) / 10 ^ 7 - w\<bar> \<le> 1 / (2 * 10 ^ 7)"
proof -
  have "v \<le> 2 ^ 1023"
    using assms(2) by simp
  with round64_error [of v] assms(1)
  obtain w where w: "round64 v = Some w" "0 \<le> w" "\<bar>w - v\<bar> \<le> v / 2 ^ 53 + 1 / 2 ^ 1075"
    by auto
  have "w \<le> v + (v / 2 ^ 53 + 1 / 2 ^ 1075)"
    using w(3) by linarith
  also have "\<dots> \<le> 2 * 10 ^ 20 + (2 * 10 ^ 20 / 2 ^ 53 + 1 / 2 ^ 1075)"
    using assms(2) by (intro add_mono divide_right_mono) simp_all
  also have "\<dots> < 10 ^ 21"
    by simp
  finally have small: "\<not> 10 ^ 21 \<le> w"
    by simp
  define n where "n = \<lfloor>w * 10 ^ 7 + 1 / 2\<rfloor>"
  have "0 \<le> w * 10 ^ 7 + 1 / 2"
    using w(2) by simp
  then have n: "0 \<le> n"
    by (simp add: n_def)
  from fixedNotation_shape [OF n, of 7]
  obtain ip fp where f: "fixedNotation n 7 = ip @ ''.'' @ fp" "ip \<noteq> []" "length fp = 7"
    "list_all isDigit (ip @ fp)" "digitsValue 10 (ip @ fp) = n"
    by auto
  have "of_int n \<le> w * 10 ^ 7 + 1 / 2" and "w * 10 ^ 7 + 1 / 2 < of_int n + 1"
    unfolding n_def by linarith+
  then have "of_int n / 10 ^ 7 \<le> w + 1 / (2 * 10 ^ 7)" and "w - 1 / (2 * 10 ^ 7) < of_int n / 10 ^ 7"
    by (simp_all add: field_simps)
  then have "\<bar>of_int n / 10 ^ 7 - w\<bar> \<le> 1 / (2 * 10 ^ 7)"
    unfolding abs_le_iff by linarith
  moreover have "toFixed (Finite False w) 7 = ip @ ''.'' @ fp"
    using small f(1) by (simp add: toFixed_def n_def)
  moreover have "fromRat False v = Finite False w"
    using w(1) by (simp add: fromRat_def)
  ultimately show ?thesis
    using f(2-5) w(3) by blast
qed

lemma band_near:
  fixes x y :: rat
  assumes "0 < y" and "1 / 10 ^ 20 \<le> x / y" and "x / y \<le> 10 ^ 20"
  defines "P \<equiv> js_div (Finite False x) (Finite False y)"
    and "T \<equiv> Finite False (3602879701896397 / 36028797018963968)"
  shows "\<exists>ip fp. toFixed (js_sub P (js_mul P T)) 7 = ip @ ''.'' @ fp \<and>
           ip \<noteq> [] \<and> length fp = 7 \<and> list_all isDigit (ip @ fp) \<and>
           \<bar>of_int (digitsValue 10 (ip @ fp)) / 10 ^ 7 - x / y * (1 - 1 / 10)\<bar>
             \<le> 1 / (2 * 10 ^ 7) + 3 * (x / y) / 2 ^ 53"
    and "\<exists>ip fp. toFixed (js_add P (js_mul P T)) 7 = ip @ ''.'' @ fp \<and>
           ip \<noteq> [] \<and> length fp = 7 \<and> list_all isDigit (ip @ fp) \<and>
           \<bar>of_int (digitsValue 10 (ip @ fp)) / 10 ^ 7 - x / y * (1 + 1 / 10)\<bar>
             \<le> 1 / (2 * 10 ^ 7) + 3 * (x / y) / 2 ^ 53"
proof -
  define X where "X = x / y"
  define h :: rat where "h = 1 / 2 ^ 1075"
  have hX: "h \<le> X / 2 ^ 900"
  proof -
    have "h \<le> (1 / 10 ^ 20) / 2 ^ 900"
      by (simp add: h_def)
    also have "\<dots> \<le> X / 2 ^ 900"
      using assms(2) by (intro divide_right_mono) (simp_all add: X_def)
    finally show ?thesis .
  qed
  have "(0::rat) < 1 / 10 ^ 20"
    by simp
  with assms(2) have Xpos: "0 < X"
    unfolding X_def by linarith
  have Xle: "X \<le> 10 ^ 20"
    using assms(3) by (simp add: X_def)
  have "X \<le> 2 ^ 1023"
    using Xle by simp
  with round64_error [of X] Xpos
  obtain p where p: "round64 X = Some p" "0 \<le> p" "\<bar>p - X\<bar> \<le> X / 2 ^ 53 + h"
    by (auto simp: h_def)
  have P: "P = Finite False p"
    using assms(1) p(1) by (simp add: P_def fromRat_def X_def)
  define c :: rat where "c = 3602879701896397 / 36028797018963968"
  have pc0: "0 \<le> p * c"
    using p(2) by (simp add: c_def)
  have pX: "p \<le> 2 * X"
    using p(3) hX Xpos unfolding abs_le_iff by simp
  have "p * c \<le> 2 ^ 1023"
  proof -
    have "p * c \<le> p"
      using p(2) by (simp add: c_def)
    also have "p \<le> 2 * 10 ^ 20"
      using pX Xle by linarith
    also have "\<dots> \<le> 2 ^ 1023"
      by simp
    finally show ?thesis .
  qed
  with round64_error [of "p * c"] pc0
  obtain t where t: "round64 (p * c) = Some t" "0 \<le> t" "\<bar>t - p * c\<bar> \<le> p * c / 2 ^ 53 + h"
    by (auto simp: h_def)
  have PT: "js_mul (Finite False p) T = Finite False t"
    using t(1) by (simp add: T_def fromRat_def c_def)
  have lin: "\<bar>p - X\<bar> \<le> X / 9007199254740992 + h"
    "\<bar>t - p * (3602879701896397 / 36028797018963968)\<bar>
       \<le> p * (3602879701896397 / 36028797018963968) / 9007199254740992 + h"
    "h \<le> X / 2 ^ 100"
  proof -
    show "\<bar>p - X\<bar> \<le> X / 9007199254740992 + h"
      using p(3) by simp
    show "\<bar>t - p * (3602879701896397 / 36028797018963968)\<bar>
       \<le> p * (3602879701896397 / 36028797018963968) / 9007199254740992 + h"
      using t(3) by (simp add: c_def)
    have "X / 2 ^ 900 \<le> X / 2 ^ 100"
      using Xpos by (intro divide_left_mono) simp_all
    with hX show "h \<le> X / 2 ^ 100"
      by linarith
  qed
  have lin': "h \<le> X / 1267650600228229401496703205376"
    using lin(3) by simp
  show "\<exists>ip fp. toFixed (js_sub P (js_mul P T)) 7 = ip @ ''.'' @ fp \<and>
           ip \<noteq> [] \<and> length fp = 7 \<and> list_all isDigit (ip @ fp) \<and>
           \<bar>of_int (digitsValue 10 (ip @ fp)) / 10 ^ 7 - x / y * (1 - 1 / 10)\<bar>
             \<le> 1 / (2 * 10 ^ 7) + 3 * (x / y) / 2 ^ 53"
  proof -
    define v where "v = p - t"
    have vpos: "0 < v"
      using lin(1,2) lin' Xpos unfolding v_def abs_le_iff by linarith
    have vle: "v \<le> 2 * 10 ^ 20"
      using pX Xle t(2) by (simp add: v_def)
    from toFixed_near [OF vpos vle]
    obtain w ip fp where w: "fromRat False v = Finite False w"
      "toFixed (Finite False w) 7 = ip @ ''.'' @ fp" "ip \<noteq> []" "length fp = 7"
      "list_all isDigit (ip @ fp)" "\<bar>w - v\<bar> \<le> v / 2 ^ 53 + h"
      "\<bar>of_int (digitsValue 10 (ip @ fp)) / 10 ^ 7 - w\<bar> \<le> 1 / (2 * 10 ^ 7)"
      unfolding h_def by blast
    define d where "d = of_int (digitsValue 10 (ip @ fp)) / (10 ^ 7 :: rat)"
    have "js_sub P (js_mul P T) = Finite False w"
      using vpos w(1) by (simp add: P PT js_sub_def signedValue_def v_def Let_def)
    moreover have "\<bar>d - X * (1 - 1 / 10)\<bar> \<le> 1 / (2 * 10 ^ 7) + 3 * X / 2 ^ 53"
    proof -
      have a: "\<bar>w - v\<bar> \<le> v / 9007199254740992 + h"
        using w(6) by simp
      have b: "\<bar>d - w\<bar> \<le> 1 / 20000000"
        using w(7) by (simp add: d_def)
      have "\<bar>d - X * (9 / 10)\<bar> \<le> 1 / 20000000 + 3 * X / 9007199254740992"
        using a b lin(1,2) lin' Xpos unfolding v_def abs_le_iff by (simp add: field_simps)
      then show ?thesis
        by simp
    qed
    ultimately show ?thesis
      using w(2-5) unfolding d_def X_def by auto
  qed
  show "\<exists>ip fp. toFixed (js_add P (js_mul P T)) 7 = ip @ ''.'' @ fp \<and>
           ip \<noteq> [] \<and> length fp = 7 \<and> list_all isDigit (ip @ fp) \<and>
           \<bar>of_int (digitsValue 10 (ip @ fp)) / 10 ^ 7 - x / y * (1 + 1 / 10)\<bar>
             \<le> 1 / (2 * 10 ^ 7) + 3 * (x / y) / 2 ^ 53"
  proof -
    define v where "v = p + t"
    have tp: "t \<le> p"
      using lin(1,2) lin' Xpos unfolding abs_le_iff by linarith
    have vpos: "0 < v"
      using lin(1,2) lin' Xpos unfolding v_def abs_le_iff by linarith
    have "p \<le> X + X / 2 ^ 53 + h"
      using p(3) by (simp add: abs_le_iff)
    have vle: "v \<le> 2 * 10 ^ 20"
      using lin(1,2) lin' Xpos Xle unfolding v_def abs_le_iff by linarith
    from toFixed_near [OF vpos vle]
    obtain w ip fp where w: "fromRat False v = Finite False w"
      "toFixed (Finite False w) 7 = ip @ ''.'' @ fp" "ip \<noteq> []" "length fp = 7"
      "list_all isDigit (ip @ fp)" "\<bar>w - v\<bar> \<le> v / 2 ^ 53 + h"
      "\<bar>of_int (digitsValue 10 (ip @ fp)) / 10 ^ 7 - w\<bar> \<le> 1 / (2 * 10 ^ 7)"
      unfolding h_def by blast
    define d where "d = of_int (digitsValue 10 (ip @ fp)) / (10 ^ 7 :: rat)"
    have "js_add P (js_mul P T) = Finite False w"
      using vpos w(1) by (simp add: P PT signedValue_def v_def Let_def)
    moreover have "\<bar>d - X * (1 + 1 / 10)\<bar> \<le> 1 / (2 * 10 ^ 7) + 3 * X / 2 ^ 53"
    proof -
      have a: "\<bar>w - v\<bar> \<le> v / 9007199254740992 + h"
        using w(6) by simp
      have b: "\<bar>d - w\<bar> \<le> 1 / 20000000"
        using w(7) by (simp add: d_def)
      have "\<bar>d - X * (11 / 10)\<bar> \<le> 1 / 20000000 + 3 * X / 9007199254740992"
        using a b lin(1,2) lin' Xpos unfolding v_def abs_le_iff by (simp add: field_simps)
      then show ?thesis
        by simp
    qed
    ultimately show ?thesis
      using w(2-5) unfolding d_def X_def by auto
  qed
qed

subsection \<open>Evaluation at given texts\<close>

lemma fromRat_int: "0 < n \<Longrightarrow> n < 2 ^ 53 \<Longrightarrow> fromRat s (of_int n) = Finite s (of_int n)"
  by (simp add: fromRat_def round64_int)

lemma Number_200: "Number ''200'' = Finite False 200"
  using fromRat_int [of 200 False]
  by (simp add: Number_def trim_def isWhiteSpace_def decimalLiteral_def isDigit_def
      digitsValue_def hexDigitValue_def Let_def)

lemma Number_100: "Number ''100'' = Finite False 100"
  using fromRat_int [of 100 False]
  by (simp add: Number_def trim_def isWhiteSpace_def decimalLiteral_def isDigit_def
      digitsValue_def hexDigitValue_def Let_def)

lemma Number_tenth: "Number ''0.1'' = Finite False (3602879701896397 / 36028797018963968)"
  using round64_is [of "- 4" "1 / 10" 7205759403792794]
  by (simp add: Number_def trim_def isWhiteSpace_def decimalLiteral_def isDigit_def
      digitsValue_def hexDigitValue_def Let_def fromRat_def)

lemma Number_1: "Number ''1'' = Finite False 1"
  using fromRat_int [of 1 False]
  by (simp add: Number_def trim_def isWhiteSpace_def decimalLiteral_def isDigit_def
      digitsValue_def hexDigitValue_def Let_def)

lemma Number_384: "Number ''384'' = Finite False 384"
  using fromRat_int [of 384 False]
  by (simp add: Number_def trim_def isWhiteSpace_def decimalLiteral_def isDigit_def
      digitsValue_def hexDigitValue_def Let_def)

lemma digitChar_values:
  "digitChar 0 = CHR ''0'' \<and> digitChar 1 = CHR ''1'' \<and> digitChar 2 = CHR ''2'' \<and>
   digitChar 3 = CHR ''3'' \<and> digitChar 4 = CHR ''4'' \<and> digitChar 5 = CHR ''5'' \<and>
   digitChar 6 = CHR ''6'' \<and> digitChar 7 = CHR ''7'' \<and> digitChar 8 = CHR ''8'' \<and>
   digitChar 9 = CHR ''9''"
  by code_simp

lemma digitChar_simps:
  "digitChar 0 = CHR ''0''" "digitChar 1 = CHR ''1''" "digitChar 2 = CHR ''2''"
  "digitChar 3 = CHR ''3''" "digitChar 4 = CHR ''4''" "digitChar 5 = CHR ''5''"
  "digitChar 6 = CHR ''6''" "digitChar 7 = CHR ''7''" "digitChar 8 = CHR ''8''"
  "digitChar 9 = CHR ''9''" "digitChar (Suc 0) = CHR ''1''"
  using digitChar_values by simp_all

lemma decimalDigits_numeral:
  "decimalDigits (numeral k) =
     (if (numeral k :: int) < 10 then [digitChar (nat (numeral k))]
      else decimalDigits (numeral k div 10) @ [digitChar (nat (numeral k mod 10))])"
  by (rule decimalDigits.simps)

lemma replicate_numeral_Cons: "replicate (numeral k) x = x # replicate (pred_numeral k) x"
  by (simp add: numeral_eq_Suc)

lemmas fixed_simps = fixedNotation_def decimalDigits_numeral decimalDigits.simps [of 0]
  decimalDigits.simps [of 1] digitChar_simps Let_def replicate_numeral_Cons

lemma fixed_18: "fixedNotation 18000000 7 = ''1.8000000''"
  by (simp add: fixed_simps)

lemma fixed_22: "fixedNotation 22000000 7 = ''2.2000000''"
  by (simp add: fixed_simps)

lemma fixed_23437: "fixedNotation 23437 7 = ''0.0023437''"
  by (simp add: fixed_simps)

lemma fixed_23438: "fixedNotation 23438 7 = ''0.0023438''"
  by (simp add: fixed_simps)

lemma price_200_100: "js_div (Finite False 200) (Finite False 100) = Finite False 2"
  using fromRat_int [of 2 False] by simp

lemma tenth_200_100:
  "js_mul (Finite False 2) (Finite False (3602879701896397 / 36028797018963968)) =
   Finite False (3602879701896397 / 18014398509481984)"
  using round64_is [of "- 3" "3602879701896397 / 18014398509481984" 7205759403792794]
  by (simp add: fromRat_def)

lemma min_200_100:
  "js_sub (Finite False 2) (Finite False (3602879701896397 / 18014398509481984)) =
   Finite False (8106479329266893 / 4503599627370496)"
  using round64_is [of 0 "32425917317067571 / 18014398509481984" 8106479329266893]
  by (simp add: fromRat_def js_sub_def signedValue_def)

lemma max_200_100:
  "js_add (Finite False 2) (Finite False (3602879701896397 / 18014398509481984)) =
   Finite False (2476979795053773 / 1125899906842624)"
  using round64_is [of 1 "39631676720860365 / 18014398509481984" 4953959590107546]
  by (simp add: fromRat_def signedValue_def)

lemma band_200_100:
  "valueOf (Quotient (NumberOf ''200'') (NumberOf ''100'')) = Finite False 2"
  "textOf (ToFixed (Difference (Quotient (NumberOf ''200'') (NumberOf ''100''))
     (Product (Quotient (NumberOf ''200'') (NumberOf ''100'')) (Literal ''0.1''))) 7) = ''1.8000000''"
  "textOf (ToFixed (Sum (Quotient (NumberOf ''200'') (NumberOf ''100''))
     (Product (Quotient (NumberOf ''200'') (NumberOf ''100'')) (Literal ''0.1''))) 7) = ''2.2000000''"
  using floor_unique [of 18000000 "633318715191162060041 / 35184372088832 :: rat"]
    floor_unique [of 22000000 "193514050886622526729 / 8796093022208 :: rat"]
  by (simp_all add: Number_200 Number_100 Number_tenth price_200_100 tenth_200_100
      min_200_100 max_200_100 toFixed_def fixed_18 fixed_22 del: js_div.simps js_mul.simps js_add.simps)

lemma price_1_384:
  "js_div (Finite False 1) (Finite False 384) = Finite False (6004799503160661 / 2305843009213693952)"
  using round64_is [of "- 9" "1 / 384" 6004799503160661]
  by (simp add: fromRat_def)

lemma tenth_1_384:
  "js_mul (Finite False (6004799503160661 / 2305843009213693952))
          (Finite False (3602879701896397 / 36028797018963968)) =
   Finite False (4803839602528529 / 18446744073709551616)"
  using round64_is [of "- 12" "21634570243895115118877068038417 / 83076749736557242056487941267521536"
      4803839602528529]
  by (simp add: fromRat_def)

lemma min_1_384:
  "js_sub (Finite False (6004799503160661 / 2305843009213693952))
          (Finite False (4803839602528529 / 18446744073709551616)) =
   Finite False (5404319552844595 / 2305843009213693952)"
  using round64_is [of "- 9" "43234556422756759 / 18446744073709551616" 5404319552844595]
  by (simp add: fromRat_def js_sub_def signedValue_def)

lemma band_1_384:
  "textOf (ToFixed (Difference (Quotient (NumberOf ''1'') (NumberOf ''384''))
     (Product (Quotient (NumberOf ''1'') (NumberOf ''384'')) (Literal ''0.1''))) 7) = ''0.0023437''"
  using floor_unique [of 23437 "422221472265238725367 / 18014398509481984 :: rat"]
  by (simp add: Number_1 Number_384 Number_tenth price_1_384 tenth_1_384
      min_1_384 toFixed_def fixed_23437 del: js_div.simps js_mul.simps js_add.simps)

section \<open>Properties of index.ts\<close>

subsection \<open>TxMaker.buildTx\<close>

lemma foldl_addOperation:
  "foldl addOperation tx ops = tx\<lparr>b_operations := b_operations tx @ ops\<rparr>"
  by (induction ops arbitrary: tx) (simp_all add: addOperation_def)

lemma buildTx_Inr:
  assumes "getNetworkPassphrase (networks sdk) (network this) = Inr passphrase"
  shows "buildTx this sdk src signer ops =
    Inr \<lparr>Transaction.source = src, baseFee = BASE_FEE sdk, networkPassphrase = passphrase,
         operations = ops, timeoutSeconds = Some 30, signatures = [signer]\<rparr>"
  using assms
  by (simp add: buildTx_def foldl_addOperation TransactionBuilder_new_def setTimeout_def
      build_def sign_def)

text \<open>
  Claim C6. When the resolver accepts the configured network, \<open>buildTx\<close> returns an
  envelope with the given source account, the SDK's base fee as fee per operation, the
  resolved passphrase, the given operations in their order, a time-out of 30 seconds,
  and the signature of the supplied key alone. For any other network name it raises
  the unsupported-network error. Its result does not depend on the two ledger
  services, the faucet address or the router address of the client.
\<close>

theorem buildTx_envelope:
  "(getNetworkPassphrase (networks sdk) (network this) = Inr passphrase \<longrightarrow>
      (\<exists>tx. buildTx this sdk src signer ops = Inr tx
         \<and> Transaction.source tx = src
         \<and> baseFee tx = BASE_FEE sdk
         \<and> networkPassphrase tx = passphrase
         \<and> operations tx = ops
         \<and> timeoutSeconds tx = Some 30
         \<and> signatures tx = [signer]))
   \<and> (network this \<noteq> ''standalone'' \<and> network this \<noteq> ''testnet'' \<longrightarrow>
        buildTx this sdk src signer ops =
          Inl (Error ''Unsupported network. Only standalone and testnet are supported.''))
   \<and> buildTx (this\<lparr>horizonServer := horizon, sorobanServer := soroban, friendbotURI := uri,
                   routerContractAddress := router\<rparr>) sdk src signer ops
       = buildTx this sdk src signer ops"
proof (intro conjI impI)
  assume "getNetworkPassphrase (networks sdk) (network this) = Inr passphrase"
  from buildTx_Inr [OF this, of src signer ops]
  show "\<exists>tx. buildTx this sdk src signer ops = Inr tx
         \<and> Transaction.source tx = src
         \<and> baseFee tx = BASE_FEE sdk
         \<and> networkPassphrase tx = passphrase
         \<and> operations tx = ops
         \<and> timeoutSeconds tx = Some 30
         \<and> signatures tx = [signer]"
    by simp
next
  assume "network this \<noteq> ''standalone'' \<and> network this \<noteq> ''testnet''"
  then show "buildTx this sdk src signer ops =
          Inl (Error ''Unsupported network. Only standalone and testnet are supported.'')"
    by (simp add: buildTx_def getNetworkPassphrase_def)
next
  show "buildTx (this\<lparr>horizonServer := horizon, sorobanServer := soroban, friendbotURI := uri,
                   routerContractAddress := router\<rparr>) sdk src signer ops
       = buildTx this sdk src signer ops"
    by (simp add: buildTx_def)
qed

theorem buildTx_envelope_witness:
  "(\<exists>tx. buildTx testnetMaker lenientSdk bobAccount bob twoPayments = Inr tx
       \<and> baseFee tx = ''100''
       \<and> networkPassphrase tx = ''Test SDF Network ; September 2015''
       \<and> operations tx = twoPayments
       \<and> timeoutSeconds tx = Some 30
       \<and> signatures tx = [bob])
   \<and> buildTx (testnetMaker\<lparr>network := ''futurenet''\<rparr>) lenientSdk bobAccount bob twoPayments =
       Inl (Error ''Unsupported network. Only standalone and testnet are supported.'')"
proof -
  have p: "getNetworkPassphrase (networks lenientSdk) (network testnetMaker)
      = Inr ''Test SDF Network ; September 2015''"
    by (simp add: getNetworkPassphrase_def lenientSdk_def sdkNetworks_def testnetMaker_def)
  have f: "BASE_FEE lenientSdk = ''100''"
    by (simp add: lenientSdk_def)
  from buildTx_envelope [where sdk = lenientSdk and this = testnetMaker
      and passphrase = "''Test SDF Network ; September 2015''" and src = bobAccount
      and signer = bob and ops = twoPayments and horizon = friendlyHorizon
      and soroban = alwaysNotFound and uri = "[]" and router = "[]"] p f
  have "\<exists>tx. buildTx testnetMaker lenientSdk bobAccount bob twoPayments = Inr tx
       \<and> baseFee tx = ''100''
       \<and> networkPassphrase tx = ''Test SDF Network ; September 2015''
       \<and> operations tx = twoPayments
       \<and> timeoutSeconds tx = Some 30
       \<and> signatures tx = [bob]"
    by auto
  moreover from buildTx_envelope [where sdk = lenientSdk
      and this = "testnetMaker\<lparr>network := ''futurenet''\<rparr>"
      and passphrase = "[]" and src = bobAccount
      and signer = bob and ops = twoPayments and horizon = friendlyHorizon
      and soroban = alwaysNotFound and uri = "[]" and router = "[]"]
  have "buildTx (testnetMaker\<lparr>network := ''futurenet''\<rparr>) lenientSdk bobAccount bob twoPayments =
       Inl (Error ''Unsupported network. Only standalone and testnet are supported.'')"
    by simp
  ultimately show ?thesis by blast
qed

subsection \<open>TxMaker.fundAccount\<close>

lemma fundAccount_fst: "fst (fundAccount this rt account) = Inr ()"
  by (simp add: fundAccount_def split: sum.splits)

lemma fundAccount_caught:
  assumes "andThen (encodeURIComponent rt (publicKey account)) (\<lambda>key.
             andThen (fetch rt (friendbotURI this @ key)) (\<lambda>response. response)) = Inl e"
  shows "fundAccount this rt account = (Inr (), LogError [Text ''ERROR!'', Err e] # showErrorResultCodes e)"
proof (cases "encodeURIComponent rt (publicKey account)")
  case (Inl a)
  with assms show ?thesis by (simp add: fundAccount_def)
next
  case key: (Inr key)
  show ?thesis
  proof (cases "fetch rt (friendbotURI this @ key)")
    case (Inl a)
    with key assms show ?thesis by (simp add: fundAccount_def)
  next
    case (Inr response)
    with key assms show ?thesis by (simp add: fundAccount_def)
  qed
qed

text \<open>
  Claim C8. \<open>fundAccount\<close> never raises. For an answer of the faucet whose
  \<open>successful\<close> is true (truthy) it writes the success message and reports no error.
  For an answer that is not successful and whose \<open>detail\<close> is the ``account already
  exists'' sentinel it writes that the account exists and reports no error. For every
  other answer that is not successful, for an answer that is \<open>null\<close>, and for a
  failure of the request or of reading its body, it reports an error on the console.
\<close>

theorem fundAccount_outcomes:
  "fst (fundAccount this rt account) = Inr ()
   \<and> (encodeURIComponent rt (publicKey account) = Inr key
        \<and> fetch rt (friendbotURI this @ key) = Inr (Inr responseJSON) \<longrightarrow>
        (getProp responseJSON ''successful'' = Inr successful \<and> truthy successful \<longrightarrow>
           snd (fundAccount this rt account)
             = [Log [Text (''SUCCESS! You have a new account :)'' @ newline)]]
           \<and> \<not> reportsError (snd (fundAccount this rt account)))
        \<and> (getProp responseJSON ''successful'' = Inr successful \<and> \<not> truthy successful
            \<and> getProp responseJSON ''detail'' = Inr (Some (JStr alreadyExists)) \<longrightarrow>
           snd (fundAccount this rt account) = [Log [Text ''Account already exists:'']]
           \<and> \<not> reportsError (snd (fundAccount this rt account)))
        \<and> (getProp responseJSON ''successful'' = Inr successful \<and> \<not> truthy successful
            \<and> getProp responseJSON ''detail'' = Inr detail
            \<and> detail \<noteq> Some (JStr alreadyExists) \<longrightarrow>
           snd (fundAccount this rt account)
             = [LogError [Text (''ERROR! :('' @ newline), Json responseJSON]]
           \<and> reportsError (snd (fundAccount this rt account)))
        \<and> (getProp responseJSON ''successful'' = Inl e \<longrightarrow>
           snd (fundAccount this rt account)
             = LogError [Text ''ERROR!'', Err e] # showErrorResultCodes e
           \<and> reportsError (snd (fundAccount this rt account))))
   \<and> (encodeURIComponent rt (publicKey account) = Inl e
        \<or> encodeURIComponent rt (publicKey account) = Inr key
            \<and> (fetch rt (friendbotURI this @ key) = Inl e
               \<or> fetch rt (friendbotURI this @ key) = Inr (Inl e)) \<longrightarrow>
        snd (fundAccount this rt account) = LogError [Text ''ERROR!'', Err e] # showErrorResultCodes e
        \<and> reportsError (snd (fundAccount this rt account)))"
proof (intro conjI impI)
  show "fst (fundAccount this rt account) = Inr ()"
    by (rule fundAccount_fst)
next
  assume "encodeURIComponent rt (publicKey account) = Inl e
        \<or> encodeURIComponent rt (publicKey account) = Inr key
            \<and> (fetch rt (friendbotURI this @ key) = Inl e
               \<or> fetch rt (friendbotURI this @ key) = Inr (Inl e))"
  then have "andThen (encodeURIComponent rt (publicKey account)) (\<lambda>key.
         andThen (fetch rt (friendbotURI this @ key)) (\<lambda>response. response)) = Inl e"
    by auto
  from fundAccount_caught [OF this]
  show "snd (fundAccount this rt account) = LogError [Text ''ERROR!'', Err e] # showErrorResultCodes e"
    and "reportsError (snd (fundAccount this rt account))"
    by (simp_all add: reportsError_def)
qed (simp_all add: fundAccount_def reportsError_def)

theorem fundAccount_outcomes_witness:
  "fundAccount testnetMaker (friendbot funded) alice
     = (Inr (), [Log [Text (''SUCCESS! You have a new account :)'' @ newline)]])
   \<and> fundAccount testnetMaker (friendbot existing) alice
     = (Inr (), [Log [Text ''Account already exists:'']])
   \<and> fundAccount testnetMaker (friendbot rateLimited) alice
     = (Inr (), [LogError [Text (''ERROR! :('' @ newline), Json rateLimited]])
   \<and> fundAccount testnetMaker offline alice
     = (Inr (), [LogError [Text ''ERROR!'', Err (Failure ''fetch failed'')],
                LogError [Text ''Non-API error occurred:'', Err (Failure ''fetch failed'')]])
   \<and> reportsError (snd (fundAccount testnetMaker (friendbot JNull) alice))"
proof -
  let ?key = "publicKey alice"
  have rt: "encodeURIComponent (friendbot j) ?key = Inr ?key"
    "fetch (friendbot j) (friendbotURI testnetMaker @ ?key) = Inr (Inr j)"
    "encodeURIComponent offline ?key = Inr ?key"
    "fetch offline (friendbotURI testnetMaker @ ?key) = Inl (Failure ''fetch failed'')" for j
    by (simp_all add: friendbot_def offline_def)
  have p: "getProp funded ''successful'' = Inr (Some (JBool True))" "truthy (Some (JBool True))"
    "getProp existing ''successful'' = Inr None" "\<not> truthy None"
    "getProp existing ''detail'' = Inr (Some (JStr alreadyExists))"
    "getProp rateLimited ''successful'' = Inr None"
    "getProp rateLimited ''detail'' = Inr (Some (JStr ''Too many requests''))"
    "Some (JStr ''Too many requests'') \<noteq> Some (JStr alreadyExists)"
    by (simp_all add: getProp_def truthy_def funded_def existing_def rateLimited_def
        alreadyExists_def)
  have s: "showErrorResultCodes (Failure ''fetch failed'')
      = [LogError [Text ''Non-API error occurred:'', Err (Failure ''fetch failed'')]]"
    by (simp add: showErrorResultCodes_def)
  have "fundAccount testnetMaker (friendbot funded) alice
     = (Inr (), [Log [Text (''SUCCESS! You have a new account :)'' @ newline)]])"
    using fundAccount_outcomes [where this = testnetMaker and rt = "friendbot funded"
        and account = alice and key = ?key and responseJSON = funded
        and successful = "Some (JBool True)" and detail = None and e = "Failure []"]
      rt p by (simp add: prod_eq_iff)
  moreover have "fundAccount testnetMaker (friendbot existing) alice
     = (Inr (), [Log [Text ''Account already exists:'']])"
    using fundAccount_outcomes [where this = testnetMaker and rt = "friendbot existing"
        and account = alice and key = ?key and responseJSON = existing
        and successful = None and detail = None and e = "Failure []"]
      rt p by (simp add: prod_eq_iff)
  moreover have "fundAccount testnetMaker (friendbot rateLimited) alice
     = (Inr (), [LogError [Text (''ERROR! :('' @ newline), Json rateLimited]])"
    using fundAccount_outcomes [where this = testnetMaker and rt = "friendbot rateLimited"
        and account = alice and key = ?key and responseJSON = rateLimited
        and successful = None and detail = "Some (JStr ''Too many requests'')"
        and e = "Failure []"]
      rt p by (simp add: prod_eq_iff)
  moreover have "fundAccount testnetMaker offline alice
     = (Inr (), [LogError [Text ''ERROR!'', Err (Failure ''fetch failed'')],
                LogError [Text ''Non-API error occurred:'', Err (Failure ''fetch failed'')]])"
    using fundAccount_outcomes [where this = testnetMaker and rt = offline
        and account = alice and key = ?key and responseJSON = JNull
        and successful = None and detail = None and e = "Failure ''fetch failed''"]
      rt s by (simp add: prod_eq_iff)
  moreover have "reportsError (snd (fundAccount testnetMaker (friendbot JNull) alice))"
    using fundAccount_outcomes [where this = testnetMaker and rt = "friendbot JNull"
        and account = alice and key = ?key and responseJSON = JNull
        and successful = None and detail = None
        and e = "TypeError ''Cannot read properties of null''"]
      rt by (simp add: getProp_def reportsError_def)
  ultimately show ?thesis by blast
qed

subsection \<open>TxMaker.liquidityPoolDeposit\<close>

text \<open>
  Claim C3. The deposit operation carries the two reserve strings and the texts of two
  bounds of the price. The price is the quotient of the numbers \<^verbatim>\<open>Number\<close> reads from
  the reserve strings, the lower bound is the price minus its product with 0.1 and the
  upper bound the price plus that product, each step rounded to binary64, and each
  bound is printed by \<^verbatim>\<open>toFixed(7)\<close>. When the reserves are read as positive numbers
  \<open>a\<close> and \<open>b\<close> whose quotient lies between \<open>1 / 10 ^ 20\<close> and \<open>10 ^ 20\<close>, each bound is
  printed in fixed notation with exactly seven digits after the point, and the decimal
  it denotes differs from \<open>a / b * (1 - 1 / 10)\<close>, respectively \<open>a / b * (1 + 1 / 10)\<close>,
  by no more than half a unit of the seventh place and three roundings of the price.
  For the reserves 200 and 100 the price is 2, the lower bound is printed
  \<^verbatim>\<open>1.8000000\<close> and the upper bound \<^verbatim>\<open>2.2000000\<close>.
\<close>

theorem liquidityPoolDeposit_price_band:
  "depositOperation poolId maxReserveA maxReserveB =
     LiquidityPoolDeposit poolId maxReserveA maxReserveB
       (ToFixed (minPrice maxReserveA maxReserveB) 7) (ToFixed (maxPrice maxReserveA maxReserveB) 7)
   \<and> valueOf (exactPrice maxReserveA maxReserveB) = js_div (Number maxReserveA) (Number maxReserveB)
   \<and> valueOf (minPrice maxReserveA maxReserveB) =
       js_sub (valueOf (exactPrice maxReserveA maxReserveB))
         (js_mul (valueOf (exactPrice maxReserveA maxReserveB)) (Number ''0.1''))
   \<and> valueOf (maxPrice maxReserveA maxReserveB) =
       js_add (valueOf (exactPrice maxReserveA maxReserveB))
         (js_mul (valueOf (exactPrice maxReserveA maxReserveB)) (Number ''0.1''))
   \<and> (Number maxReserveA = Finite False a \<and> Number maxReserveB = Finite False b
        \<and> 0 < b \<and> 1 / 10 ^ 20 \<le> a / b \<and> a / b \<le> 10 ^ 20 \<longrightarrow>
        (\<exists>ip fp. textOf (ToFixed (minPrice maxReserveA maxReserveB) 7) = ip @ ''.'' @ fp
           \<and> ip \<noteq> [] \<and> length fp = 7 \<and> list_all isDigit (ip @ fp)
           \<and> \<bar>of_int (digitsValue 10 (ip @ fp)) / 10 ^ 7 - a / b * (1 - 1 / 10)\<bar>
               \<le> 1 / (2 * 10 ^ 7) + 3 * (a / b) / 2 ^ 53)
        \<and> (\<exists>ip fp. textOf (ToFixed (maxPrice maxReserveA maxReserveB) 7) = ip @ ''.'' @ fp
           \<and> ip \<noteq> [] \<and> length fp = 7 \<and> list_all isDigit (ip @ fp)
           \<and> \<bar>of_int (digitsValue 10 (ip @ fp)) / 10 ^ 7 - a / b * (1 + 1 / 10)\<bar>
               \<le> 1 / (2 * 10 ^ 7) + 3 * (a / b) / 2 ^ 53))
   \<and> valueOf (exactPrice ''200'' ''100'') = Finite False 2
   \<and> textOf (ToFixed (minPrice ''200'' ''100'') 7) = ''1.8000000''
   \<and> textOf (ToFixed (maxPrice ''200'' ''100'') 7) = ''2.2000000''"
proof (intro conjI impI)
  show "depositOperation poolId maxReserveA maxReserveB =
     LiquidityPoolDeposit poolId maxReserveA maxReserveB
       (ToFixed (minPrice maxReserveA maxReserveB) 7) (ToFixed (maxPrice maxReserveA maxReserveB) 7)"
    by (simp add: depositOperation_def)
next
  show "valueOf (exactPrice maxReserveA maxReserveB) = js_div (Number maxReserveA) (Number maxReserveB)"
    by (simp add: exactPrice_def)
next
  show "valueOf (minPrice maxReserveA maxReserveB) =
       js_sub (valueOf (exactPrice maxReserveA maxReserveB))
         (js_mul (valueOf (exactPrice maxReserveA maxReserveB)) (Number ''0.1''))"
    by (simp add: minPrice_def)
next
  show "valueOf (maxPrice maxReserveA maxReserveB) =
       js_add (valueOf (exactPrice maxReserveA maxReserveB))
         (js_mul (valueOf (exactPrice maxReserveA maxReserveB)) (Number ''0.1''))"
    by (simp add: maxPrice_def)
next
  assume h: "Number maxReserveA = Finite False a \<and> Number maxReserveB = Finite False b
        \<and> 0 < b \<and> 1 / 10 ^ 20 \<le> a / b \<and> a / b \<le> 10 ^ 20"
  then have r: "0 < b" "1 / 10 ^ 20 \<le> a / b" "a / b \<le> 10 ^ 20"
    by simp_all
  have v: "valueOf (minPrice maxReserveA maxReserveB) =
       js_sub (js_div (Finite False a) (Finite False b))
         (js_mul (js_div (Finite False a) (Finite False b))
            (Finite False (3602879701896397 / 36028797018963968)))"
    using h by (simp only: minPrice_def exactPrice_def valueOf.simps Number_tenth)
  from band_near(1) [OF r]
  show "\<exists>ip fp. textOf (ToFixed (minPrice maxReserveA maxReserveB) 7) = ip @ ''.'' @ fp
           \<and> ip \<noteq> [] \<and> length fp = 7 \<and> list_all isDigit (ip @ fp)
           \<and> \<bar>of_int (digitsValue 10 (ip @ fp)) / 10 ^ 7 - a / b * (1 - 1 / 10)\<bar>
               \<le> 1 / (2 * 10 ^ 7) + 3 * (a / b) / 2 ^ 53"
    by (simp only: textOf.simps v)
next
  assume h: "Number maxReserveA = Finite False a \<and> Number maxReserveB = Finite False b
        \<and> 0 < b \<and> 1 / 10 ^ 20 \<le> a / b \<and> a / b \<le> 10 ^ 20"
  then have r: "0 < b" "1 / 10 ^ 20 \<le> a / b" "a / b \<le> 10 ^ 20"
    by simp_all
  have v: "valueOf (maxPrice maxReserveA maxReserveB) =
       js_add (js_div (Finite False a) (Finite False b))
         (js_mul (js_div (Finite False a) (Finite False b))
            (Finite False (3602879701896397 / 36028797018963968)))"
    using h by (simp only: maxPrice_def exactPrice_def valueOf.simps Number_tenth)
  from band_near(2) [OF r]
  show "\<exists>ip fp. textOf (ToFixed (maxPrice maxReserveA maxReserveB) 7) = ip @ ''.'' @ fp
           \<and> ip \<noteq> [] \<and> length fp = 7 \<and> list_all isDigit (ip @ fp)
           \<and> \<bar>of_int (digitsValue 10 (ip @ fp)) / 10 ^ 7 - a / b * (1 + 1 / 10)\<bar>
               \<le> 1 / (2 * 10 ^ 7) + 3 * (a / b) / 2 ^ 53"
    by (simp only: textOf.simps v)
next
  show "valueOf (exactPrice ''200'' ''100'') = Finite False 2"
    using band_200_100(1) by (simp only: exactPrice_def)
next
  show "textOf (ToFixed (minPrice ''200'' ''100'') 7) = ''1.8000000''"
    using band_200_100(2) by (simp only: minPrice_def exactPrice_def)
next
  show "textOf (ToFixed (maxPrice ''200'' ''100'') 7) = ''2.2000000''"
    using band_200_100(3) by (simp only: maxPrice_def exactPrice_def)
qed

theorem liquidityPoolDeposit_price_band_witness:
  "Number ''200'' = Finite False 200 \<and> Number ''100'' = Finite False 100
   \<and> (\<exists>ip fp. textOf (ToFixed (minPrice ''200'' ''100'') 7) = ip @ ''.'' @ fp
        \<and> ip \<noteq> [] \<and> length fp = 7 \<and> list_all isDigit (ip @ fp)
        \<and> \<bar>of_int (digitsValue 10 (ip @ fp)) / 10 ^ 7 - (200::rat) / 100 * (1 - 1 / 10)\<bar>
            \<le> 1 / (2 * 10 ^ 7) + 3 * (200 / 100) / 2 ^ 53)
   \<and> (\<exists>ip fp. textOf (ToFixed (maxPrice ''200'' ''100'') 7) = ip @ ''.'' @ fp
        \<and> ip \<noteq> [] \<and> length fp = 7 \<and> list_all isDigit (ip @ fp)
        \<and> \<bar>of_int (digitsValue 10 (ip @ fp)) / 10 ^ 7 - (200::rat) / 100 * (1 + 1 / 10)\<bar>
            \<le> 1 / (2 * 10 ^ 7) + 3 * (200 / 100) / 2 ^ 53)
   \<and> textOf (ToFixed (minPrice ''200'' ''100'') 7) = ''1.8000000''
   \<and> textOf (ToFixed (maxPrice ''200'' ''100'') 7) = ''2.2000000''"
proof -
  have h: "Number ''200'' = Finite False 200 \<and> Number ''100'' = Finite False 100
        \<and> (0::rat) < 100 \<and> 1 / 10 ^ 20 \<le> (200::rat) / 100 \<and> (200::rat) / 100 \<le> 10 ^ 20"
    by (simp add: Number_200 Number_100)
  note band = liquidityPoolDeposit_price_band
    [where maxReserveA = "''200''" and maxReserveB = "''100''" and a = 200 and b = 100]
  note general = band [THEN conjunct2, THEN conjunct2, THEN conjunct2, THEN conjunct2,
      THEN conjunct1, THEN mp, OF h]
  note given = band [THEN conjunct2, THEN conjunct2, THEN conjunct2, THEN conjunct2,
      THEN conjunct2, THEN conjunct2]
  from h general given show ?thesis
    by (intro conjI) (erule conjunct1 conjunct2 | elim conjE, assumption)+
qed

text \<open>
  The text of a bound is not always the seven-decimal rounding of the exact bound. For
  the reserves 1 and 384 the exact lower bound is 0.00234375, which \<^verbatim>\<open>toFixed(7)\<close>
  prints as \<^verbatim>\<open>0.0023438\<close>; the program prints \<^verbatim>\<open>0.0023437\<close>, because the number it
  has computed lies below the exact bound.
\<close>

theorem liquidityPoolDeposit_price_band_not_exact:
  "Number ''1'' = Finite False 1 \<and> Number ''384'' = Finite False 384
   \<and> textOf (ToFixed (minPrice ''1'' ''384'') 7) = ''0.0023437''
   \<and> toFixed (Finite False (1 / 384 * (1 - 1 / 10))) 7 = ''0.0023438''"
proof -
  have "textOf (ToFixed (minPrice ''1'' ''384'') 7) = ''0.0023437''"
    using band_1_384 by (simp only: minPrice_def exactPrice_def)
  moreover have "toFixed (Finite False (1 / 384 * (1 - 1 / 10))) 7 = ''0.0023438''"
    by (simp add: toFixed_def fixed_23438)
  ultimately show ?thesis
    by (simp only: Number_1 Number_384 simp_thms)
qed

subsection \<open>Conversion of failures by the methods of the client\<close>

lemma lenientSdk_accepts [simp]:
  "Contract_new lenientSdk a = Inr a"
  "Address_toScVal lenientSdk a = Inr (ScvAddress a)"
  "Address_new lenientSdk a = Inr a"
  "nativeToScVal lenientSdk v = Inr v"
  "Keypair_fromSecret lenientSdk s = Inr (Keypair s)"
  "Operation_new lenientSdk op = Inr op"
  by (simp_all add: Contract_new_def Address_toScVal_def nativeToScVal_def Address_new_def
      Keypair_fromSecret_def Operation_new_def checked_def lenientSdk_def)

lemma showErrorResultCodes_Failure [simp]:
  "showErrorResultCodes (Failure m) = [LogError [Text ''Non-API error occurred:'', Err (Failure m)]]"
  by (simp add: showErrorResultCodes_def)

text \<open>
  Claim C7, evaluated where it fails. With a contract service that refuses what is
  sent, each of the three router methods fulfils with \<open>undefined\<close> and not with the
  error object, which \<open>mintTokens\<close> returns for the same refusal. With a ledger
  service that cannot load the account, the promise of \<open>payment\<close> rejects.
\<close>

theorem router_methods_return_undefined:
  "addLiquiditySoroswap refusedMaker lenientSdk 1700000000000 liquidityArgs =
     Some (Inr Undefined,
           [LogError [Text ''Non-API error occurred:'', Err (Failure ''Request failed'')],
            LogError [Err (Failure ''Request failed'')]])
   \<and> removeLiquiditySoroswap refusedMaker lenientSdk 1700000000000 removalArgs =
     Some (Inr Undefined,
           [LogError [Text ''Non-API error occurred:'', Err (Failure ''Request failed'')],
            LogError [Err (Failure ''Request failed'')]])
   \<and> swapExactTokensForTokensSoroswap refusedMaker lenientSdk 1700000000000 swapPathArgs =
     Some (Inr Undefined,
           [LogError [Text ''Non-API error occurred:'', Err (Failure ''Request failed'')],
            LogError [Err (Failure ''Request failed'')]])
   \<and> mintTokens refusedMaker lenientSdk mintArgs =
     Some (Inr (ErrorResult (Failure ''Request failed'')),
           [LogError [Text ''Non-API error occurred:'', Err (Failure ''Request failed'')],
            Log [Text ''error:'', Err (Failure ''Request failed'')]])
   \<and> payment unreachableMaker lenientSdk tenLumens = Some (Inl (Failure ''Network Error''), [])"
proof -
  have m [simp]: "sorobanServer refusedMaker = refusingSoroban" "network refusedMaker = ''testnet''"
    "routerContractAddress refusedMaker = ''CROUTER''"
    "horizonServer unreachableMaker = unreachableHorizon"
    by (simp_all add: refusedMaker_def unreachableMaker_def testnetMaker_def)
  have s [simp]: "getAccount refusingSoroban k = Inr \<lparr>accountId = k, sequence = ''42''\<rparr>"
    "prepareTransaction refusingSoroban tx = Inr tx"
    "sendTransaction refusingSoroban tx = Inl (Failure ''Request failed'')"
    "loadAccount unreachableHorizon k = Inl (Failure ''Network Error'')" for k tx
    by (simp_all add: refusingSoroban_def twiceNotFoundThenSuccess_def unreachableHorizon_def)
  have b [simp]: "buildTx refusedMaker lenientSdk src signer ops =
    Inr \<lparr>Transaction.source = src, baseFee = ''100'',
         networkPassphrase = ''Test SDF Network ; September 2015'',
         operations = ops, timeoutSeconds = Some 30, signatures = [signer]\<rparr>" for src signer ops
    by (simp add: buildTx_def getNetworkPassphrase_def lenientSdk_def sdkNetworks_def
        foldl_addOperation TransactionBuilder_new_def setTimeout_def build_def sign_def)
  have 1: "addLiquiditySoroswap refusedMaker lenientSdk 1700000000000 liquidityArgs =
     Some (Inr Undefined,
           [LogError [Text ''Non-API error occurred:'', Err (Failure ''Request failed'')],
            LogError [Err (Failure ''Request failed'')]])"
    by (simp add: addLiquiditySoroswap_def addLiquidity_op_def beforeTry_def prepareAndSign_def
        tryCatch_def submitAndConfirm_def catchRouter_def)
  have 2: "removeLiquiditySoroswap refusedMaker lenientSdk 1700000000000 removalArgs =
     Some (Inr Undefined,
           [LogError [Text ''Non-API error occurred:'', Err (Failure ''Request failed'')],
            LogError [Err (Failure ''Request failed'')]])"
    by (simp add: removeLiquiditySoroswap_def removeLiquidity_op_def beforeTry_def
        prepareAndSign_def tryCatch_def submitAndConfirm_def catchRouter_def)
  have 3: "swapExactTokensForTokensSoroswap refusedMaker lenientSdk 1700000000000 swapPathArgs =
     Some (Inr Undefined,
           [LogError [Text ''Non-API error occurred:'', Err (Failure ''Request failed'')],
            LogError [Err (Failure ''Request failed'')]])"
    by (simp add: swapExactTokensForTokensSoroswap_def swapExactTokensForTokens_op_def
        swapPathArgs_def beforeTry_def prepareAndSign_def tryCatch_def submitAndConfirm_def
        catchRouter_def)
  have 4: "mintTokens refusedMaker lenientSdk mintArgs =
     Some (Inr (ErrorResult (Failure ''Request failed'')),
           [LogError [Text ''Non-API error occurred:'', Err (Failure ''Request failed'')],
            Log [Text ''error:'', Err (Failure ''Request failed'')]])"
    by (simp add: mintTokens_def beforeTry_def prepareAndSign_def tryCatch_def
        submitAndConfirm_def catchMint_def)
  have 5: "payment unreachableMaker lenientSdk tenLumens = Some (Inl (Failure ''Network Error''), [])"
    by (simp add: payment_def beforeTry_def)
  from 1 2 3 4 5 show ?thesis by blast
qed

subsection \<open>The methods where nothing fails, and where nothing is ever observed\<close>

lemma twice_wait:
  "waitForConfirmation h twiceNotFoundThenSuccess =
     Some (Inr succeeded, \<lparr>queries = 3, suspensions = [1000, 1000]\<rparr>)"
proof -
  have "\<forall>k<2. interim (getTransaction twiceNotFoundThenSuccess h k)"
    and "\<not> interim (getTransaction twiceNotFoundThenSuccess h 2)"
    by (simp_all add: twiceNotFoundThenSuccess_def notFound_def succeeded_def)
  from wait_first [of 2 twiceNotFoundThenSuccess h, OF this] show ?thesis
    by (simp add: twiceNotFoundThenSuccess_def numeral_2_eq_2)
qed

lemma never_wait: "waitForConfirmation h alwaysNotFound = None"
proof (rule ccontr)
  assume "waitForConfirmation h alwaysNotFound \<noteq> None"
  then obtain y where "waitForConfirmation h alwaysNotFound = Some y" by auto
  from wait_Some_stops [OF this] show False
    by (simp add: alwaysNotFound_def notFound_def)
qed

lemma testnetMaker_builds [simp]:
  "network this = ''testnet'' \<Longrightarrow>
   buildTx this lenientSdk src signer ops =
    Inr \<lparr>Transaction.source = src, baseFee = ''100'',
         networkPassphrase = ''Test SDF Network ; September 2015'',
         operations = ops, timeoutSeconds = Some 30, signatures = [signer]\<rparr>"
  by (simp add: buildTx_def getNetworkPassphrase_def lenientSdk_def sdkNetworks_def
      foldl_addOperation TransactionBuilder_new_def setTimeout_def build_def sign_def)

text \<open>
  The same methods where nothing fails: each fulfils with the confirmation; and where
  the transaction is never observed, the promise of the method never settles.
\<close>

lemma testnetMaker_fields [simp]:
  "horizonServer testnetMaker = friendlyHorizon"
  "sorobanServer testnetMaker = twiceNotFoundThenSuccess"
  "routerContractAddress testnetMaker = ''CROUTER''"
  "network testnetMaker = ''testnet''"
  by (simp_all add: testnetMaker_def)

lemma friendly_services [simp]:
  "loadAccount friendlyHorizon k = Inr \<lparr>accountId = k, sequence = ''42''\<rparr>"
  "submitTransaction friendlyHorizon tx = Inr ''9f2c''"
  "getAccount twiceNotFoundThenSuccess k = Inr \<lparr>accountId = k, sequence = ''42''\<rparr>"
  "prepareTransaction twiceNotFoundThenSuccess tx = Inr tx"
  "sendTransaction twiceNotFoundThenSuccess tx = Inr ''9f2c''"
  by (simp_all add: friendlyHorizon_def twiceNotFoundThenSuccess_def)

lemma facade_confirms:
  "payment testnetMaker lenientSdk tenLumens = Some (Inr (Confirmation succeeded), [])"
  "mintTokens testnetMaker lenientSdk mintArgs = Some (Inr (Confirmation succeeded), [])"
  "addLiquiditySoroswap testnetMaker lenientSdk 1700000000000 liquidityArgs
     = Some (Inr (Confirmation succeeded), [])"
  "liquidityPoolDeposit testnetMaker lenientSdk bobAccount bob ''67260c4c'' ''200'' ''100''
     = Some (Inr (Confirmation succeeded), [])"
  by (simp_all add: payment_def mintTokens_def addLiquiditySoroswap_def liquidityPoolDeposit_def
      addLiquidity_op_def beforeTry_def prepareAndSign_def tryCatch_def submitAndConfirm_def
      twice_wait)

lemma facade_never_settles:
  "payment (testnetMaker\<lparr>sorobanServer := alwaysNotFound\<rparr>) lenientSdk tenLumens = None"
  by (simp add: payment_def beforeTry_def tryCatch_def submitAndConfirm_def never_wait)

text \<open>
  \<open>liquidityPoolDeposit\<close> has its whole body inside \<^verbatim>\<open>try\<close>: its promise never
  rejects.
\<close>

lemma liquidityPoolDeposit_never_rejects:
  "liquidityPoolDeposit this sdk src signer poolId maxReserveA maxReserveB \<noteq> Some (Inl e, out)"
  by (auto simp: liquidityPoolDeposit_def tryCatch_def catchHorizon_def Let_def
      split: option.splits sum.splits)

text \<open>
  Whatever the collaborators do, a router method whose \<^verbatim>\<open>try\<close> block raises
  fulfils with \<open>undefined\<close>, and the methods with the other two \<^verbatim>\<open>catch\<close> blocks
  fulfil with the error object.
\<close>

lemma tryCatch_raises:
  "tryCatch (Some (Inl e)) catchRouter = Some (Inr Undefined, out) \<longleftrightarrow>
     out = showErrorResultCodes e @ [LogError [Err e]]"
  "fst (the (tryCatch (Some (Inl e)) catchHorizon)) = Inr (ErrorResult e)"
  "fst (the (tryCatch (Some (Inl e)) catchMint)) = Inr (ErrorResult e)"
  by (auto simp: tryCatch_def catchRouter_def catchHorizon_def catchMint_def)

end
